theory Spec2Isabelle
  imports Main
begin

section \<open>The defensive strategy relay (orientation/strategy\_relay\_defensive.py)\<close>

text \<open>
  The script sequences calls to an external language-model agent: an optional Phase 0
  writes the list of attacks, then for every attack Phase A, Phase B and Phase D run in
  turn, and Phase E aggregates. Everything the script does beyond computing strings is an
  effect on the file system, a log line, a sleep or an agent call; the model threads a
  \<open>world\<close> (file system and the trace of effects so far) through every function.
\<close>

subsection \<open>Python strings\<close>

text \<open>
  A Python \<open>str\<close> is a sequence of code points, and \<open>len\<close>, slicing and \<open>lower\<close> work
  on code points. Here a string is a \<open>char list\<close> in which every \<open>char\<close> is one code
  point below 256 (ASCII and Latin-1); strings with other code points are outside the
  model. Five symbols in literals of the source lie above that range; each is written by
  its code point in angle brackets, as in \<open><U+2192>\<close>.
\<close>

definition nl :: string where
  "nl = [CHR 0x0A]"

definition lower_char :: "char \<Rightarrow> char" where
  \<comment> \<open>\<open>str.lower\<close> on one code point below 256: A to Z, and the Latin-1 capitals
      U+00C0 to U+00DE without the multiplication sign U+00D7, move up by 32.\<close>
  "lower_char c =
     (let n = (of_char c :: nat)
      in if (65 \<le> n \<and> n \<le> 90) \<or> (192 \<le> n \<and> n \<le> 222 \<and> n \<noteq> 215)
         then char_of (n + 32) else c)"

definition lower :: "string \<Rightarrow> string" where
  "lower s = map lower_char s"

definition replace :: "char \<Rightarrow> char \<Rightarrow> string \<Rightarrow> string" where
  \<comment> \<open>\<open>s.replace(a, b)\<close> where \<open>a\<close> and \<open>b\<close> are one character each.\<close>
  "replace a b s = map (\<lambda>c. if c = a then b else c) s"

fun join :: "string \<Rightarrow> string list \<Rightarrow> string" where
  \<comment> \<open>\<open>sep.join(xs)\<close>\<close>
  "join sep [] = []"
| "join sep [x] = x"
| "join sep (x # y # ys) = x @ sep @ join sep (y # ys)"

definition text_lines :: "string list \<Rightarrow> string" where
  \<comment> \<open>A triple-quoted literal, given line by line.\<close>
  "text_lines ls = join nl ls"

definition digit_char :: "nat \<Rightarrow> char" where
  "digit_char d = char_of (48 + d)"

fun str_nat :: "nat \<Rightarrow> string" where
  \<comment> \<open>\<open>str(n)\<close> of a non-negative integer, as an f-string formats \<open>len(attacks)\<close>.\<close>
  "str_nat n = (if n < 10 then [digit_char n] else str_nat (n div 10) @ [digit_char (n mod 10)])"

declare str_nat.simps [simp del]

definition truthy :: "string option \<Rightarrow> bool" where
  \<comment> \<open>Python truth of a value that is \<open>None\<close> or a string.\<close>
  "truthy v = (case v of None \<Rightarrow> False | Some s \<Rightarrow> s \<noteq> [])"

subsection \<open>Paths and the file system\<close>

text \<open>
  A \<open>pathlib.Path\<close> is modelled by the list of its components below the root, and
  \<open>p / name\<close> adds one component. \<open>Path(args.case_folder).resolve()\<close> is taken as
  given: the case folder arrives as an absolute path. A component is one name: names
  holding a separator, which pathlib would split, are not modelled.

  The file system holds the directories that exist and the regular files with their
  text. Failures of the operating system (permissions, a regular file where a directory
  is to be made, a full disk) are outside the model.
\<close>

type_synonym path = "string list"

definition path_join :: "path \<Rightarrow> string \<Rightarrow> path" where
  "path_join p name = p @ [name]"

definition path_name :: "path \<Rightarrow> string" where
  \<comment> \<open>\<open>p.name\<close>\<close>
  "path_name p = (if p = [] then [] else last p)"

definition path_parent :: "path \<Rightarrow> path" where
  \<comment> \<open>\<open>p.parent\<close>\<close>
  "path_parent p = butlast p"

definition path_str :: "path \<Rightarrow> string" where
  \<comment> \<open>\<open>str(p)\<close> of an absolute path.\<close>
  "path_str p = (if p = [] then ''/'' else concat (map (\<lambda>name. ''/'' @ name) p))"

record fs =
  dirs :: "path list"
  files :: "(path \<times> string) list"

definition path_exists :: "fs \<Rightarrow> path \<Rightarrow> bool" where
  \<comment> \<open>\<open>p.exists()\<close>\<close>
  "path_exists f p \<longleftrightarrow> p \<in> set (dirs f) \<or> map_of (files f) p \<noteq> None"

definition mkdir :: "path \<Rightarrow> fs \<Rightarrow> fs" where
  \<comment> \<open>\<open>p.mkdir(parents=True, exist_ok=True)\<close>: the directory and every missing ancestor.\<close>
  "mkdir p f =
     f\<lparr>dirs := dirs f @ filter (\<lambda>d. d \<notin> set (dirs f)) (map (\<lambda>n. take n p) [1..<Suc (length p)])\<rparr>"

definition glob_attacks :: "fs \<Rightarrow> path \<Rightarrow> string \<Rightarrow> path list" where
  \<comment> \<open>\<open>strategy_dir.glob("attacks/*/" + name)\<close>, in the order in which the file system
      lists its files.\<close>
  "glob_attacks f strategy_dir name =
     filter (\<lambda>p. length p = length strategy_dir + 3 \<and> take (length strategy_dir) p = strategy_dir
                 \<and> p ! length strategy_dir = ''attacks'' \<and> last p = name)
       (remdups (map fst (files f)))"

definition read_text :: "fs \<Rightarrow> path \<Rightarrow> string" where
  \<comment> \<open>\<open>p.read_text(encoding="utf-8")\<close> of a file that exists (the script reads only
      files that \<open>glob\<close> has just listed).\<close>
  "read_text f p = (case map_of (files f) p of Some t \<Rightarrow> t | None \<Rightarrow> [])"

subsection \<open>Attacks and loaded JSON documents\<close>

text \<open>
  An attack is the dict of one entry of \<open>ATTACKS.json\<close>. The script indexes the keys
  \<open>id\<close> and \<open>name\<close> and reads \<open>targets\<close>, \<open>opposing_argument\<close>, \<open>their_argument\<close> and
  \<open>jurisdiction\<close> with \<open>.get\<close>, so these four may be absent. The values have the types
  the prompt of Phase 0 prescribes; an entry of another shape is not an attack of this
  model. Two attacks are equal, as Python dicts are, when all their keys agree.
\<close>

record attack =
  a_id :: string
  a_name :: string
  a_targets :: "string list option"
  a_opposing_argument :: "string option"
  a_their_argument :: "string option"
  a_jurisdiction :: "string option"
  a_cases_cited_by_opponent :: "string list"
  a_danger_level :: string
  a_status :: string

text \<open>
  A loaded JSON document is a dict, of which the script reads two keys: \<open>attacks\<close>
  (in \<open>ATTACKS.json\<close>) and \<open>file_search_store_id\<close> (in \<open>settings.json\<close>). A key that is
  absent and a key whose value is \<open>null\<close> are both \<open>None\<close>: \<open>.get\<close> then gives a value
  that is false in either case.
\<close>

record json_dict =
  d_attacks :: "attack list option"
  d_file_search_store_id :: "string option"
  d_other_keys :: "string list"

definition dict_empty :: "json_dict \<Rightarrow> bool" where
  \<comment> \<open>\<open>not data\<close> for a dict\<close>
  "dict_empty d \<longleftrightarrow> d_attacks d = None \<and> d_file_search_store_id d = None \<and> d_other_keys d = []"

definition get_attacks :: "json_dict \<Rightarrow> attack list" where
  \<comment> \<open>\<open>data.get("attacks", [])\<close>; a \<open>null\<close> value is as false as the empty list.\<close>
  "get_attacks d = (case d_attacks d of None \<Rightarrow> [] | Some as \<Rightarrow> as)"

subsection \<open>The directory of an attack (main, lines 832 to 834)\<close>

definition attack_name_slug :: "string \<Rightarrow> string" where
  \<comment> \<open>\<open>attack["name"].lower().replace(" ", "_").replace("-", "_")[:30]\<close>\<close>
  "attack_name_slug name = take 30 (replace CHR ''-'' CHR ''_'' (replace CHR '' '' CHR ''_'' (lower name)))"

definition attack_dir :: "path \<Rightarrow> attack \<Rightarrow> path" where
  \<comment> \<open>\<open>strategy_dir / "attacks" / f"{attack_id}_{attack_name_slug}"\<close>\<close>
  "attack_dir strategy_dir attack =
     path_join (path_join strategy_dir ''attacks'') (a_id attack @ ''_'' @ attack_name_slug (a_name attack))"

definition spec_slug :: "string \<Rightarrow> string" where
  \<comment> \<open>The specification's words: lowercased, spaces and hyphens replaced, truncated to
      30 characters, other punctuation left as it is.\<close>
  "spec_slug name =
     take 30 (map (\<lambda>c. if c = CHR '' '' \<or> c = CHR ''-'' then CHR ''_'' else lower_char c) name)"

definition standing_defense :: attack where
  "standing_defense =
     \<lparr>a_id = ''002'', a_name = ''Standing Defense!!'', a_targets = None,
      a_opposing_argument = None, a_their_argument = None, a_jurisdiction = None,
      a_cases_cited_by_opponent = [], a_danger_level = ''high'', a_status = ''confirmed''\<rparr>"

subsection \<open>Effects: log lines, sleeps and agent calls\<close>

text \<open>
  \<open>strategy_utils\<close> (\<open>log\<close>, \<open>run_agent\<close>, \<open>load_json_file\<close>, \<open>build_context_string\<close>)
  is not among the sources at hand. A call of \<open>log\<close> or \<open>run_agent\<close> is recorded as an
  event; what the helpers compute is a parameter of the model, collected in \<open>env\<close>.
\<close>

record agent_call =
  c_agent :: string
  c_role :: string
  c_task :: string
  c_context :: string
  c_cwd :: path
  c_max_retries :: nat
  c_timeout :: nat
  c_phase_name :: string
  c_output_file :: "string option"

datatype event =
    Invoke agent_call
  | Sleep nat
  | Log string "string option"  \<comment> \<open>message, and the level when one is passed\<close>

record world =
  w_fs :: fs
  w_trace :: "event list"

text \<open>
  Modelled from the spec: \<open>run_agent\<close> is the Agent Invoker, "an opaque capability:
  invoke(role, task, context) -> text/file"; a failure after the retries is "logged, not
  raised". So a call returns, and all it does to the orchestrator is change the file
  system; the text it returns is dropped by every caller. The agent may answer the same
  call differently each time: its first argument is the number of earlier calls.

  Modelled from the spec: \<open>load_json_file\<close> is \<open>read_json(path) -> value or null on
  parse/IO failure\<close>, never raising; \<open>None\<close> is that null.

  \<open>build_context_string\<close> concatenates the context files; \<open>json_dumps\<close> is
  \<open>json.dumps(value, indent=2)\<close>; \<open>isoformat_now\<close> and \<open>strftime_now\<close> are
  \<open>datetime.now().isoformat()\<close> and \<open>datetime.now().strftime("%Y-%m-%d %H:%M")\<close>, read
  when the given number of events have happened.
\<close>

record env =
  run_agent :: "nat \<Rightarrow> agent_call \<Rightarrow> fs \<Rightarrow> fs"
  load_json_file :: "fs \<Rightarrow> path \<Rightarrow> json_dict option"
  build_context_string :: "fs \<Rightarrow> path list \<Rightarrow> string"
  json_dumps :: "json_dict option \<Rightarrow> string"
  isoformat_now :: "nat \<Rightarrow> string"
  strftime_now :: "nat \<Rightarrow> string"

fun event_calls :: "event \<Rightarrow> agent_call list" where
  "event_calls (Invoke c) = [c]"
| "event_calls (Sleep n) = []"
| "event_calls (Log msg level) = []"

fun event_sleeps :: "event \<Rightarrow> nat list" where
  "event_sleeps (Invoke c) = []"
| "event_sleeps (Sleep n) = [n]"
| "event_sleeps (Log msg level) = []"

definition calls :: "world \<Rightarrow> agent_call list" where
  \<comment> \<open>the agent calls made so far, oldest first\<close>
  "calls w = concat (map event_calls (w_trace w))"

definition sleeps :: "world \<Rightarrow> nat list" where
  \<comment> \<open>the sleeps so far, in seconds\<close>
  "sleeps w = concat (map event_sleeps (w_trace w))"

definition phases :: "world \<Rightarrow> string list" where
  \<comment> \<open>the phase names of the agent calls so far\<close>
  "phases w = map c_phase_name (calls w)"

definition log :: "string \<Rightarrow> string option \<Rightarrow> world \<Rightarrow> world" where
  "log msg level w = w\<lparr>w_trace := w_trace w @ [Log msg level]\<rparr>"

definition sleep :: "nat \<Rightarrow> world \<Rightarrow> world" where
  \<comment> \<open>\<open>time.sleep(n)\<close>\<close>
  "sleep n w = w\<lparr>w_trace := w_trace w @ [Sleep n]\<rparr>"

definition make_dir :: "path \<Rightarrow> world \<Rightarrow> world" where
  "make_dir p w = w\<lparr>w_fs := mkdir p (w_fs w)\<rparr>"

definition run_agent_defensive ::
  "env \<Rightarrow> string \<Rightarrow> string \<Rightarrow> string \<Rightarrow> string \<Rightarrow> path \<Rightarrow> string \<Rightarrow> string \<Rightarrow> world \<Rightarrow> world" where
  \<comment> \<open>lines 49 to 68, with the defaults \<open>max_retries=5\<close> and \<open>timeout=600\<close> that every
      caller leaves in place\<close>
  "run_agent_defensive env agent role task context cwd phase_name output_file w =
     (let call = \<lparr>c_agent = agent, c_role = role, c_task = task, c_context = context,
                  c_cwd = cwd, c_max_retries = 5, c_timeout = 600,
                  c_phase_name = phase_name, c_output_file = Some output_file\<rparr>
      in w\<lparr>w_fs := run_agent env (length (calls w)) call (w_fs w),
           w_trace := w_trace w @ [Invoke call]\<rparr>)"

definition str_opt :: "string option \<Rightarrow> string" where
  \<comment> \<open>how an f-string formats a value that is \<open>None\<close> or a string\<close>
  "str_opt v = (case v of None \<Rightarrow> ''None'' | Some s \<Rightarrow> s)"

definition opposing_argument :: "attack \<Rightarrow> string" where
  \<comment> \<open>\<open>attack.get("opposing_argument", attack.get("their_argument", ""))\<close>\<close>
  "opposing_argument attack =
     (case a_opposing_argument attack of
        Some s \<Rightarrow> s
      | None \<Rightarrow> (case a_their_argument attack of Some s \<Rightarrow> s | None \<Rightarrow> []))"

subsection \<open>The prompts\<close>

definition phase_0_note_store :: "string \<Rightarrow> string \<Rightarrow> string" where
  \<comment> \<open>lines 103 to 113\<close>
  \<open>phase_0_note_store file_search_store_id motion_search_term =
     text_lines
     [[],
      ''You have access to semantic document search via `file_search_query_legal-hub`.'',
      ''Store ID: '' @ file_search_store_id,
      [],
      ''Use this to find and read the opposing motion:'',
      ''- Query: "What are the arguments in the '' @ motion_search_term @ ''?"'',
      ''- Query: "What claims does the defendant attack in their motion?"'',
      ''- Query: "What legal theories does the motion rely on?"'',
      [],
      ''You can also query for specific details about each argument.'',
      []]\<close>

definition phase_0_note_index :: "string \<Rightarrow> string" where
  \<comment> \<open>lines 115 to 118\<close>
  \<open>phase_0_note_index motion_search_term =
     text_lines
     [[],
      ''Review the documents_index.json to find the '' @ motion_search_term @ ''.'',
      ''Read the document to extract the attacks.'',
      []]\<close>

definition phase_0_task :: "string \<Rightarrow> string \<Rightarrow> string \<Rightarrow> string \<Rightarrow> string \<Rightarrow> string" where
  \<comment> \<open>lines 122 to 169\<close>
  \<open>phase_0_task motion_search_term file_search_note output_file strategy_name detected_at =
     text_lines
     [''You are analyzing an opposing motion to extract the ATTACKS we must defend against.'',
      [],
      ''Search Term: "'' @ motion_search_term @ ''"'',
      [],
      ''Your job:'',
      ''1. FIND the opposing motion in the case documents'',
      ''2. READ the motion carefully'',
      ''3. EXTRACT each distinct attack/argument they make'',
      ''4. For each attack, identify:'',
      ''   - What claims/counts it targets'',
      ''   - Their core argument'',
      ''   - Cases they cite'',
      ''   - How dangerous this attack is (high/medium/low)'',
      [],
      file_search_note,
      [],
      ''**IMPORTANT**:'',
      ''- Each attack should be a DISTINCT argument, not a sub-point'',
      ''- Group related sub-arguments under one attack'',
      ''- Identify the governing standard (e.g., Rule 12(b)(6) for MTD)'',
      [],
      ''OUTPUT: Write a JSON file to '' @ output_file @ '' with this exact structure:'',
      [],
      ''{'',
      ''  "strategy_id": "'' @ strategy_name @ ''",'',
      ''  "strategy_type": "defensive",'',
      ''  "responding_to": {'',
      ''    "document": "[Full name of the motion]",'',
      ''    "filed_by": "[Who filed it]",'',
      ''    "filed_date": "[Date if known, otherwise null]"'',
      ''  },'',
      ''  "governing_standard": "[e.g., Rule 12(b)(6) - Failure to State a Claim]",'',
      ''  "attacks": ['',
      ''    {'',
      ''      "id": "001",'',
      ''      "name": "[Short descriptive name for this attack]",'',
      ''      "targets": ["Count I", "Count II"],'',
      ''      "opposing_argument": "[Their argument in 2-3 sentences]",'',
      ''      "cases_cited_by_opponent": ["Case 1", "Case 2"],'',
      ''      "danger_level": "high|medium|low",'',
      ''      "status": "confirmed"'',
      ''    }'',
      ''  ],'',
      ''  "auto_detected": true,'',
      ''  "detected_at": "'' @ detected_at @ ''"'',
      ''}'',
      [],
      ''Be thorough - capture ALL distinct attacks in the motion.'']\<close>

definition phase_a_attack_details :: "string \<Rightarrow> string \<Rightarrow> string list \<Rightarrow> string \<Rightarrow> string" where
  \<comment> \<open>lines 239 to 246\<close>
  \<open>phase_a_attack_details attack_id attack_name targets their_argument =
     text_lines
     [[],
      [],
      ''=== ATTACK BEING ANALYZED ==='',
      ''Attack ID: '' @ attack_id,
      ''Attack Name: '' @ attack_name,
      ''Claims Targeted: '' @ join '', '' targets,
      ''Their Argument: '' @ their_argument,
      []]\<close>

definition phase_a_note_store :: "string \<Rightarrow> string" where
  \<comment> \<open>lines 250 to 258\<close>
  \<open>phase_a_note_store file_search_store_id =
     text_lines
     [[],
      ''You have access to semantic document search via `file_search_query_legal-hub`.'',
      ''Store ID: '' @ file_search_store_id,
      [],
      ''Use this to query case documents, e.g.:'',
      ''- "What does the contract say about assignment?"'',
      ''- "Who is named as the creditor in the contract?"'',
      ''- "What documents did CPS provide in their validation response?"'',
      []]\<close>

definition phase_a_note_index :: "string" where
  \<comment> \<open>lines 260 to 263\<close>
  \<open>phase_a_note_index =
     text_lines
     [[],
      ''Review the documents_index.json to understand what documents are available.'',
      ''Read specific documents as needed using their file paths.'',
      []]\<close>

definition phase_a_task :: "string \<Rightarrow> string \<Rightarrow> string \<Rightarrow> string \<Rightarrow> string" where
  \<comment> \<open>lines 267 to 325\<close>
  \<open>phase_a_task file_search_note output_file attack_id attack_name =
     text_lines
     [''You are analyzing the EVIDENCE that opposing counsel relies on for this attack.'',
      [],
      ''Your job is to:'',
      [],
      ''1. IDENTIFY what evidence they cite or rely on'',
      ''   - What documents did they attach?'',
      ''   - What facts do they assert?'',
      ''   - What do they claim their evidence proves?'',
      [],
      ''2. ANALYZE what their evidence ACTUALLY shows'',
      ''   - Read the actual documents (use file search or local files)'',
      ''   - What do the documents actually say vs. what they claim?'',
      ''   - Who is named in the documents?'',
      ''   - What's MISSING from the documents?'',
      [],
      ''3. APPLY burden-shifting analysis'',
      ''   - Under the applicable legal standard, who has the burden of proof?'',
      ''   - Has opposing counsel met their burden?'',
      ''   - What gaps exist in their proof?'',
      [],
      ''4. SURFACE additional arguments'',
      ''   - Based on evidence gaps, what arguments can we make?'',
      ''   - What did they fail to prove?'',
      ''   - What assumptions are they making without support?'',
      ''   - For legal basis of arguments, use the `search_cases_legal-hub` tool or `quick_search_legal-hub` tool to find real authority. Never invent citations.'',
      [],
      file_search_note,
      [],
      ''OUTPUT: Write a JSON file to '' @ output_file @ '' with this exact structure:'',
      [],
      ''{'',
      ''  "attack_id": "'' @ attack_id @ ''",'',
      ''  "attack_name": "'' @ attack_name @ ''",'',
      ''  "evidence_they_rely_on": ['',
      ''    {'',
      ''      "document": "[Document name/description]",'',
      ''      "what_they_claim": "[What they say it proves]",'',
      ''      "what_it_actually_shows": "[What it actually says]",'',
      ''      "gaps_identified": ["Gap 1", "Gap 2"],'',
      ''      "document_level_findings": {'',
      ''        "parties_named": "[Who is named]",'',
      ''        "key_missing_elements": ["Missing 1", "Missing 2"]'',
      ''      }'',
      ''    }'',
      ''  ],'',
      ''  "burden_analysis": {'',
      ''    "applicable_standard": "[Legal standard/statute]",'',
      ''    "who_has_burden": "[Which party]",'',
      ''    "burden_met": false,'',
      ''    "why_not": "[Explanation]"'',
      ''  },'',
      ''  "additional_arguments_surfaced": ['',
      ''    {'',
      ''      "argument": "[The argument]",'',
      ''      "legal_basis": "[Statute or case law]",'',
      ''      "factual_support": "[What facts support this]"'',
      ''    }'',
      ''  ]'',
      ''}'']\<close>

definition phase_b_context :: "string \<Rightarrow> string \<Rightarrow> string \<Rightarrow> string \<Rightarrow> string \<Rightarrow> string" where
  \<comment> \<open>lines 382 to 393; the two documents arrive as their \<open>json.dumps\<close> texts\<close>
  \<open>phase_b_context evidence_analysis attack_id attack_name their_argument documents_index =
     text_lines
     [[],
      ''=== EVIDENCE ANALYSIS (from Phase A) ==='',
      evidence_analysis,
      [],
      ''=== ATTACK DETAILS ==='',
      ''Attack ID: '' @ attack_id,
      ''Attack Name: '' @ attack_name,
      ''Their Argument: '' @ their_argument,
      [],
      ''=== AVAILABLE CASE DOCUMENTS ==='',
      documents_index,
      []]\<close>

definition phase_b_note_store :: "string \<Rightarrow> string" where
  \<comment> \<open>lines 397 to 405\<close>
  \<open>phase_b_note_store file_search_store_id =
     text_lines
     [[],
      ''You have semantic document search via the `file_search_query_legal-hub` tool.'',
      ''Store ID: '' @ file_search_store_id,
      [],
      ''Use this to find facts in case documents:'',
      ''- "What evidence supports [requirement]?"'',
      ''- "What does the contract say about [topic]?"'',
      ''- "What facts relate to [issue]?"'',
      []]\<close>

definition phase_b_note_index :: "string" where
  \<comment> \<open>lines 407 to 409\<close>
  \<open>phase_b_note_index =
     text_lines
     [[],
      ''Review the documents_index.json above and read specific documents as needed to find supporting facts.'',
      []]\<close>

definition phase_b_task :: "string \<Rightarrow> string \<Rightarrow> string \<Rightarrow> string \<Rightarrow> string \<Rightarrow> string" where
  \<comment> \<open>lines 413 to 475\<close>
  \<open>phase_b_task file_search_note jurisdiction output_file attack_id attack_name =
     text_lines
     [''Based on the evidence analysis, extract the COUNTER-REQUIREMENTS needed to rebut this attack,'',
      ''AND map specific facts from case documents to each counter-requirement.'',
      [],
      ''A counter-requirement is something WE must prove to defeat THEIR argument.'',
      [],
      ''## PART 1: Counter-Requirement Extraction'',
      [],
      ''For each counter-requirement, determine:'',
      ''1. What must we prove?'',
      ''2. What is the legal basis? Use the `search_cases_legal-hub` tool and `deep_research_legal-hub` tool to find REAL statutes and case law. Never invent citations.'',
      ''3. How do we establish this?'',
      [],
      ''Consider:'',
      ''- Arguments that REFRAME their attack (e.g., "This isn't 'show me the note' - it's contract authenticity")'',
      ''- Arguments based on EVIDENCE GAPS (e.g., "No assignment documentation")'',
      ''- Arguments based on BURDEN-SHIFTING (e.g., "They failed to meet their burden under '' @ [CHR 0xA7] @ '' 11-3-308")'',
      ''- Arguments that the FACTUAL DISPUTE survives the motion standard'',
      [],
      ''## PART 2: Fact Matching'',
      [],
      ''For EACH counter-requirement you identify, search the case documents for supporting facts:'',
      ''1. Find the specific fact from our documents'',
      ''2. Note the source document'',
      ''3. Rate evidence strength (strong/moderate/weak)'',
      ''4. Update status based on evidence found (proven/disputed/unproven)'',
      [],
      file_search_note,
      [],
      ''Be thorough but accurate. Only cite facts that actually exist in the documents.'',
      [],
      ''Jurisdiction: '' @ jurisdiction,
      [],
      ''## IMPORTANT: Tool Usage'',
      ''- Use the `search_cases_legal-hub` tool to find relevant case law for each counter-requirement'',
      ''- Use the `deep_research_legal-hub` tool for complex legal questions requiring comprehensive analysis'',
      ''- Use the `lookup_citation_legal-hub` tool to verify any specific citation before including it'',
      ''- Use the `quick_search_legal-hub` tool for quick factual lookups on statutes or standards'',
      [],
      ''OUTPUT: Write a JSON file to '' @ output_file @ '' with this exact structure:'',
      [],
      ''{'',
      ''  "attack_id": "'' @ attack_id @ ''",'',
      ''  "attack_name": "'' @ attack_name @ ''",'',
      ''  "jurisdiction": "'' @ jurisdiction @ ''",'',
      ''  "counter_requirements": ['',
      ''    {'',
      ''      "id": "CR1",'',
      ''      "requirement": "[What we must prove/argue]",'',
      ''      "legal_basis": "[Statute or case citation - MUST BE REAL, verified via MCP tools]",'',
      ''      "how_to_prove": "[How we establish this]",'',
      ''      "our_facts": ['',
      ''        {'',
      ''          "fact": "[Specific fact from case documents]",'',
      ''          "source": "[Document name/path]",'',
      ''          "strength": "strong|moderate|weak",'',
      ''          "notes": "[Any relevant notes]"'',
      ''        }'',
      ''      ],'',
      ''      "status": "proven|disputed|unproven"'',
      ''    }'',
      ''  ],'',
      ''  "rebuttal_summary": "[2-3 sentence summary of our rebuttal strategy]"'',
      ''}'']\<close>

definition phase_d_context :: "string \<Rightarrow> string \<Rightarrow> string" where
  \<comment> \<open>lines 523 to 529\<close>
  \<open>phase_d_context evidence_analysis counter_reqs =
     text_lines
     [[],
      ''=== EVIDENCE ANALYSIS ==='',
      evidence_analysis,
      [],
      ''=== COUNTER-REQUIREMENTS ==='',
      counter_reqs,
      []]\<close>

definition phase_d_task :: "string \<Rightarrow> string \<Rightarrow> string \<Rightarrow> string \<Rightarrow> string" where
  \<comment> \<open>lines 533 to 571\<close>
  \<open>phase_d_task attack_id attack_name output_file generated =
     text_lines
     [''Analyze the rebuttal strength for Attack '' @ attack_id @ '': '' @ attack_name,
      [],
      ''Your analysis must include:'',
      [],
      ''1. REBUTTAL STRENGTH SCORE'',
      ''   - STRONG: All counter-requirements proven, evidence gaps identified, burden analysis favorable'',
      ''   - MODERATE: Most counter-requirements supported, some gaps in our evidence'',
      ''   - WEAK: Critical counter-requirements unproven'',
      ''   - FATAL: Cannot rebut this attack'',
      [],
      ''2. COUNTER-REQUIREMENT SUMMARY TABLE'',
      ''   For each CR: Status (<U+2705>/<U+26A0><U+FE0F>/<U+274C>) and evidence strength'',
      [],
      ''3. THE CRITICAL DISTINCTIONS'',
      ''   How do we distinguish our position from what they claim?'',
      ''   (e.g., "This is contract authenticity, not 'show me the note'")'',
      [],
      ''4. ADVERSARIAL CHECK'',
      ''   Role-play as opposing counsel responding to our rebuttal.'',
      ''   - What will they say?'',
      ''   - How do we handle their surrebuttal?'',
      [],
      ''5. EVIDENCE MAPPED'',
      ''   List all evidence supporting our rebuttal, organized by category.'',
      [],
      ''6. GAPS AND RECOMMENDATIONS'',
      ''   - What's still missing?'',
      ''   - What discovery would help?'',
      [],
      ''OUTPUT: Write a MARKDOWN file to '' @ output_file @ ''. Start the file with this header:'',
      [],
      ''# Analysis: '' @ attack_name,
      [],
      ''**Generated**: '' @ generated,
      ''**Attack ID**: '' @ attack_id,
      [],
      ''---'',
      [],
      ''Then write the full analysis with clear sections.'']\<close>

definition phase_e_context :: "string \<Rightarrow> string" where
  \<comment> \<open>lines 618 to 622\<close>
  \<open>phase_e_context attacks_data =
     text_lines
     [[],
      ''=== ATTACKS OVERVIEW ==='',
      attacks_data,
      [],
      []]\<close>

definition phase_e_task :: "string \<Rightarrow> string \<Rightarrow> string \<Rightarrow> string" where
  \<comment> \<open>lines 638 to 674\<close>
  \<open>phase_e_task output_file generated strategy_name =
     text_lines
     [''Create a consolidated GAP ANALYSIS report across all attacks.'',
      [],
      ''Include:'',
      [],
      ''1. EXECUTIVE SUMMARY'',
      ''   - Overall defense strength'',
      ''   - Number of attacks and rebuttal scores'',
      ''   - Critical risks'',
      [],
      ''2. ATTACK STATUS TABLE'',
      ''   | Attack | Rebuttal Strength | Key Argument | Key Risk |'',
      [],
      ''3. EVIDENCE INVENTORY'',
      ''   | Evidence | Supports Which Attack | Strength |'',
      [],
      ''4. CRITICAL GAPS'',
      ''   For each gap:'',
      ''   - Which attack it affects'',
      ''   - What's missing'',
      ''   - How to address it'',
      [],
      ''5. PRIORITY ACTIONS'',
      ''   Ordered list of next steps'',
      [],
      ''6. STRATEGIC RECOMMENDATION'',
      ''   Overall recommendation for the response'',
      [],
      ''OUTPUT: Write a MARKDOWN file to '' @ output_file @ ''. Start the file with this header:'',
      [],
      ''# Gap Analysis - Defensive Strategy'',
      [],
      ''**Generated**: '' @ generated,
      ''**Strategy**: '' @ strategy_name,
      [],
      ''---'',
      [],
      ''Then write the full gap analysis with clear sections.'']\<close>

subsection \<open>Phase 0: the attack detector (lines 75 to 198)\<close>

definition phase_0_detect_attacks ::
  "env \<Rightarrow> string \<Rightarrow> path \<Rightarrow> path \<Rightarrow> string \<Rightarrow> string option \<Rightarrow> world \<Rightarrow> path option \<times> world" where
  "phase_0_detect_attacks env agent case_folder strategy_dir motion_search_term file_search_store_id w =
     (let case_context_dir = path_join case_folder ''case-context'';
          context_files = [path_join case_context_dir ''case_summary.md'',
                           path_join case_context_dir ''documents_index.json'',
                           path_join case_context_dir ''user_narrative.md''];
          context = build_context_string env (w_fs w) context_files;
          file_search_note =
            (if truthy file_search_store_id
             then phase_0_note_store (str_opt file_search_store_id) motion_search_term
             else phase_0_note_index motion_search_term);
          output_file = path_join strategy_dir ''ATTACKS.json'';
          task = phase_0_task motion_search_term file_search_note (path_str output_file)
                   (path_name strategy_dir) (isoformat_now env (length (w_trace w)));
          w1 = log (''Phase 0: Auto-detecting attacks from '' @ [CHR 0x27] @ motion_search_term @ [CHR 0x27])
                 (Some ''PHASE'') w;
          w2 = run_agent_defensive env agent ''Legal Analyst - Motion decomposition specialist''
                 task context case_folder ''Phase_0_Attack_Detection'' (path_str output_file) w1
      in if \<not> path_exists (w_fs w2) output_file
         then (None, log (''Agent did not create ATTACKS.json at '' @ path_str output_file) (Some ''ERROR'') w2)
         else
           (case load_json_file env (w_fs w2) output_file of
              None \<Rightarrow> (None, log ''ATTACKS.json is empty or has no attacks'' (Some ''ERROR'') w2)
            | Some data \<Rightarrow>
                if dict_empty data \<or> get_attacks data = []
                then (None, log ''ATTACKS.json is empty or has no attacks'' (Some ''ERROR'') w2)
                else
                  (let num_attacks = length (get_attacks data);
                       w3 = log (''  <U+2192> Detected '' @ str_nat num_attacks @ '' attacks'') (Some ''DONE'') w2;
                       w4 = log ''  <U+2192> Created: ATTACKS.json'' (Some ''DONE'') w3
                   in (Some output_file, w4))))"

subsection \<open>Phase A: the evidence analyst (lines 205 to 345)\<close>

definition phase_a_evidence_analysis ::
  "env \<Rightarrow> string \<Rightarrow> attack \<Rightarrow> path \<Rightarrow> path \<Rightarrow> string option \<Rightarrow> world \<Rightarrow> path \<times> world" where
  "phase_a_evidence_analysis env agent attack case_folder output_dir file_search_store_id w =
     (let attack_id = a_id attack;
          attack_name = a_name attack;
          targets = (case a_targets attack of None \<Rightarrow> [] | Some ts \<Rightarrow> ts);
          their_argument = opposing_argument attack;
          case_context_dir = path_join case_folder ''case-context'';
          context_files = [path_join case_context_dir ''case_summary.md'',
                           path_join case_context_dir ''documents_index.json''];
          context = build_context_string env (w_fs w) context_files
                      @ phase_a_attack_details attack_id attack_name targets their_argument;
          file_search_note =
            (if truthy file_search_store_id
             then phase_a_note_store (str_opt file_search_store_id)
             else phase_a_note_index);
          output_file = path_join output_dir ''EVIDENCE_ANALYSIS.json'';
          task = phase_a_task file_search_note (path_str output_file) attack_id attack_name;
          w1 = log (''Phase A: Analyzing evidence for Attack '' @ attack_id @ '': '' @ attack_name)
                 (Some ''PHASE'') w;
          w2 = run_agent_defensive env agent ''Evidence Analyst - Document examiner and gap identifier''
                 task context case_folder (''Phase_A_Evidence_'' @ attack_id) (path_str output_file) w1;
          w3 = (if path_exists (w_fs w2) output_file
                then log (''  <U+2192> Created: '' @ path_name output_file) (Some ''DONE'') w2
                else log (''Agent did not create '' @ path_name output_file) (Some ''ERROR'') w2)
      in (output_file, w3))"

subsection \<open>Phase B: counter-requirements and fact matching (lines 352 to 495)\<close>

definition phase_b_counter_requirements ::
  "env \<Rightarrow> string \<Rightarrow> attack \<Rightarrow> path \<Rightarrow> path \<Rightarrow> path \<Rightarrow> string option \<Rightarrow> world \<Rightarrow> path \<times> world" where
  "phase_b_counter_requirements env agent attack evidence_analysis_file case_folder output_dir
       file_search_store_id w =
     (let attack_id = a_id attack;
          attack_name = a_name attack;
          jurisdiction = (case a_jurisdiction attack of None \<Rightarrow> ''Georgia'' | Some j \<Rightarrow> j);
          evidence_analysis = load_json_file env (w_fs w) evidence_analysis_file;
          case_context_dir = path_join case_folder ''case-context'';
          documents_index = load_json_file env (w_fs w) (path_join case_context_dir ''documents_index.json'');
          context = phase_b_context (json_dumps env evidence_analysis) attack_id attack_name
                      (opposing_argument attack) (json_dumps env documents_index);
          file_search_note =
            (if truthy file_search_store_id
             then phase_b_note_store (str_opt file_search_store_id)
             else phase_b_note_index);
          output_file = path_join output_dir ''counter_requirements.json'';
          task = phase_b_task file_search_note jurisdiction (path_str output_file) attack_id attack_name;
          w1 = log (''Phase B: Extracting counter-requirements + fact matching for Attack '' @ attack_id)
                 (Some ''PHASE'') w;
          w2 = run_agent_defensive env agent
                 ''Legal Research Clerk - Counter-argument and fact-mapping specialist''
                 task context case_folder (''Phase_B_Counter_Req_'' @ attack_id) (path_str output_file) w1;
          w3 = (if path_exists (w_fs w2) output_file
                then log (''  <U+2192> Created: '' @ path_name output_file) (Some ''DONE'') w2
                else log (''Agent did not create '' @ path_name output_file) (Some ''ERROR'') w2)
      in (output_file, w3))"

subsection \<open>Phase D: the viability analyst (lines 502 to 591)\<close>

definition phase_d_viability_analysis ::
  "env \<Rightarrow> string \<Rightarrow> attack \<Rightarrow> path \<Rightarrow> path \<Rightarrow> path \<Rightarrow> path \<Rightarrow> world \<Rightarrow> path \<times> world" where
  "phase_d_viability_analysis env agent attack evidence_analysis_file counter_req_file output_dir
       case_folder w =
     (let attack_id = a_id attack;
          attack_name = a_name attack;
          evidence_analysis = load_json_file env (w_fs w) evidence_analysis_file;
          counter_reqs = load_json_file env (w_fs w) counter_req_file;
          context = phase_d_context (json_dumps env evidence_analysis) (json_dumps env counter_reqs);
          output_file = path_join output_dir ''analysis.md'';
          task = phase_d_task attack_id attack_name (path_str output_file)
                   (strftime_now env (length (w_trace w)));
          w1 = log (''Phase D: Analyzing viability for Attack '' @ attack_id) (Some ''PHASE'') w;
          w2 = run_agent_defensive env agent ''Senior Litigator - Strategic case analyst''
                 task context case_folder (''Phase_D_Viability_'' @ attack_id) (path_str output_file) w1;
          w3 = (if path_exists (w_fs w2) output_file
                then log (''  <U+2192> Created: '' @ path_name output_file) (Some ''DONE'') w2
                else log (''Agent did not create '' @ path_name output_file) (Some ''ERROR'') w2)
      in (output_file, w3))"

subsection \<open>Phase E: the gap reporter (lines 598 to 694)\<close>

definition phase_e_gap_analysis ::
  "env \<Rightarrow> string \<Rightarrow> path \<Rightarrow> path \<Rightarrow> world \<Rightarrow> path \<times> world" where
  "phase_e_gap_analysis env agent strategy_dir case_folder w =
     (let evidence_files = glob_attacks (w_fs w) strategy_dir ''EVIDENCE_ANALYSIS.json'';
          counter_req_files = glob_attacks (w_fs w) strategy_dir ''counter_requirements.json'';
          analysis_files = glob_attacks (w_fs w) strategy_dir ''analysis.md'';
          attacks_file = path_join strategy_dir ''ATTACKS.json'';
          attacks_data = load_json_file env (w_fs w) attacks_file;
          context0 = phase_e_context (json_dumps env attacks_data);
          context1 = fold (\<lambda>ef context.
                        context @ nl @ ''=== '' @ path_name (path_parent ef) @ ''/EVIDENCE_ANALYSIS.json ==='' @ nl
                          @ json_dumps env (load_json_file env (w_fs w) ef))
                       evidence_files context0;
          context2 = fold (\<lambda>cf context.
                        context @ nl @ ''=== '' @ path_name (path_parent cf) @ ''/counter_requirements.json ==='' @ nl
                          @ json_dumps env (load_json_file env (w_fs w) cf))
                       counter_req_files context1;
          context3 = fold (\<lambda>af context.
                        context @ nl @ ''=== '' @ path_name (path_parent af) @ ''/analysis.md ==='' @ nl
                          @ read_text (w_fs w) af)
                       analysis_files context2;
          output_file = path_join strategy_dir ''GAP_ANALYSIS.md'';
          task = phase_e_task (path_str output_file) (strftime_now env (length (w_trace w)))
                   (path_name strategy_dir);
          w1 = log ''Phase E: Generating gap analysis'' (Some ''PHASE'') w;
          w2 = run_agent_defensive env agent ''Senior Litigation Partner - Strategic advisor''
                 task context3 case_folder ''Phase_E_Gap_Analysis'' (path_str output_file) w1;
          w3 = (if path_exists (w_fs w2) output_file
                then log ''  <U+2192> Created: GAP_ANALYSIS.md'' (Some ''DONE'') w2
                else log ''Agent did not create GAP_ANALYSIS.md'' (Some ''ERROR'') w2)
      in (output_file, w3))"

subsection \<open>The orchestrator (main, lines 701 to 923)\<close>

text \<open>
  \<open>args\<close> is the namespace that \<open>parse_args\<close> returns; the command-line parser itself
  (which ends the process by its own rules on a malformed command line) is not modelled.
  \<open>arg_attack\<close> is \<open>None\<close> when \<open>--attack\<close> is not given.
\<close>

record args =
  arg_case_folder :: path
  arg_workspace :: string
  arg_strategy :: string
  arg_agent :: string
  arg_attack :: "string option"
  arg_skip_evidence :: bool
  arg_skip_counter_req :: bool
  arg_auto_detect :: bool
  arg_motion :: string

datatype status =
    Returned  \<comment> \<open>\<open>main\<close> ran to its end\<close>
  | Sys_exit nat  \<comment> \<open>\<open>sys.exit(n)\<close>\<close>
  | Uncaught string  \<comment> \<open>an exception nobody catches; the interpreter prints it and exits\<close>

fun exit_code :: "status \<Rightarrow> nat" where
  "exit_code Returned = 0"
| "exit_code (Sys_exit n) = n"
| "exit_code (Uncaught e) = 1"

definition workspace_dir :: "args \<Rightarrow> path" where
  "workspace_dir args = path_join (path_join (arg_case_folder args) ''workspaces'') (arg_workspace args)"

definition strategy_dir :: "args \<Rightarrow> path" where
  "strategy_dir args = path_join (path_join (workspace_dir args) ''strategies'') (arg_strategy args)"

definition attacks_file :: "args \<Rightarrow> path" where
  "attacks_file args = path_join (strategy_dir args) ''ATTACKS.json''"

definition settings_file :: "args \<Rightarrow> path" where
  "settings_file args = path_join (path_join (arg_case_folder args) ''case-context'') ''settings.json''"

definition rule :: "nat \<Rightarrow> string" where
  \<comment> \<open>\<open>"=" * n\<close>\<close>
  "rule n = replicate n CHR ''=''"

definition detect_banner :: "args \<Rightarrow> world \<Rightarrow> world" where
  \<comment> \<open>lines 779 to 782\<close>
  "detect_banner args w =
     (let w1 = log (rule 60) (Some ''INFO'') w;
          w2 = log ''PHASE 0: AUTO-DETECT ATTACKS'' (Some ''START'') w1;
          w3 = log (rule 60) (Some ''INFO'') w2
      in log (''Searching for: '' @ arg_motion args) None w3)"

definition main_detect ::
  "env \<Rightarrow> args \<Rightarrow> string option \<Rightarrow> world \<Rightarrow> (status \<times> world) + (path \<times> world)" where
  \<comment> \<open>lines 777 to 794: the path of the attacks file to load, or the exit\<close>
  "main_detect env args file_search_store_id w =
     (if arg_auto_detect args
      then
        (let w4 = detect_banner args w;
             (detected, w5) = phase_0_detect_attacks env (arg_agent args) (arg_case_folder args)
                                (strategy_dir args) (arg_motion args) file_search_store_id w4
         in case detected of
              None \<Rightarrow>
                Inl (Sys_exit 1, log ''Failed to auto-detect attacks. Check the raw output.'' (Some ''ERROR'') w5)
            | Some file \<Rightarrow> Inr (file, w5))
      else Inr (attacks_file args, w))"

definition main_attacks ::
  "env \<Rightarrow> args \<Rightarrow> world \<Rightarrow> (status \<times> world) + (string option \<times> attack list \<times> world)" where
  \<comment> \<open>lines 754 to 815: the exit, or the store id and the attacks to process\<close>
  "main_attacks env args w =
     (if \<not> path_exists (w_fs w) (arg_case_folder args)
      then Inl (Sys_exit 1,
             log (''Case folder not found: '' @ path_str (arg_case_folder args)) (Some ''ERROR'') w)
      else if \<not> path_exists (w_fs w) (workspace_dir args)
      then Inl (Sys_exit 1,
             log (''Workspace not found: '' @ path_str (workspace_dir args)) (Some ''ERROR'') w)
      else
        (let w1 = make_dir (strategy_dir args) w
         in case load_json_file env (w_fs w1) (settings_file args) of
              None \<Rightarrow> Inl (Uncaught ''AttributeError'', w1)  \<comment> \<open>\<open>settings.get\<close> on \<open>None\<close>\<close>
            | Some settings \<Rightarrow>
                (let file_search_store_id = d_file_search_store_id settings
                 in case main_detect env args file_search_store_id w1 of
                      Inl exit \<Rightarrow> Inl exit
                    | Inr (file, w2) \<Rightarrow>
                        if \<not> path_exists (w_fs w2) file
                        then Inl (Sys_exit 1,
                               log ''Either run with --auto-detect or create ATTACKS.json manually'' (Some ''INFO'')
                                 (log (''ATTACKS.json not found: '' @ path_str file) (Some ''ERROR'') w2))
                        else
                          (case load_json_file env (w_fs w2) file of
                             None \<Rightarrow> Inl (Uncaught ''AttributeError'', w2)  \<comment> \<open>\<open>attacks_data.get\<close> on \<open>None\<close>\<close>
                           | Some attacks_data \<Rightarrow>
                               (let attacks = get_attacks attacks_data
                                in if attacks = []
                                   then Inl (Sys_exit 1, log ''No attacks found in ATTACKS.json'' (Some ''ERROR'') w2)
                                   else if truthy (arg_attack args)
                                   then
                                     (let selected = filter (\<lambda>a. a_id a = str_opt (arg_attack args)) attacks
                                      in if selected = []
                                         then Inl (Sys_exit 1,
                                                log (''Attack '' @ str_opt (arg_attack args) @ '' not found'')
                                                  (Some ''ERROR'') w2)
                                         else Inr (file_search_store_id, selected, w2))
                                   else Inr (file_search_store_id, attacks, w2))))))"

definition main_phase_a ::
  "env \<Rightarrow> args \<Rightarrow> attack \<Rightarrow> path \<Rightarrow> string option \<Rightarrow> world \<Rightarrow> path \<times> world" where
  \<comment> \<open>lines 841 to 852; \<open>dir\<close> is the directory of the attack\<close>
  "main_phase_a env args attack dir file_search_store_id w =
     (let evidence_file = path_join dir ''EVIDENCE_ANALYSIS.json''
      in if arg_skip_evidence args \<and> path_exists (w_fs w) evidence_file
         then (evidence_file,
               log ''Skipping Phase A (using existing EVIDENCE_ANALYSIS.json)'' (Some ''INFO'') w)
         else phase_a_evidence_analysis env (arg_agent args) attack (arg_case_folder args) dir
                file_search_store_id w)"

definition main_phase_b ::
  "env \<Rightarrow> args \<Rightarrow> attack \<Rightarrow> path \<Rightarrow> path \<Rightarrow> string option \<Rightarrow> world \<Rightarrow> path \<times> world" where
  \<comment> \<open>lines 858 to 870\<close>
  "main_phase_b env args attack evidence_file dir file_search_store_id w =
     (let counter_req_file = path_join dir ''counter_requirements.json''
      in if arg_skip_counter_req args \<and> path_exists (w_fs w) counter_req_file
         then (counter_req_file,
               log ''Skipping Phase B (using existing counter_requirements.json)'' (Some ''INFO'') w)
         else phase_b_counter_requirements env (arg_agent args) attack evidence_file
                (arg_case_folder args) dir file_search_store_id w)"

definition attack_banner :: "attack \<Rightarrow> world \<Rightarrow> world" where
  \<comment> \<open>lines 837 to 839\<close>
  "attack_banner attack w =
     (let w1 = log (nl @ rule 40) (Some ''INFO'') w;
          w2 = log (''Processing Attack '' @ a_id attack @ '': '' @ a_name attack) (Some ''PHASE'') w1
      in log (rule 40) (Some ''INFO'') w2)"

definition process_attack_rest ::
  "env \<Rightarrow> args \<Rightarrow> string option \<Rightarrow> attack list \<Rightarrow> attack \<Rightarrow> path \<Rightarrow> path \<Rightarrow> world \<Rightarrow> world" where
  \<comment> \<open>lines 854 to 892: the loop body after Phase A, given the attack's directory and
      \<open>evidence_file\<close>\<close>
  "process_attack_rest env args file_search_store_id attacks attack dir evidence_file w =
     (let attack_id = a_id attack;
          w1 = log ''  <U+23F3> Waiting 5s before Phase B...'' (Some ''INFO'') w;
          w2 = sleep 5 w1;
          (counter_req_file, w3) = main_phase_b env args attack evidence_file dir file_search_store_id w2;
          w4 = log ''  <U+23F3> Waiting 5s before Phase D...'' (Some ''INFO'') w3;
          w5 = sleep 5 w4;
          (analysis_file, w6) = phase_d_viability_analysis env (arg_agent args) attack evidence_file
                                  counter_req_file dir (arg_case_folder args) w5;
          w7 = log (''Attack '' @ attack_id @ '' complete!'') (Some ''DONE'') w6
      in if attack \<noteq> last attacks
         then
           (let delay_between_attacks = 5;
                w8 = log (''Waiting '' @ str_nat delay_between_attacks
                            @ ''s before next attack to avoid rate limits...'') (Some ''INFO'') w7
            in sleep delay_between_attacks w8)
         else w7)"

definition process_attack ::
  "env \<Rightarrow> args \<Rightarrow> string option \<Rightarrow> attack list \<Rightarrow> attack \<Rightarrow> world \<Rightarrow> world" where
  \<comment> \<open>the body of the loop over the attacks, lines 832 to 892\<close>
  "process_attack env args file_search_store_id attacks attack w =
     (let dir = attack_dir (strategy_dir args) attack;
          w1 = make_dir dir w;
          w2 = attack_banner attack w1;
          (evidence_file, w3) = main_phase_a env args attack dir file_search_store_id w2
      in process_attack_rest env args file_search_store_id attacks attack dir evidence_file w3)"

definition log_files_of :: "args \<Rightarrow> attack \<Rightarrow> world \<Rightarrow> world" where
  \<comment> \<open>the body of the closing loop, lines 917 to 922\<close>
  "log_files_of args attack w =
     (let dir = attack_dir (strategy_dir args) attack;
          w1 = log (''  - '' @ path_name dir @ ''/EVIDENCE_ANALYSIS.json'') None w;
          w2 = log (''  - '' @ path_name dir @ ''/counter_requirements.json'') None w1
      in log (''  - '' @ path_name dir @ ''/analysis.md'') None w2)"

definition relay ::
  "env \<Rightarrow> args \<Rightarrow> string option \<Rightarrow> attack list \<Rightarrow> world \<Rightarrow> world" where
  \<comment> \<open>lines 817 to 923: the relay over the attacks, Phase E and the summary\<close>
  "relay env args file_search_store_id attacks w =
     (let w1 = log (rule 60) (Some ''INFO'') w;
          w2 = log ''DEFENSIVE STRATEGY RELAY'' (Some ''START'') w1;
          w3 = log (rule 60) (Some ''INFO'') w2;
          w4 = log (''Case Folder: '' @ path_name (arg_case_folder args)) None w3;
          w5 = log (''Workspace: '' @ arg_workspace args) None w4;
          w6 = log (''Strategy: '' @ arg_strategy args) None w5;
          w7 = log (''Agent: '' @ arg_agent args) None w6;
          w8 = log (''Attacks to process: '' @ str_nat (length attacks)) None w7;
          w9 = (if truthy file_search_store_id
                then log (''File Search: '' @ str_opt file_search_store_id) None w8 else w8);
          w10 = log (rule 60) (Some ''INFO'') w9;
          w11 = fold (process_attack env args file_search_store_id attacks) attacks w10;
          w12 = log (nl @ rule 40) (Some ''INFO'') w11;
          w13 = log ''Generating Gap Analysis'' (Some ''PHASE'') w12;
          w14 = log (rule 40) (Some ''INFO'') w13;
          w15 = log ''  <U+23F3> Waiting 5s before Phase E...'' (Some ''INFO'') w14;
          w16 = sleep 5 w15;
          (gap_file, w17) = phase_e_gap_analysis env (arg_agent args) (strategy_dir args)
                              (arg_case_folder args) w16;
          w18 = log (nl @ rule 60) (Some ''INFO'') w17;
          w19 = log ''DEFENSIVE STRATEGY RELAY COMPLETE'' (Some ''DONE'') w18;
          w20 = log (rule 60) (Some ''INFO'') w19;
          w21 = log (''Results in: '' @ path_str (strategy_dir args)) None w20;
          w22 = log [] None w21;
          w23 = log ''Files created/updated:'' None w22;
          w24 = fold (log_files_of args) attacks w23
      in log ''  - GAP_ANALYSIS.md'' None w24)"

definition main :: "env \<Rightarrow> args \<Rightarrow> world \<Rightarrow> status \<times> world" where
  "main env args w =
     (case main_attacks env args w of
        Inl exit \<Rightarrow> exit
      | Inr (file_search_store_id, attacks, w') \<Rightarrow>
          (Returned, relay env args file_search_store_id attacks w'))"

subsection \<open>Concrete runs\<close>

text \<open>
  A small case folder and stand-ins for the helpers, on which the model is run below: a
  loader that knows three documents by their text, an agent that never writes a file (so
  that every check of an output file fails) and an agent that writes \<open>ATTACKS.json\<close>
  when Phase 0 asks for it and nothing else.
\<close>

definition case_dir :: path where
  "case_dir = [''cases'', ''case-123'']"

definition attack_1 :: attack where
  "attack_1 =
     \<lparr>a_id = ''001'', a_name = ''Failure to State a Claim'', a_targets = Some [''Count I''],
      a_opposing_argument = Some ''The complaint pleads no facts.'', a_their_argument = None,
      a_jurisdiction = None, a_cases_cited_by_opponent = [], a_danger_level = ''high'',
      a_status = ''confirmed''\<rparr>"

definition attacks_text :: string where
  "attacks_text = ''attacks: 001 Failure to State a Claim, 002 Standing Defense!!''"

definition twins_text :: string where
  "twins_text = ''attacks: 001 Failure to State a Claim, 001 Failure to State a Claim''"

definition stub_load :: "fs \<Rightarrow> path \<Rightarrow> json_dict option" where
  "stub_load f p =
     (case map_of (files f) p of
        None \<Rightarrow> None
      | Some t \<Rightarrow>
          if t = ''{}''
          then Some \<lparr>d_attacks = None, d_file_search_store_id = None, d_other_keys = []\<rparr>
          else if t = attacks_text
          then Some \<lparr>d_attacks = Some [attack_1, standing_defense], d_file_search_store_id = None,
                     d_other_keys = [''strategy_id'']\<rparr>
          else if t = twins_text
          then Some \<lparr>d_attacks = Some [attack_1, attack_1], d_file_search_store_id = None,
                     d_other_keys = [''strategy_id'']\<rparr>
          else None)"

definition stub_env :: "(nat \<Rightarrow> agent_call \<Rightarrow> fs \<Rightarrow> fs) \<Rightarrow> env" where
  "stub_env agent =
     \<lparr>run_agent = agent, load_json_file = stub_load,
      build_context_string = (\<lambda>f ps. concat (map (read_text f) ps)),
      json_dumps = (\<lambda>d. case d of None \<Rightarrow> ''null'' | Some _ \<Rightarrow> ''{}''),
      isoformat_now = (\<lambda>n. ''2026-01-27T10:00:00''),
      strftime_now = (\<lambda>n. ''2026-01-27 10:00'')\<rparr>"

definition silent_agent :: "nat \<Rightarrow> agent_call \<Rightarrow> fs \<Rightarrow> fs" where
  "silent_agent n call f = f"

definition detect_agent :: "nat \<Rightarrow> agent_call \<Rightarrow> fs \<Rightarrow> fs" where
  "detect_agent n call f =
     (if c_phase_name call = ''Phase_0_Attack_Detection''
      then f\<lparr>files := (case_dir @ [''workspaces'', ''ws'', ''strategies'', ''s1'', ''ATTACKS.json''], attacks_text)
                          # files f\<rparr>
      else f)"

definition demo_args :: args where
  "demo_args =
     \<lparr>arg_case_folder = case_dir, arg_workspace = ''ws'', arg_strategy = ''s1'',
      arg_agent = ''auggie'', arg_attack = None, arg_skip_evidence = False,
      arg_skip_counter_req = False, arg_auto_detect = False, arg_motion = ''Motion to Dismiss''\<rparr>"

definition demo_dirs :: "path list" where
  "demo_dirs =
     [[''cases''], case_dir, case_dir @ [''case-context''], case_dir @ [''workspaces''],
      case_dir @ [''workspaces'', ''ws'']]"

definition settings_entry :: "path \<times> string" where
  "settings_entry = (case_dir @ [''case-context'', ''settings.json''], ''{}'')"

definition demo_world :: world where
  \<comment> \<open>a case folder with \<open>settings.json\<close> and an \<open>ATTACKS.json\<close> of two attacks\<close>
  "demo_world =
     \<lparr>w_fs = \<lparr>dirs = demo_dirs,
              files = [settings_entry,
                       (case_dir @ [''workspaces'', ''ws'', ''strategies'', ''s1'', ''ATTACKS.json''], attacks_text)]\<rparr>,
      w_trace = []\<rparr>"

definition fresh_world :: world where
  \<comment> \<open>the same case folder before any \<open>ATTACKS.json\<close> is written\<close>
  "fresh_world = \<lparr>w_fs = \<lparr>dirs = demo_dirs, files = [settings_entry]\<rparr>, w_trace = []\<rparr>"

definition resumed_world :: world where
  \<comment> \<open>a later run: the evidence analysis of attack 001 is already there\<close>
  "resumed_world =
     \<lparr>w_fs = \<lparr>dirs = demo_dirs,
              files = [settings_entry,
                       (case_dir @ [''workspaces'', ''ws'', ''strategies'', ''s1'', ''ATTACKS.json''], attacks_text),
                       (case_dir @ [''workspaces'', ''ws'', ''strategies'', ''s1'', ''attacks'',
                                    ''001_failure_to_state_a_claim'', ''EVIDENCE_ANALYSIS.json''], ''{}'')]\<rparr>,
      w_trace = []\<rparr>"

definition twins_world :: world where
  \<comment> \<open>an \<open>ATTACKS.json\<close> that lists the same attack twice\<close>
  "twins_world =
     \<lparr>w_fs = \<lparr>dirs = demo_dirs,
              files = [settings_entry,
                       (case_dir @ [''workspaces'', ''ws'', ''strategies'', ''s1'', ''ATTACKS.json''], twins_text)]\<rparr>,
      w_trace = []\<rparr>"

subsection \<open>Notions used in the statements\<close>

definition attack_phases :: "bool \<Rightarrow> bool \<Rightarrow> attack \<Rightarrow> string list" where
  \<comment> \<open>the phase names of the agent calls made for one attack, when Phase A and Phase B
      ran (\<open>True\<close>) or were skipped\<close>
  "attack_phases ran_a ran_b a =
     (if ran_a then [''Phase_A_Evidence_'' @ a_id a] else [])
     @ (if ran_b then [''Phase_B_Counter_Req_'' @ a_id a] else [])
     @ [''Phase_D_Viability_'' @ a_id a]"

definition detected :: "env \<Rightarrow> fs \<Rightarrow> path \<Rightarrow> bool" where
  \<comment> \<open>the postcondition of Phase 0 in the specification's words: the output file exists,
      parses as JSON, and has at least one entry in its attack list\<close>
  "detected env f out \<longleftrightarrow>
     path_exists f out \<and> (case load_json_file env f out of None \<Rightarrow> False | Some d \<Rightarrow> get_attacks d \<noteq> [])"

definition analysis_header :: "string \<Rightarrow> string \<Rightarrow> string \<Rightarrow> string" where
  \<comment> \<open>the header the specification mandates for a viability report: the title line, the
      generation time and the attack id\<close>
  "analysis_header attack_name generated attack_id =
     text_lines [''# Analysis: '' @ attack_name, [], ''**Generated**: '' @ generated,
                 ''**Attack ID**: '' @ attack_id]"

definition load_world :: "env \<Rightarrow> args \<Rightarrow> string option \<Rightarrow> world \<Rightarrow> world" where
  \<comment> \<open>the world in which \<open>main\<close> looks for \<open>ATTACKS.json\<close> (line 797): after Phase 0 when
      \<open>--auto-detect\<close> is given, else as it was after the strategy directory was made\<close>
  "load_world env args sid w =
     (if arg_auto_detect args
      then snd (phase_0_detect_attacks env (arg_agent args) (arg_case_folder args) (strategy_dir args)
                  (arg_motion args) sid (detect_banner args w))
      else w)"

definition auto_detection_failed :: "env \<Rightarrow> args \<Rightarrow> string option \<Rightarrow> world \<Rightarrow> bool" where
  \<comment> \<open>\<open>--auto-detect\<close> is given and Phase 0 returns \<open>None\<close>\<close>
  "auto_detection_failed env args sid w \<longleftrightarrow>
     arg_auto_detect args
     \<and> fst (phase_0_detect_attacks env (arg_agent args) (arg_case_folder args) (strategy_dir args)
               (arg_motion args) sid (detect_banner args w)) = None"

definition selected_attacks :: "args \<Rightarrow> attack list \<Rightarrow> attack list" where
  \<comment> \<open>the attacks that \<open>main\<close> processes (lines 811 and 812): those of the id given with
      \<open>--attack\<close>, or all of them\<close>
  "selected_attacks args attacks =
     (if truthy (arg_attack args)
      then filter (\<lambda>a. a_id a = str_opt (arg_attack args)) attacks
      else attacks)"

definition loaded_attacks :: "env \<Rightarrow> args \<Rightarrow> world \<Rightarrow> attack list option" where
  \<comment> \<open>the attacks list of \<open>ATTACKS.json\<close> as \<open>main\<close> loads it (lines 803 and 804), when the
      run gets that far\<close>
  "loaded_attacks env args w =
     (if \<not> path_exists (w_fs w) (arg_case_folder args) \<or> \<not> path_exists (w_fs w) (workspace_dir args)
      then None
      else
        (let w1 = make_dir (strategy_dir args) w
         in case load_json_file env (w_fs w1) (settings_file args) of
              None \<Rightarrow> None
            | Some settings \<Rightarrow>
                if auto_detection_failed env args (d_file_search_store_id settings) w1 then None
                else
                  (let w2 = load_world env args (d_file_search_store_id settings) w1
                   in if \<not> path_exists (w_fs w2) (attacks_file args) then None
                      else map_option get_attacks (load_json_file env (w_fs w2) (attacks_file args)))))"

definition evidence_path :: "args \<Rightarrow> attack \<Rightarrow> path" where
  \<comment> \<open>the \<open>evidence_file\<close> of line 842\<close>
  "evidence_path args a = path_join (attack_dir (strategy_dir args) a) ''EVIDENCE_ANALYSIS.json''"

definition counter_req_path :: "args \<Rightarrow> attack \<Rightarrow> path" where
  \<comment> \<open>the \<open>counter_req_file\<close> of line 859\<close>
  "counter_req_path args a = path_join (attack_dir (strategy_dir args) a) ''counter_requirements.json''"

definition evidence_reused :: "args \<Rightarrow> attack \<Rightarrow> fs \<Rightarrow> bool" where
  \<comment> \<open>Phase A is skipped: \<open>--skip-evidence\<close> is given and the evidence analysis of the
      attack is there already\<close>
  "evidence_reused args a f \<longleftrightarrow> arg_skip_evidence args \<and> path_exists f (evidence_path args a)"

definition counter_req_reused :: "args \<Rightarrow> attack \<Rightarrow> fs \<Rightarrow> bool" where
  \<comment> \<open>Phase B is skipped: \<open>--skip-counter-req\<close> is given and the counter-requirements of
      the attack are there already\<close>
  "counter_req_reused args a f \<longleftrightarrow> arg_skip_counter_req args \<and> path_exists f (counter_req_path args a)"

definition phase_b_fs :: "env \<Rightarrow> args \<Rightarrow> string option \<Rightarrow> attack \<Rightarrow> world \<Rightarrow> fs" where
  \<comment> \<open>the file system in which the check of line 860 is made, for an attack taken up in
      \<open>w\<close>: the directory of the attack is made, and Phase A has run unless it is skipped\<close>
  "phase_b_fs env args sid a w =
     (let dir = attack_dir (strategy_dir args) a;
          w2 = attack_banner a (make_dir dir w)
      in if evidence_reused args a (w_fs w) then w_fs w2
         else w_fs (snd (phase_a_evidence_analysis env (arg_agent args) a (arg_case_folder args) dir sid w2)))"

definition attack_calls :: "env \<Rightarrow> args \<Rightarrow> string option \<Rightarrow> attack \<Rightarrow> world \<Rightarrow> string list" where
  \<comment> \<open>the phase names of the agent calls due for an attack taken up in \<open>w\<close>: Phase A
      unless it is skipped, Phase B unless it is skipped, Phase D\<close>
  "attack_calls env args sid a w =
     attack_phases (\<not> evidence_reused args a (w_fs w))
       (\<not> counter_req_reused args a (phase_b_fs env args sid a w)) a"

fun attack_starts ::
  "env \<Rightarrow> args \<Rightarrow> string option \<Rightarrow> attack list \<Rightarrow> attack list \<Rightarrow> world \<Rightarrow> world list" where
  \<comment> \<open>the worlds in which the attacks of \<open>rest\<close> are taken up, one after the other,
      when the loop goes on from \<open>w\<close>\<close>
  "attack_starts env args sid attacks [] w = []"
| "attack_starts env args sid attacks (a # rest) w =
     w # attack_starts env args sid attacks rest (process_attack env args sid attacks a w)"

definition loop_start :: "args \<Rightarrow> string option \<Rightarrow> attack list \<Rightarrow> world \<Rightarrow> world" where
  \<comment> \<open>the world in which the loop over the attacks starts (line 831): the banner of lines
      817 to 828 has been logged\<close>
  "loop_start args sid attacks w =
     (let w1 = log (rule 60) (Some ''INFO'') w;
          w2 = log ''DEFENSIVE STRATEGY RELAY'' (Some ''START'') w1;
          w3 = log (rule 60) (Some ''INFO'') w2;
          w4 = log (''Case Folder: '' @ path_name (arg_case_folder args)) None w3;
          w5 = log (''Workspace: '' @ arg_workspace args) None w4;
          w6 = log (''Strategy: '' @ arg_strategy args) None w5;
          w7 = log (''Agent: '' @ arg_agent args) None w6;
          w8 = log (''Attacks to process: '' @ str_nat (length attacks)) None w7;
          w9 = (if truthy sid then log (''File Search: '' @ str_opt sid) None w8 else w8)
      in log (rule 60) (Some ''INFO'') w9)"

definition exits_with_1 :: "env \<Rightarrow> args \<Rightarrow> world \<Rightarrow> bool" where
  \<comment> \<open>the runs that end with exit code 1, in the order in which \<open>main\<close> checks: no case
      folder; no workspace; \<open>settings.json\<close> not loaded; auto-detection failed; no attacks
      file; attacks file not loaded; no attacks; \<open>--attack\<close> names an id no attack has\<close>
  "exits_with_1 env args w \<longleftrightarrow>
     \<not> path_exists (w_fs w) (arg_case_folder args)
     \<or> \<not> path_exists (w_fs w) (workspace_dir args)
     \<or> (let w1 = make_dir (strategy_dir args) w
         in case load_json_file env (w_fs w1) (settings_file args) of
              None \<Rightarrow> True
            | Some settings \<Rightarrow>
                auto_detection_failed env args (d_file_search_store_id settings) w1
                \<or> (let w2 = load_world env args (d_file_search_store_id settings) w1
                    in \<not> path_exists (w_fs w2) (attacks_file args)
                       \<or> (case load_json_file env (w_fs w2) (attacks_file args) of
                            None \<Rightarrow> True
                          | Some attacks_data \<Rightarrow>
                              get_attacks attacks_data = []
                              \<or> (truthy (arg_attack args)
                                  \<and> str_opt (arg_attack args) \<notin> a_id ` set (get_attacks attacks_data)))))"

section \<open>Properties\<close>

subsection \<open>C5: the directory of an attack\<close>

lemma lower_char_not_separator:
  "lower_char c = CHR '' '' \<longleftrightarrow> c = CHR '' ''" "lower_char c = CHR ''-'' \<longleftrightarrow> c = CHR ''-''"
proof -
  have inj: "\<And>a b :: char. (of_char a :: nat) = of_char b \<Longrightarrow> a = b"
    by simp
  have lt: "(of_char c :: nat) < 256"
    by simp
  show "lower_char c = CHR '' '' \<longleftrightarrow> c = CHR '' ''"
  proof
    assume h: "lower_char c = CHR '' ''"
    show "c = CHR '' ''"
    proof (cases "(65 \<le> (of_char c :: nat) \<and> (of_char c :: nat) \<le> 90)
                  \<or> (192 \<le> (of_char c :: nat) \<and> (of_char c :: nat) \<le> 222 \<and> (of_char c :: nat) \<noteq> 215)")
      case True
      then have "lower_char c = char_of ((of_char c :: nat) + 32)"
        by (simp add: lower_char_def Let_def)
      with h have "(of_char (char_of ((of_char c :: nat) + 32)) :: nat) = of_char (CHR '' '')"
        by simp
      moreover from True lt have "((of_char c :: nat) + 32) mod 256 = of_char c + 32"
        by auto
      ultimately have "(of_char c :: nat) + 32 = 32"
        by simp
      with True show ?thesis by auto
    next
      case False
      with h show ?thesis by (simp add: lower_char_def Let_def)
    qed
  next
    assume "c = CHR '' ''"
    then show "lower_char c = CHR '' ''" by (simp add: lower_char_def)
  qed
  show "lower_char c = CHR ''-'' \<longleftrightarrow> c = CHR ''-''"
  proof
    assume h: "lower_char c = CHR ''-''"
    show "c = CHR ''-''"
    proof (cases "(65 \<le> (of_char c :: nat) \<and> (of_char c :: nat) \<le> 90)
                  \<or> (192 \<le> (of_char c :: nat) \<and> (of_char c :: nat) \<le> 222 \<and> (of_char c :: nat) \<noteq> 215)")
      case True
      then have "lower_char c = char_of ((of_char c :: nat) + 32)"
        by (simp add: lower_char_def Let_def)
      with h have "(of_char (char_of ((of_char c :: nat) + 32)) :: nat) = of_char (CHR ''-'')"
        by simp
      moreover from True lt have "((of_char c :: nat) + 32) mod 256 = of_char c + 32"
        by auto
      ultimately have "(of_char c :: nat) + 32 = 45"
        by simp
      with True show ?thesis by auto
    next
      case False
      with h show ?thesis by (simp add: lower_char_def Let_def)
    qed
  next
    assume "c = CHR ''-''"
    then show "lower_char c = CHR ''-''" by (simp add: lower_char_def)
  qed
qed

lemma slug_standing_defense: "attack_name_slug ''Standing Defense!!'' = ''standing_defense!!''"
  by code_simp

text \<open>
  C5, as stated, fails on its own example: the slug keeps the two exclamation marks, so
  the directory of attack 002 "Standing Defense!!" is not \<open>attacks/002_standing_defense\<close>.
\<close>

theorem attack_dir_standing_defense_counterexample:
  "attack_dir [''case'', ''workspaces'', ''ws'', ''strategies'', ''s1''] standing_defense
     \<noteq> [''case'', ''workspaces'', ''ws'', ''strategies'', ''s1'', ''attacks'', ''002_standing_defense'']"
  by (simp add: attack_dir_def slug_standing_defense standing_defense_def path_join_def)

text \<open>
  C5, amended: the directory of an attack is \<open>attacks/{id}_{slug(name)}\<close> below the
  strategy directory, where the slug is the name lowercased, with every space and every
  hyphen replaced by an underscore and all other punctuation left as it is, cut to its
  first 30 characters (the id is not cut). For attack 002 "Standing Defense!!" the
  directory is \<open>attacks/002_standing_defense!!\<close>.
\<close>

theorem attack_dir_derivation:
  "attack_dir sdir attack
     = sdir @ [''attacks'', a_id attack @ ''_'' @ spec_slug (a_name attack)]
   \<and> length (spec_slug name) = min 30 (length name)
   \<and> CHR '' '' \<notin> set (spec_slug name) \<and> CHR ''-'' \<notin> set (spec_slug name)
   \<and> attack_dir sdir standing_defense = sdir @ [''attacks'', ''002_standing_defense!!'']"
proof -
  have "replace CHR ''-'' CHR ''_'' (replace CHR '' '' CHR ''_'' (lower n))
      = map (\<lambda>c. if c = CHR '' '' \<or> c = CHR ''-'' then CHR ''_'' else lower_char c) n" for n
    unfolding lower_def replace_def
    by (induction n) (auto simp: lower_char_not_separator)
  then have slug: "attack_name_slug n = spec_slug n" for n
    by (simp add: attack_name_slug_def spec_slug_def)
  have dir: "attack_dir sdir attack
     = sdir @ [''attacks'', a_id attack @ ''_'' @ spec_slug (a_name attack)]"
    by (simp add: attack_dir_def path_join_def slug)
  have len: "length (spec_slug name) = min 30 (length name)"
    by (simp add: spec_slug_def min.commute)
  have sp: "CHR '' '' \<noteq> (if c = CHR '' '' \<or> c = CHR ''-'' then CHR ''_'' else lower_char c)" for c
    using lower_char_not_separator(1) [of c] by auto
  have hy: "CHR ''-'' \<noteq> (if c = CHR '' '' \<or> c = CHR ''-'' then CHR ''_'' else lower_char c)" for c
    using lower_char_not_separator(2) [of c] by auto
  have "CHR '' '' \<notin> set (map (\<lambda>c. if c = CHR '' '' \<or> c = CHR ''-'' then CHR ''_'' else lower_char c) name)"
    by (induction name) (simp_all only: list.map list.set empty_iff insert_iff sp simp_thms not_False_eq_True)
  then have no_space: "CHR '' '' \<notin> set (spec_slug name)"
    unfolding spec_slug_def by (meson in_set_takeD)
  have "CHR ''-'' \<notin> set (map (\<lambda>c. if c = CHR '' '' \<or> c = CHR ''-'' then CHR ''_'' else lower_char c) name)"
    by (induction name) (simp_all only: list.map list.set empty_iff insert_iff hy simp_thms not_False_eq_True)
  then have no_hyphen: "CHR ''-'' \<notin> set (spec_slug name)"
    unfolding spec_slug_def by (meson in_set_takeD)
  have ex: "attack_dir sdir standing_defense = sdir @ [''attacks'', ''002_standing_defense!!'']"
    by (simp add: attack_dir_def slug_standing_defense standing_defense_def path_join_def)
  from dir len no_space no_hyphen ex show ?thesis
    by blast
qed

subsection \<open>What each effect adds to the trace\<close>

lemma w_fs_log [simp]: "w_fs (log m l w) = w_fs w"
  by (simp add: log_def)

lemma w_fs_sleep [simp]: "w_fs (sleep n w) = w_fs w"
  by (simp add: sleep_def)

lemma w_trace_make_dir [simp]: "w_trace (make_dir p w) = w_trace w"
  by (simp add: make_dir_def)

lemma files_make_dir [simp]: "files (w_fs (make_dir p w)) = files (w_fs w)"
  by (simp add: make_dir_def mkdir_def)

lemma calls_log [simp]: "calls (log m l w) = calls w"
  by (simp add: calls_def log_def)

lemma calls_sleep [simp]: "calls (sleep n w) = calls w"
  by (simp add: calls_def sleep_def)

lemma calls_make_dir [simp]: "calls (make_dir p w) = calls w"
  by (simp add: calls_def)

lemma calls_run_agent_defensive [simp]:
  "calls (run_agent_defensive env ag role task ctx cwd pn out w)
     = calls w @ [\<lparr>c_agent = ag, c_role = role, c_task = task, c_context = ctx, c_cwd = cwd,
                    c_max_retries = 5, c_timeout = 600, c_phase_name = pn, c_output_file = Some out\<rparr>]"
  by (simp add: calls_def run_agent_defensive_def Let_def)

lemma sleeps_log [simp]: "sleeps (log m l w) = sleeps w"
  by (simp add: sleeps_def log_def)

lemma sleeps_sleep [simp]: "sleeps (sleep n w) = sleeps w @ [n]"
  by (simp add: sleeps_def sleep_def)

lemma sleeps_make_dir [simp]: "sleeps (make_dir p w) = sleeps w"
  by (simp add: sleeps_def)

lemma sleeps_run_agent_defensive [simp]:
  "sleeps (run_agent_defensive env ag role task ctx cwd pn out w) = sleeps w"
  by (simp add: sleeps_def run_agent_defensive_def Let_def)

lemma phases_log [simp]: "phases (log m l w) = phases w"
  by (simp add: phases_def)

lemma phases_sleep [simp]: "phases (sleep n w) = phases w"
  by (simp add: phases_def)

lemma phases_make_dir [simp]: "phases (make_dir p w) = phases w"
  by (simp add: phases_def)

lemma phases_run_agent_defensive [simp]:
  "phases (run_agent_defensive env ag role task ctx cwd pn out w) = phases w @ [pn]"
  by (simp add: phases_def)

lemma path_name_join [simp]: "path_name (path_join p n) = n"
  by (simp add: path_name_def path_join_def)

subsection \<open>The phase functions: result, agent calls, sleeps\<close>

lemma fst_phase_a: "fst (phase_a_evidence_analysis env ag a cf od sid w) = path_join od ''EVIDENCE_ANALYSIS.json''"
  by (simp add: phase_a_evidence_analysis_def Let_def)

lemma fst_phase_b:
  "fst (phase_b_counter_requirements env ag a ef cf od sid w) = path_join od ''counter_requirements.json''"
  by (simp add: phase_b_counter_requirements_def Let_def)

lemma fst_phase_d: "fst (phase_d_viability_analysis env ag a ef cr od cf w) = path_join od ''analysis.md''"
  by (simp add: phase_d_viability_analysis_def Let_def)

lemma fst_phase_e: "fst (phase_e_gap_analysis env ag sd cf w) = path_join sd ''GAP_ANALYSIS.md''"
  by (simp add: phase_e_gap_analysis_def Let_def)

lemma phases_phase_0:
  "phases (snd (phase_0_detect_attacks env ag cf sd m sid w)) = phases w @ [''Phase_0_Attack_Detection'']"
  by (simp add: phase_0_detect_attacks_def Let_def split: option.splits)

lemma phases_phase_a:
  "phases (snd (phase_a_evidence_analysis env ag a cf od sid w)) = phases w @ [''Phase_A_Evidence_'' @ a_id a]"
  by (simp add: phase_a_evidence_analysis_def Let_def)

lemma phases_phase_b:
  "phases (snd (phase_b_counter_requirements env ag a ef cf od sid w))
     = phases w @ [''Phase_B_Counter_Req_'' @ a_id a]"
  by (simp add: phase_b_counter_requirements_def Let_def)

lemma phases_phase_d:
  "phases (snd (phase_d_viability_analysis env ag a ef cr od cf w)) = phases w @ [''Phase_D_Viability_'' @ a_id a]"
  by (simp add: phase_d_viability_analysis_def Let_def)

lemma phases_phase_e:
  "phases (snd (phase_e_gap_analysis env ag sd cf w)) = phases w @ [''Phase_E_Gap_Analysis'']"
  by (simp add: phase_e_gap_analysis_def Let_def)

lemma sleeps_phase_0: "sleeps (snd (phase_0_detect_attacks env ag cf sd m sid w)) = sleeps w"
  by (simp add: phase_0_detect_attacks_def Let_def split: option.splits)

lemma sleeps_phase_a: "sleeps (snd (phase_a_evidence_analysis env ag a cf od sid w)) = sleeps w"
  by (simp add: phase_a_evidence_analysis_def Let_def)

lemma sleeps_phase_b: "sleeps (snd (phase_b_counter_requirements env ag a ef cf od sid w)) = sleeps w"
  by (simp add: phase_b_counter_requirements_def Let_def)

lemma sleeps_phase_d: "sleeps (snd (phase_d_viability_analysis env ag a ef cr od cf w)) = sleeps w"
  by (simp add: phase_d_viability_analysis_def Let_def)

lemma sleeps_phase_e: "sleeps (snd (phase_e_gap_analysis env ag sd cf w)) = sleeps w"
  by (simp add: phase_e_gap_analysis_def Let_def)

subsection \<open>The steps of the loop body\<close>

lemma fst_main_phase_a: "fst (main_phase_a env args a dir sid w) = path_join dir ''EVIDENCE_ANALYSIS.json''"
  by (simp add: main_phase_a_def Let_def fst_phase_a)

lemma fst_main_phase_b: "fst (main_phase_b env args a ef dir sid w) = path_join dir ''counter_requirements.json''"
  by (simp add: main_phase_b_def Let_def fst_phase_b)

lemma phases_main_phase_a:
  "phases (snd (main_phase_a env args a dir sid w))
     = phases w @ (if arg_skip_evidence args \<and> path_exists (w_fs w) (path_join dir ''EVIDENCE_ANALYSIS.json'')
                   then [] else [''Phase_A_Evidence_'' @ a_id a])"
  by (simp add: main_phase_a_def Let_def phases_phase_a)

lemma phases_main_phase_b:
  "phases (snd (main_phase_b env args a ef dir sid w))
     = phases w @ (if arg_skip_counter_req args \<and> path_exists (w_fs w) (path_join dir ''counter_requirements.json'')
                   then [] else [''Phase_B_Counter_Req_'' @ a_id a])"
  by (simp add: main_phase_b_def Let_def phases_phase_b)

lemma sleeps_main_phase_a: "sleeps (snd (main_phase_a env args a dir sid w)) = sleeps w"
  by (simp add: main_phase_a_def Let_def sleeps_phase_a)

lemma sleeps_main_phase_b: "sleeps (snd (main_phase_b env args a ef dir sid w)) = sleeps w"
  by (simp add: main_phase_b_def Let_def sleeps_phase_b)

lemma phases_attack_banner [simp]: "phases (attack_banner a w) = phases w"
  by (simp add: attack_banner_def Let_def)

lemma sleeps_attack_banner [simp]: "sleeps (attack_banner a w) = sleeps w"
  by (simp add: attack_banner_def Let_def)

lemma w_fs_attack_banner [simp]: "w_fs (attack_banner a w) = w_fs w"
  by (simp add: attack_banner_def Let_def)

lemma phases_process_attack_rest:
  "\<exists>ran_b. phases (process_attack_rest env args sid attacks a dir ef w)
             = phases w @ (if ran_b then [''Phase_B_Counter_Req_'' @ a_id a] else []) @ [''Phase_D_Viability_'' @ a_id a]
           \<and> (\<not> arg_skip_counter_req args \<longrightarrow> ran_b)"
proof -
  let ?skip = "arg_skip_counter_req args
                 \<and> path_exists (w_fs w) (path_join dir ''counter_requirements.json'')"
  have "phases (process_attack_rest env args sid attacks a dir ef w)
          = phases w @ (if \<not> ?skip then [''Phase_B_Counter_Req_'' @ a_id a] else [])
              @ [''Phase_D_Viability_'' @ a_id a]"
    by (simp add: process_attack_rest_def Let_def split_def phases_main_phase_b phases_phase_d)
  moreover have "\<not> arg_skip_counter_req args \<longrightarrow> \<not> ?skip"
    by simp
  ultimately show ?thesis
    by blast
qed

lemma phases_process_attack:
  "\<exists>ran_a ran_b. phases (process_attack env args sid attacks a w) = phases w @ attack_phases ran_a ran_b a
           \<and> (\<not> arg_skip_evidence args \<longrightarrow> ran_a) \<and> (\<not> arg_skip_counter_req args \<longrightarrow> ran_b)"
proof -
  let ?dir = "attack_dir (strategy_dir args) a"
  let ?w2 = "attack_banner a (make_dir ?dir w)"
  let ?skip = "arg_skip_evidence args \<and> path_exists (w_fs ?w2) (path_join ?dir ''EVIDENCE_ANALYSIS.json'')"
  let ?w3 = "snd (main_phase_a env args a ?dir sid ?w2)"
  let ?ef = "fst (main_phase_a env args a ?dir sid ?w2)"
  obtain ran_b where b:
    "phases (process_attack_rest env args sid attacks a ?dir ?ef ?w3)
       = phases ?w3 @ (if ran_b then [''Phase_B_Counter_Req_'' @ a_id a] else []) @ [''Phase_D_Viability_'' @ a_id a]"
    "\<not> arg_skip_counter_req args \<longrightarrow> ran_b"
    using phases_process_attack_rest by blast
  have a: "phases ?w3 = phases w @ (if \<not> ?skip then [''Phase_A_Evidence_'' @ a_id a] else [])"
    by (simp add: phases_main_phase_a)
  have "process_attack env args sid attacks a w = process_attack_rest env args sid attacks a ?dir ?ef ?w3"
    by (simp add: process_attack_def Let_def split_def)
  with a b(1) have "phases (process_attack env args sid attacks a w) = phases w @ attack_phases (\<not> ?skip) ran_b a"
    by (simp add: attack_phases_def)
  moreover have "\<not> arg_skip_evidence args \<longrightarrow> \<not> ?skip"
    by simp
  ultimately show ?thesis
    using b(2) by blast
qed

lemma sleeps_process_attack:
  "sleeps (process_attack env args sid attacks a w)
     = sleeps w @ [5, 5] @ (if a \<noteq> last attacks then [5] else [])"
  by (simp add: process_attack_def process_attack_rest_def Let_def split_def sleeps_main_phase_a
      sleeps_main_phase_b sleeps_phase_d)

lemma sleeps_fold_process_attack:
  "sleeps (fold (process_attack env args sid attacks) rest w)
     = sleeps w @ concat (map (\<lambda>a. [5, 5] @ (if a \<noteq> last attacks then [5] else [])) rest)"
  by (induction rest arbitrary: w) (simp_all add: sleeps_process_attack)

lemma phases_log_files_of [simp]: "phases (log_files_of args a w) = phases w"
  by (simp add: log_files_of_def Let_def)

lemma sleeps_log_files_of [simp]: "sleeps (log_files_of args a w) = sleeps w"
  by (simp add: log_files_of_def Let_def)

lemma phases_fold_log_files_of [simp]: "phases (fold (log_files_of args) as w) = phases w"
  by (induction as arbitrary: w) simp_all

lemma sleeps_fold_log_files_of [simp]: "sleeps (fold (log_files_of args) as w) = sleeps w"
  by (induction as arbitrary: w) simp_all

lemma sleeps_relay:
  "sleeps (relay env args sid attacks w)
     = sleeps w @ concat (map (\<lambda>a. [5, 5] @ (if a \<noteq> last attacks then [5] else [])) attacks) @ [5]"
  by (simp add: relay_def Let_def split_def sleeps_fold_process_attack sleeps_phase_e)

lemma phases_fold_process_attack:
  "\<exists>rs. length rs = length rest
     \<and> phases (fold (process_attack env args sid attacks) rest w)
         = phases w @ concat (map (\<lambda>(r, a). attack_phases (fst r) (snd r) a) (zip rs rest))
     \<and> (\<not> arg_skip_evidence args \<longrightarrow> (\<forall>r \<in> set rs. fst r))
     \<and> (\<not> arg_skip_counter_req args \<longrightarrow> (\<forall>r \<in> set rs. snd r))"
proof (induction rest arbitrary: w)
  case Nil
  show ?case by simp
next
  case (Cons a rest)
  obtain ran_a ran_b where body:
    "phases (process_attack env args sid attacks a w) = phases w @ attack_phases ran_a ran_b a"
    "\<not> arg_skip_evidence args \<longrightarrow> ran_a" "\<not> arg_skip_counter_req args \<longrightarrow> ran_b"
    using phases_process_attack by blast
  obtain rs where tail:
    "length rs = length rest"
    "phases (fold (process_attack env args sid attacks) rest (process_attack env args sid attacks a w))
       = phases (process_attack env args sid attacks a w)
           @ concat (map (\<lambda>(r, a). attack_phases (fst r) (snd r) a) (zip rs rest))"
    "\<not> arg_skip_evidence args \<longrightarrow> (\<forall>r \<in> set rs. fst r)"
    "\<not> arg_skip_counter_req args \<longrightarrow> (\<forall>r \<in> set rs. snd r)"
    using Cons.IH by blast
  let ?rs = "(ran_a, ran_b) # rs"
  have "length ?rs = length (a # rest)"
    using tail(1) by simp
  moreover have "phases (fold (process_attack env args sid attacks) (a # rest) w)
      = phases w @ concat (map (\<lambda>(r, a). attack_phases (fst r) (snd r) a) (zip ?rs (a # rest)))"
    using body(1) tail(2) by simp
  moreover have "\<not> arg_skip_evidence args \<longrightarrow> (\<forall>r \<in> set ?rs. fst r)"
    using body(2) tail(3) by simp
  moreover have "\<not> arg_skip_counter_req args \<longrightarrow> (\<forall>r \<in> set ?rs. snd r)"
    using body(3) tail(4) by simp
  ultimately show ?case
    by blast
qed

lemma phases_relay:
  "\<exists>rs. length rs = length attacks
     \<and> phases (relay env args sid attacks w)
         = phases w @ concat (map (\<lambda>(r, a). attack_phases (fst r) (snd r) a) (zip rs attacks))
             @ [''Phase_E_Gap_Analysis'']
     \<and> (\<not> arg_skip_evidence args \<longrightarrow> (\<forall>r \<in> set rs. fst r))
     \<and> (\<not> arg_skip_counter_req args \<longrightarrow> (\<forall>r \<in> set rs. snd r))"
proof -
  define w9 where "w9 =
    (let w8 = log (''Attacks to process: '' @ str_nat (length attacks)) None
               (log (''Agent: '' @ arg_agent args) None
                 (log (''Strategy: '' @ arg_strategy args) None
                   (log (''Workspace: '' @ arg_workspace args) None
                     (log (''Case Folder: '' @ path_name (arg_case_folder args)) None
                       (log (rule 60) (Some ''INFO'')
                         (log ''DEFENSIVE STRATEGY RELAY'' (Some ''START'')
                           (log (rule 60) (Some ''INFO'') w)))))))
     in log (rule 60) (Some ''INFO'')
          (if truthy sid then log (''File Search: '' @ str_opt sid) None w8 else w8))"
  have start: "phases w9 = phases w"
    by (simp add: w9_def Let_def)
  have "phases (relay env args sid attacks w)
      = phases (fold (process_attack env args sid attacks) attacks w9) @ [''Phase_E_Gap_Analysis'']"
    by (simp add: relay_def w9_def Let_def split_def phases_phase_e)
  with start phases_fold_process_attack [of attacks env args sid attacks w9] show ?thesis
    by auto
qed

lemma main_relay:
  "main_attacks env args w0 = Inr (sid, attacks, w1) \<Longrightarrow> main env args w0 = (Returned, relay env args sid attacks w1)"
  by (simp add: main_def)

lemma phase_0_unfold:
  "\<exists>w2. phases w2 = phases w @ [''Phase_0_Attack_Detection''] \<and> sleeps w2 = sleeps w
     \<and> phase_0_detect_attacks env ag cf sd m sid w
       = (let output_file = path_join sd ''ATTACKS.json''
          in if \<not> path_exists (w_fs w2) output_file
             then (None, log (''Agent did not create ATTACKS.json at '' @ path_str output_file) (Some ''ERROR'') w2)
             else
               (case load_json_file env (w_fs w2) output_file of
                  None \<Rightarrow> (None, log ''ATTACKS.json is empty or has no attacks'' (Some ''ERROR'') w2)
                | Some data \<Rightarrow>
                    if dict_empty data \<or> get_attacks data = []
                    then (None, log ''ATTACKS.json is empty or has no attacks'' (Some ''ERROR'') w2)
                    else (Some output_file,
                          log ''  <U+2192> Created: ATTACKS.json'' (Some ''DONE'')
                            (log (''  <U+2192> Detected '' @ str_nat (length (get_attacks data)) @ '' attacks'')
                               (Some ''DONE'') w2))))"
proof -
  define w2 where "w2 =
    run_agent_defensive env ag ''Legal Analyst - Motion decomposition specialist''
      (phase_0_task m
         (if truthy sid then phase_0_note_store (str_opt sid) m else phase_0_note_index m)
         (path_str (path_join sd ''ATTACKS.json'')) (path_name sd) (isoformat_now env (length (w_trace w))))
      (build_context_string env (w_fs w)
         [path_join (path_join cf ''case-context'') ''case_summary.md'',
          path_join (path_join cf ''case-context'') ''documents_index.json'',
          path_join (path_join cf ''case-context'') ''user_narrative.md''])
      cf ''Phase_0_Attack_Detection'' (path_str (path_join sd ''ATTACKS.json''))
      (log (''Phase 0: Auto-detecting attacks from '' @ [CHR 0x27] @ m @ [CHR 0x27]) (Some ''PHASE'') w)"
  have "phases w2 = phases w @ [''Phase_0_Attack_Detection'']" "sleeps w2 = sleeps w"
    by (simp_all add: w2_def)
  moreover have "phase_0_detect_attacks env ag cf sd m sid w
       = (let output_file = path_join sd ''ATTACKS.json''
          in if \<not> path_exists (w_fs w2) output_file
             then (None, log (''Agent did not create ATTACKS.json at '' @ path_str output_file) (Some ''ERROR'') w2)
             else
               (case load_json_file env (w_fs w2) output_file of
                  None \<Rightarrow> (None, log ''ATTACKS.json is empty or has no attacks'' (Some ''ERROR'') w2)
                | Some data \<Rightarrow>
                    if dict_empty data \<or> get_attacks data = []
                    then (None, log ''ATTACKS.json is empty or has no attacks'' (Some ''ERROR'') w2)
                    else (Some output_file,
                          log ''  <U+2192> Created: ATTACKS.json'' (Some ''DONE'')
                            (log (''  <U+2192> Detected '' @ str_nat (length (get_attacks data)) @ '' attacks'')
                               (Some ''DONE'') w2))))"
    unfolding phase_0_detect_attacks_def w2_def Let_def ..
  ultimately show ?thesis
    by blast
qed

lemma dict_empty_no_attacks: "dict_empty d \<Longrightarrow> get_attacks d = []"
  by (simp add: dict_empty_def get_attacks_def)

lemma phase_0_result:
  "fst (phase_0_detect_attacks env ag cf sd m sid w)
     = (if detected env (w_fs (snd (phase_0_detect_attacks env ag cf sd m sid w))) (path_join sd ''ATTACKS.json'')
        then Some (path_join sd ''ATTACKS.json'') else None)"
proof -
  obtain w2 where u: "phase_0_detect_attacks env ag cf sd m sid w
       = (let output_file = path_join sd ''ATTACKS.json''
          in if \<not> path_exists (w_fs w2) output_file
             then (None, log (''Agent did not create ATTACKS.json at '' @ path_str output_file) (Some ''ERROR'') w2)
             else
               (case load_json_file env (w_fs w2) output_file of
                  None \<Rightarrow> (None, log ''ATTACKS.json is empty or has no attacks'' (Some ''ERROR'') w2)
                | Some data \<Rightarrow>
                    if dict_empty data \<or> get_attacks data = []
                    then (None, log ''ATTACKS.json is empty or has no attacks'' (Some ''ERROR'') w2)
                    else (Some output_file,
                          log ''  <U+2192> Created: ATTACKS.json'' (Some ''DONE'')
                            (log (''  <U+2192> Detected '' @ str_nat (length (get_attacks data)) @ '' attacks'')
                               (Some ''DONE'') w2))))"
    using phase_0_unfold by blast
  show ?thesis
    unfolding u by (auto simp: detected_def Let_def dict_empty_no_attacks split: option.splits)
qed

lemma main_detect_Inr:
  assumes "main_detect env args sid w = Inr (file, w')"
  shows "file = attacks_file args"
    and "phases w' = phases w @ (if arg_auto_detect args then [''Phase_0_Attack_Detection''] else [])"
    and "sleeps w' = sleeps w"
proof -
  show "file = attacks_file args"
  proof (cases "arg_auto_detect args")
    case True
    with assms have "fst (phase_0_detect_attacks env (arg_agent args) (arg_case_folder args)
               (strategy_dir args) (arg_motion args) sid (detect_banner args w)) = Some file"
      by (auto simp: main_detect_def Let_def split_def split: option.splits)
    then show ?thesis
      by (simp add: phase_0_result attacks_file_def split: if_splits)
  next
    case False
    with assms show ?thesis by (simp add: main_detect_def)
  qed
  show "phases w' = phases w @ (if arg_auto_detect args then [''Phase_0_Attack_Detection''] else [])"
    using assms
    by (auto simp: main_detect_def Let_def split_def phases_phase_0 detect_banner_def
        split: option.splits if_splits)
  show "sleeps w' = sleeps w"
    using assms
    by (auto simp: main_detect_def Let_def split_def sleeps_phase_0 detect_banner_def
        split: option.splits if_splits)
qed

lemma main_attacks_InrE:
  assumes "main_attacks env args w0 = Inr (sid, attacks, w1)"
  obtains st d where
    "path_exists (w_fs w0) (arg_case_folder args)"
    "path_exists (w_fs w0) (workspace_dir args)"
    "load_json_file env (w_fs (make_dir (strategy_dir args) w0)) (settings_file args) = Some st"
    "sid = d_file_search_store_id st"
    "main_detect env args sid (make_dir (strategy_dir args) w0) = Inr (attacks_file args, w1)"
    "path_exists (w_fs w1) (attacks_file args)"
    "load_json_file env (w_fs w1) (attacks_file args) = Some d"
    "get_attacks d \<noteq> []"
    "attacks = (if truthy (arg_attack args)
               then filter (\<lambda>a. a_id a = str_opt (arg_attack args)) (get_attacks d)
               else get_attacks d)"
    "attacks \<noteq> []"
proof -
  let ?w1 = "make_dir (strategy_dir args) w0"
  from assms have cf: "path_exists (w_fs w0) (arg_case_folder args)"
    by (simp add: main_attacks_def split: if_splits)
  from assms cf have ws: "path_exists (w_fs w0) (workspace_dir args)"
    by (simp add: main_attacks_def split: if_splits)
  from assms cf ws obtain st where st: "load_json_file env (w_fs ?w1) (settings_file args) = Some st"
    by (cases "load_json_file env (w_fs ?w1) (settings_file args)") (simp_all add: main_attacks_def Let_def)
  from assms cf ws st obtain af w2 where
    det: "main_detect env args (d_file_search_store_id st) ?w1 = Inr (af, w2)"
    by (cases "main_detect env args (d_file_search_store_id st) ?w1") (auto simp: main_attacks_def Let_def)
  have af: "af = attacks_file args"
    using main_detect_Inr(1) [OF det] .
  from assms cf ws st det have ex: "path_exists (w_fs w2) af"
    by (simp add: main_attacks_def Let_def split: if_splits)
  from assms cf ws st det ex obtain d where d: "load_json_file env (w_fs w2) af = Some d"
    by (cases "load_json_file env (w_fs w2) af") (simp_all add: main_attacks_def Let_def)
  from assms cf ws st det ex d have ne: "get_attacks d \<noteq> []"
    by (simp add: main_attacks_def Let_def split: if_splits)
  from assms cf ws st det ex d ne have res:
    "sid = d_file_search_store_id st" "w1 = w2"
    "attacks = (if truthy (arg_attack args)
               then filter (\<lambda>a. a_id a = str_opt (arg_attack args)) (get_attacks d)
               else get_attacks d)"
    "attacks \<noteq> []"
    by (auto simp add: main_attacks_def Let_def split: if_splits)
  from cf ws st det af ex d ne res that show thesis
    by simp
qed

lemma main_attacks_Inr:
  assumes "main_attacks env args w0 = Inr (sid, attacks, w1)"
  shows "phases w1 = phases w0 @ (if arg_auto_detect args then [''Phase_0_Attack_Detection''] else [])"
    and "sleeps w1 = sleeps w0"
proof -
  from assms obtain st where
    "main_detect env args sid (make_dir (strategy_dir args) w0) = Inr (attacks_file args, w1)"
    by (rule main_attacks_InrE)
  note d = main_detect_Inr [OF this]
  from d(2) show "phases w1 = phases w0 @ (if arg_auto_detect args then [''Phase_0_Attack_Detection''] else [])"
    by simp
  from d(3) show "sleeps w1 = sleeps w0"
    by simp
qed

lemma w_fs_make_dir [simp]: "w_fs (make_dir p w) = mkdir p (w_fs w)"
  by (simp add: make_dir_def)

lemma w_fs_run_agent_defensive:
  "run_agent env = silent_agent \<Longrightarrow> w_fs (run_agent_defensive env ag role task ctx cwd pn out w) = w_fs w"
  by (simp add: run_agent_defensive_def Let_def silent_agent_def)

lemma silent_phase_a:
  "run_agent env = silent_agent \<Longrightarrow> w_fs (snd (phase_a_evidence_analysis env ag a cf od sid w)) = w_fs w"
  by (simp add: phase_a_evidence_analysis_def Let_def w_fs_run_agent_defensive)

lemma silent_phase_b:
  "run_agent env = silent_agent \<Longrightarrow> w_fs (snd (phase_b_counter_requirements env ag a ef cf od sid w)) = w_fs w"
  by (simp add: phase_b_counter_requirements_def Let_def w_fs_run_agent_defensive)

lemma silent_phase_d:
  "run_agent env = silent_agent \<Longrightarrow> w_fs (snd (phase_d_viability_analysis env ag a ef cr od cf w)) = w_fs w"
  by (simp add: phase_d_viability_analysis_def Let_def w_fs_run_agent_defensive)

lemma silent_main_phase_a:
  "run_agent env = silent_agent \<Longrightarrow> w_fs (snd (main_phase_a env args a dir sid w)) = w_fs w"
  by (simp add: main_phase_a_def Let_def silent_phase_a)

lemma silent_main_phase_b:
  "run_agent env = silent_agent \<Longrightarrow> w_fs (snd (main_phase_b env args a ef dir sid w)) = w_fs w"
  by (simp add: main_phase_b_def Let_def silent_phase_b)

lemma silent_process_attack:
  "run_agent env = silent_agent \<Longrightarrow>
     w_fs (process_attack env args sid attacks a w) = mkdir (attack_dir (strategy_dir args) a) (w_fs w)"
  by (simp add: process_attack_def process_attack_rest_def Let_def split_def silent_main_phase_a
      silent_main_phase_b silent_phase_d)

lemma phases_process_attack_silent:
  assumes "run_agent env = silent_agent"
  shows "phases (process_attack env args sid attacks a w)
     = (let dir = attack_dir (strategy_dir args) a;
            f = mkdir dir (w_fs w)
        in phases w
           @ attack_phases (\<not> (arg_skip_evidence args \<and> path_exists f (path_join dir ''EVIDENCE_ANALYSIS.json'')))
               (\<not> (arg_skip_counter_req args \<and> path_exists f (path_join dir ''counter_requirements.json''))) a)"
proof -
  let ?dir = "attack_dir (strategy_dir args) a"
  let ?w2 = "attack_banner a (make_dir ?dir w)"
  let ?w3 = "snd (main_phase_a env args a ?dir sid ?w2)"
  let ?ef = "fst (main_phase_a env args a ?dir sid ?w2)"
  have fs3: "w_fs ?w3 = mkdir ?dir (w_fs w)"
    using assms by (simp add: silent_main_phase_a)
  have a: "phases ?w3 = phases w
     @ (if arg_skip_evidence args \<and> path_exists (mkdir ?dir (w_fs w)) (path_join ?dir ''EVIDENCE_ANALYSIS.json'')
        then [] else [''Phase_A_Evidence_'' @ a_id a])"
    by (simp add: phases_main_phase_a)
  have b: "phases (process_attack_rest env args sid attacks a ?dir ?ef ?w3)
     = phases ?w3
       @ (if arg_skip_counter_req args \<and> path_exists (w_fs ?w3) (path_join ?dir ''counter_requirements.json'')
          then [] else [''Phase_B_Counter_Req_'' @ a_id a])
       @ [''Phase_D_Viability_'' @ a_id a]"
    by (simp add: process_attack_rest_def Let_def split_def phases_main_phase_b phases_phase_d)
  have "process_attack env args sid attacks a w = process_attack_rest env args sid attacks a ?dir ?ef ?w3"
    by (simp add: process_attack_def Let_def split_def)
  with a b fs3 show ?thesis
    by (simp add: attack_phases_def Let_def)
qed

lemma all_ran:
  "length rs = length as \<Longrightarrow> \<forall>r \<in> set rs. fst r \<Longrightarrow> \<forall>r \<in> set rs. snd r \<Longrightarrow>
     concat (map (\<lambda>(r, a). attack_phases (fst r) (snd r) a) (zip rs as))
       = concat (map (attack_phases True True) as)"
  by (induction rs as rule: list_induct2) auto

lemma demo_paths:
  "workspace_dir demo_args = case_dir @ [''workspaces'', ''ws'']"
  "strategy_dir demo_args = case_dir @ [''workspaces'', ''ws'', ''strategies'', ''s1'']"
  "attacks_file demo_args = case_dir @ [''workspaces'', ''ws'', ''strategies'', ''s1'', ''ATTACKS.json'']"
  "settings_file demo_args = case_dir @ [''case-context'', ''settings.json'']"
  "arg_case_folder demo_args = case_dir"
  by (simp_all add: workspace_dir_def strategy_dir_def attacks_file_def settings_file_def path_join_def
      demo_args_def)

lemma demo_main_attacks:
  "main_attacks (stub_env silent_agent) demo_args demo_world
     = Inr (None, [attack_1, standing_defense], make_dir (strategy_dir demo_args) demo_world)"
  by (simp add: main_attacks_def main_detect_def demo_paths demo_world_def demo_dirs_def settings_entry_def
      stub_env_def stub_load_def path_exists_def case_dir_def mkdir_def get_attacks_def truthy_def
      attacks_text_def Let_def, simp add: demo_args_def)

lemma silent_stub [simp]: "run_agent (stub_env silent_agent) = silent_agent"
  by (simp add: stub_env_def)

lemma resumed_main_attacks:
  "main_attacks (stub_env silent_agent) (demo_args\<lparr>arg_skip_evidence := True\<rparr>) resumed_world
     = Inr (None, [attack_1, standing_defense], make_dir (strategy_dir demo_args) resumed_world)"
  by (simp add: main_attacks_def main_detect_def workspace_dir_def strategy_dir_def attacks_file_def
      settings_file_def path_join_def demo_args_def resumed_world_def demo_dirs_def settings_entry_def
      stub_env_def stub_load_def path_exists_def case_dir_def mkdir_def get_attacks_def truthy_def
      attacks_text_def Let_def)

lemma slug_attack_1: "attack_name_slug ''Failure to State a Claim'' = ''failure_to_state_a_claim''"
  by code_simp

lemma demo_attack_dirs:
  "attack_dir (strategy_dir demo_args) attack_1
     = case_dir @ [''workspaces'', ''ws'', ''strategies'', ''s1'', ''attacks'', ''001_failure_to_state_a_claim'']"
  "attack_dir (strategy_dir demo_args) standing_defense
     = case_dir @ [''workspaces'', ''ws'', ''strategies'', ''s1'', ''attacks'', ''002_standing_defense!!'']"
  by (simp_all add: attack_dir_def demo_paths path_join_def attack_1_def standing_defense_def
      slug_attack_1 slug_standing_defense)

lemma length_attack_dir: "length (attack_dir sd a) = length sd + 2"
  by (simp add: attack_dir_def path_join_def)

lemma path_exists_mkdir:
  "length p < length q \<Longrightarrow> path_exists (mkdir p f) q = path_exists f q"
  by (auto simp: path_exists_def mkdir_def)

lemma relay_loop:
  "\<exists>w9. w_fs w9 = w_fs w \<and> phases w9 = phases w
     \<and> phases (relay env args sid attacks w)
         = phases (fold (process_attack env args sid attacks) attacks w9) @ [''Phase_E_Gap_Analysis'']"
proof -
  define w9 where "w9 =
    (let w8 = log (''Attacks to process: '' @ str_nat (length attacks)) None
               (log (''Agent: '' @ arg_agent args) None
                 (log (''Strategy: '' @ arg_strategy args) None
                   (log (''Workspace: '' @ arg_workspace args) None
                     (log (''Case Folder: '' @ path_name (arg_case_folder args)) None
                       (log (rule 60) (Some ''INFO'')
                         (log ''DEFENSIVE STRATEGY RELAY'' (Some ''START'')
                           (log (rule 60) (Some ''INFO'') w)))))))
     in log (rule 60) (Some ''INFO'')
          (if truthy sid then log (''File Search: '' @ str_opt sid) None w8 else w8))"
  have "w_fs w9 = w_fs w" "phases w9 = phases w"
    by (simp_all add: w9_def Let_def)
  moreover have "phases (relay env args sid attacks w)
      = phases (fold (process_attack env args sid attacks) attacks w9) @ [''Phase_E_Gap_Analysis'']"
    by (simp add: relay_def w9_def Let_def split_def phases_phase_e)
  ultimately show ?thesis
    by blast
qed

subsection \<open>Loading and selecting the attacks\<close>

lemma main_detect_cases:
  "main_detect env args sid w
     = (if auto_detection_failed env args sid w
        then Inl (Sys_exit 1,
               log ''Failed to auto-detect attacks. Check the raw output.'' (Some ''ERROR'')
                 (load_world env args sid w))
        else Inr (attacks_file args, load_world env args sid w))"
proof (cases "arg_auto_detect args")
  case False
  then show ?thesis
    by (simp add: main_detect_def auto_detection_failed_def load_world_def)
next
  case True
  let ?p0 = "phase_0_detect_attacks env (arg_agent args) (arg_case_folder args) (strategy_dir args)
               (arg_motion args) sid (detect_banner args w)"
  show ?thesis
  proof (cases "fst ?p0")
    case None
    with True show ?thesis
      by (simp add: main_detect_def auto_detection_failed_def load_world_def Let_def split_def)
  next
    case (Some af)
    then have "af = attacks_file args"
      by (simp add: phase_0_result attacks_file_def split: if_splits)
    with True Some show ?thesis
      by (simp add: main_detect_def auto_detection_failed_def load_world_def Let_def split_def)
  qed
qed

lemma filter_empty_ids: "filter (\<lambda>a. a_id a = i) as = [] \<longleftrightarrow> i \<notin> a_id ` set as"
  by (auto simp: filter_empty_conv)

lemma main_attacks_exit:
  "(case main_attacks env args w of Inl r \<Rightarrow> exit_code (fst r) = 1 | Inr r \<Rightarrow> True)"
  by (simp add: main_attacks_def main_detect_cases Let_def split: option.splits)

lemma phases_load_world:
  "phases (load_world env args sid u)
     = phases u @ (if arg_auto_detect args then [''Phase_0_Attack_Detection''] else [])"
  by (simp add: load_world_def phases_phase_0 detect_banner_def Let_def)

lemma sleeps_load_world: "sleeps (load_world env args sid u) = sleeps u"
  by (simp add: load_world_def sleeps_phase_0 detect_banner_def Let_def)

lemma calls_load_world: "\<not> arg_auto_detect args \<Longrightarrow> calls (load_world env args sid u) = calls u"
  by (simp add: load_world_def)

lemma main_attacks_loaded:
  assumes "loaded_attacks env args w = Some as"
  shows "\<exists>sid w1. phases w1 = phases w @ (if arg_auto_detect args then [''Phase_0_Attack_Detection''] else [])
           \<and> sleeps w1 = sleeps w
           \<and> (\<not> arg_auto_detect args \<longrightarrow> calls w1 = calls w)
           \<and> main_attacks env args w
               = (if as = [] then Inl (Sys_exit 1, log ''No attacks found in ATTACKS.json'' (Some ''ERROR'') w1)
                  else if selected_attacks args as = []
                  then Inl (Sys_exit 1,
                         log (''Attack '' @ str_opt (arg_attack args) @ '' not found'') (Some ''ERROR'') w1)
                  else Inr (sid, selected_attacks args as, w1))"
proof -
  let ?w1 = "make_dir (strategy_dir args) w"
  from assms have ex: "path_exists (w_fs w) (arg_case_folder args)" "path_exists (w_fs w) (workspace_dir args)"
    by (auto simp: loaded_attacks_def split: if_splits)
  with assms obtain st where st: "load_json_file env (w_fs ?w1) (settings_file args) = Some st"
    by (cases "load_json_file env (w_fs ?w1) (settings_file args)") (auto simp: loaded_attacks_def Let_def)
  let ?sid = "d_file_search_store_id st"
  let ?w2 = "load_world env args ?sid ?w1"
  from assms ex st have ok: "\<not> auto_detection_failed env args ?sid ?w1"
    by (auto simp: loaded_attacks_def Let_def split: if_splits)
  from assms ex st ok have there: "path_exists (w_fs ?w2) (attacks_file args)"
    by (auto simp: loaded_attacks_def Let_def split: if_splits)
  from assms ex st ok there obtain d where
    d: "load_json_file env (w_fs ?w2) (attacks_file args) = Some d" "get_attacks d = as"
    by (auto simp: loaded_attacks_def Let_def)
  have "main_attacks env args w
      = (if as = [] then Inl (Sys_exit 1, log ''No attacks found in ATTACKS.json'' (Some ''ERROR'') ?w2)
         else if selected_attacks args as = []
         then Inl (Sys_exit 1,
                log (''Attack '' @ str_opt (arg_attack args) @ '' not found'') (Some ''ERROR'') ?w2)
         else Inr (?sid, selected_attacks args as, ?w2))"
    using ex st ok there d
    by (simp add: main_attacks_def main_detect_cases selected_attacks_def Let_def)
  moreover have "phases ?w2 = phases w @ (if arg_auto_detect args then [''Phase_0_Attack_Detection''] else [])"
    "sleeps ?w2 = sleeps w" "\<not> arg_auto_detect args \<longrightarrow> calls ?w2 = calls w"
    by (simp_all add: phases_load_world sleeps_load_world calls_load_world)
  ultimately show ?thesis
    by blast
qed

lemma main_attacks_Inl:
  assumes "main_attacks env args w = Inl (st, w')"
  shows "exit_code st = 1"
    and "phases w' = phases w @ (if arg_auto_detect args \<and> phases w' \<noteq> phases w
                                 then [''Phase_0_Attack_Detection''] else [])"
    and "\<not> arg_auto_detect args \<Longrightarrow> calls w' = calls w"
proof -
  show "exit_code st = 1"
    using main_attacks_exit [of env args w] assms by simp
  have lw: "phases (load_world env args sid u)
      = phases u @ (if arg_auto_detect args then [''Phase_0_Attack_Detection''] else [])" for sid u
    by (simp add: load_world_def phases_phase_0 detect_banner_def Let_def)
  have or: "phases w' = phases w \<or> (arg_auto_detect args \<and> phases w' = phases w @ [''Phase_0_Attack_Detection''])"
    using assms
    by (auto simp: main_attacks_def main_detect_cases Let_def lw split: if_splits option.splits)
  then show "phases w' = phases w @ (if arg_auto_detect args \<and> phases w' \<noteq> phases w
                                 then [''Phase_0_Attack_Detection''] else [])"
    by auto
  show "calls w' = calls w" if "\<not> arg_auto_detect args"
    using assms that
    by (auto simp: main_attacks_def main_detect_cases Let_def load_world_def auto_detection_failed_def
        split: if_splits option.splits)
qed

lemma demo_loaded:
  "stub_load (mkdir p (w_fs demo_world)) (attacks_file demo_args)
     = Some \<lparr>d_attacks = Some [attack_1, standing_defense], d_file_search_store_id = None,
              d_other_keys = [''strategy_id'']\<rparr>"
  "stub_load (mkdir p (w_fs demo_world)) (settings_file demo_args)
     = Some \<lparr>d_attacks = None, d_file_search_store_id = None, d_other_keys = []\<rparr>"
  by (simp_all add: stub_load_def mkdir_def demo_world_def demo_paths settings_entry_def case_dir_def
      attacks_text_def)

lemma demo_exists:
  "path_exists (w_fs demo_world) (arg_case_folder demo_args)"
  "path_exists (w_fs demo_world) (workspace_dir demo_args)"
  "path_exists (mkdir p (w_fs demo_world)) (attacks_file demo_args)"
  by (simp_all add: path_exists_def mkdir_def demo_world_def demo_paths demo_dirs_def settings_entry_def
      case_dir_def)

lemma changed_args:
  "arg_case_folder (demo_args\<lparr>arg_attack := x\<rparr>) = arg_case_folder demo_args"
  "workspace_dir (demo_args\<lparr>arg_attack := x\<rparr>) = workspace_dir demo_args"
  "strategy_dir (demo_args\<lparr>arg_attack := x\<rparr>) = strategy_dir demo_args"
  "attacks_file (demo_args\<lparr>arg_attack := x\<rparr>) = attacks_file demo_args"
  "settings_file (demo_args\<lparr>arg_attack := x\<rparr>) = settings_file demo_args"
  by (simp_all add: workspace_dir_def strategy_dir_def attacks_file_def settings_file_def)

lemma demo_loaded_attacks:
  "loaded_attacks (stub_env silent_agent) demo_args demo_world = Some [attack_1, standing_defense]"
  "loaded_attacks (stub_env silent_agent) (demo_args\<lparr>arg_attack := x\<rparr>) demo_world
     = Some [attack_1, standing_defense]"
proof -
  have manual: "\<not> arg_auto_detect demo_args" "\<not> arg_auto_detect (demo_args\<lparr>arg_attack := x\<rparr>)"
    by (simp_all add: demo_args_def)
  have env: "load_json_file (stub_env silent_agent) = stub_load"
    by (simp add: stub_env_def)
  show "loaded_attacks (stub_env silent_agent) demo_args demo_world = Some [attack_1, standing_defense]"
    using manual(1)
    by (simp add: loaded_attacks_def auto_detection_failed_def load_world_def demo_exists demo_loaded env
        make_dir_def Let_def get_attacks_def)
  show "loaded_attacks (stub_env silent_agent) (demo_args\<lparr>arg_attack := x\<rparr>) demo_world
     = Some [attack_1, standing_defense]"
    using manual(2)
    by (simp add: loaded_attacks_def auto_detection_failed_def load_world_def changed_args demo_exists
        demo_loaded env make_dir_def Let_def get_attacks_def)
qed

subsection \<open>The agent calls made for an attack\<close>

lemma path_exists_attack_file:
  "path_exists (mkdir (attack_dir sd a) f) (path_join (attack_dir sd a) n)
     = path_exists f (path_join (attack_dir sd a) n)"
  by (simp add: path_exists_mkdir path_join_def)

lemma w_fs_main_phase_a:
  "w_fs (snd (main_phase_a env args a (attack_dir (strategy_dir args) a) sid
               (attack_banner a (make_dir (attack_dir (strategy_dir args) a) w))))
     = phase_b_fs env args sid a w"
  by (simp add: main_phase_a_def phase_b_fs_def evidence_reused_def evidence_path_def Let_def
      path_exists_attack_file)

lemma phases_process_attack_exact:
  "phases (process_attack env args sid attacks a w) = phases w @ attack_calls env args sid a w"
proof -
  let ?dir = "attack_dir (strategy_dir args) a"
  let ?w2 = "attack_banner a (make_dir ?dir w)"
  let ?w3 = "snd (main_phase_a env args a ?dir sid ?w2)"
  let ?ef = "fst (main_phase_a env args a ?dir sid ?w2)"
  have a: "phases ?w3 = phases w @ (if evidence_reused args a (w_fs w) then [] else [''Phase_A_Evidence_'' @ a_id a])"
    by (simp add: phases_main_phase_a evidence_reused_def evidence_path_def path_exists_attack_file)
  have b: "phases (process_attack_rest env args sid attacks a ?dir ?ef ?w3)
     = phases ?w3
       @ (if counter_req_reused args a (w_fs ?w3) then [] else [''Phase_B_Counter_Req_'' @ a_id a])
       @ [''Phase_D_Viability_'' @ a_id a]"
    by (simp add: process_attack_rest_def Let_def split_def phases_main_phase_b phases_phase_d
        counter_req_reused_def counter_req_path_def)
  have "process_attack env args sid attacks a w = process_attack_rest env args sid attacks a ?dir ?ef ?w3"
    by (simp add: process_attack_def Let_def split_def)
  with a b show ?thesis
    by (simp add: attack_calls_def attack_phases_def w_fs_main_phase_a)
qed

lemma length_attack_starts [simp]: "length (attack_starts env args sid attacks rest w) = length rest"
  by (induction rest arbitrary: w) simp_all

lemma phases_fold_exact:
  "phases (fold (process_attack env args sid attacks) rest w)
     = phases w @ concat (map (\<lambda>(a, wa). attack_calls env args sid a wa)
                            (zip rest (attack_starts env args sid attacks rest w)))"
  by (induction rest arbitrary: w) (simp_all add: phases_process_attack_exact)

lemma phases_relay_exact:
  "phases (relay env args sid attacks w)
     = phases w @ concat (map (\<lambda>(a, wa). attack_calls env args sid a wa)
                            (zip attacks (attack_starts env args sid attacks attacks (loop_start args sid attacks w))))
         @ [''Phase_E_Gap_Analysis'']"
proof -
  have start: "phases (loop_start args sid attacks w) = phases w"
    by (simp add: loop_start_def Let_def)
  have "phases (relay env args sid attacks w)
      = phases (fold (process_attack env args sid attacks) attacks (loop_start args sid attacks w))
          @ [''Phase_E_Gap_Analysis'']"
    by (simp add: relay_def loop_start_def Let_def split_def phases_phase_e)
  then show ?thesis
    by (simp add: phases_fold_exact start)
qed

lemma attack_calls_all:
  "\<not> arg_skip_evidence args \<Longrightarrow> \<not> arg_skip_counter_req args \<Longrightarrow>
     attack_calls env args sid a w = attack_phases True True a"
  by (simp add: attack_calls_def evidence_reused_def counter_req_reused_def)

lemma loop_calls_all:
  "length as = length ws \<Longrightarrow> \<not> arg_skip_evidence args \<Longrightarrow> \<not> arg_skip_counter_req args \<Longrightarrow>
     concat (map (\<lambda>(a, wa). attack_calls env args sid a wa) (zip as ws))
       = concat (map (attack_phases True True) as)"
  by (induction as ws rule: list_induct2) (simp_all add: attack_calls_all)


lemma w_fs_run_agent_defensive_call:
  "w_fs (run_agent_defensive env ag role task ctx cwd pn out w)
     = run_agent env (length (calls w))
         \<lparr>c_agent = ag, c_role = role, c_task = task, c_context = ctx, c_cwd = cwd,
          c_max_retries = 5, c_timeout = 600, c_phase_name = pn, c_output_file = Some out\<rparr> (w_fs w)"
  by (simp add: run_agent_defensive_def Let_def)

lemma phase_b_call:
  "\<exists>c. c_phase_name c = ''Phase_B_Counter_Req_'' @ a_id a
      \<and> c_context c = phase_b_context (json_dumps env (load_json_file env (w_fs w) ef)) (a_id a) (a_name a)
                         (opposing_argument a)
                         (json_dumps env (load_json_file env (w_fs w)
                            (path_join (path_join cf ''case-context'') ''documents_index.json'')))
      \<and> calls (snd (phase_b_counter_requirements env ag a ef cf od sid w)) = calls w @ [c]
      \<and> w_fs (snd (phase_b_counter_requirements env ag a ef cf od sid w))
          = run_agent env (length (calls w)) c (w_fs w)"
  by (simp add: phase_b_counter_requirements_def Let_def w_fs_run_agent_defensive_call)

lemma phase_d_call:
  "\<exists>c. c_phase_name c = ''Phase_D_Viability_'' @ a_id a
      \<and> c_context c = phase_d_context (json_dumps env (load_json_file env (w_fs w) ef))
                         (json_dumps env (load_json_file env (w_fs w) cr))
      \<and> calls (snd (phase_d_viability_analysis env ag a ef cr od cf w)) = calls w @ [c]"
  by (simp add: phase_d_viability_analysis_def Let_def)

lemma calls_process_attack_rest:
  "\<exists>cb cd.
       c_phase_name cb = ''Phase_B_Counter_Req_'' @ a_id a
     \<and> c_context cb = phase_b_context (json_dumps env (load_json_file env (w_fs w) ef)) (a_id a) (a_name a)
                          (opposing_argument a)
                          (json_dumps env (load_json_file env (w_fs w)
                             (path_join (path_join (arg_case_folder args) ''case-context'') ''documents_index.json'')))
     \<and> c_phase_name cd = ''Phase_D_Viability_'' @ a_id a
     \<and> c_context cd
         = (let fd = (if arg_skip_counter_req args \<and> path_exists (w_fs w) (path_join dir ''counter_requirements.json'')
                      then w_fs w else run_agent env (length (calls w)) cb (w_fs w))
            in phase_d_context (json_dumps env (load_json_file env fd ef))
                 (json_dumps env (load_json_file env fd (path_join dir ''counter_requirements.json''))))
     \<and> calls (process_attack_rest env args sid attacks a dir ef w)
         = calls w
           @ (if arg_skip_counter_req args \<and> path_exists (w_fs w) (path_join dir ''counter_requirements.json'')
              then [] else [cb])
           @ [cd]"
proof -
  let ?cr = "path_join dir ''counter_requirements.json''"
  let ?reused = "arg_skip_counter_req args \<and> path_exists (w_fs w) ?cr"
  let ?w2 = "sleep 5 (log ''  <U+23F3> Waiting 5s before Phase B...'' (Some ''INFO'') w)"
  let ?w3 = "snd (main_phase_b env args a ef dir sid ?w2)"
  let ?w5 = "sleep 5 (log ''  <U+23F3> Waiting 5s before Phase D...'' (Some ''INFO'') ?w3)"
  let ?d = "phase_d_viability_analysis env (arg_agent args) a ef ?cr dir (arg_case_folder args) ?w5"
  have rest: "calls (process_attack_rest env args sid attacks a dir ef w) = calls (snd ?d)"
    by (simp add: process_attack_rest_def Let_def split_def fst_main_phase_b)
  obtain cb where cb:
    "c_phase_name cb = ''Phase_B_Counter_Req_'' @ a_id a"
    "c_context cb = phase_b_context (json_dumps env (load_json_file env (w_fs ?w2) ef)) (a_id a) (a_name a)
                      (opposing_argument a)
                      (json_dumps env (load_json_file env (w_fs ?w2)
                         (path_join (path_join (arg_case_folder args) ''case-context'') ''documents_index.json'')))"
    "calls (snd (phase_b_counter_requirements env (arg_agent args) a ef (arg_case_folder args) dir sid ?w2))
       = calls ?w2 @ [cb]"
    "w_fs (snd (phase_b_counter_requirements env (arg_agent args) a ef (arg_case_folder args) dir sid ?w2))
       = run_agent env (length (calls ?w2)) cb (w_fs ?w2)"
    using phase_b_call by blast
  have w3: "calls ?w3 = calls w @ (if ?reused then [] else [cb])"
    "w_fs ?w3 = (if ?reused then w_fs w else run_agent env (length (calls w)) cb (w_fs w))"
    using cb(3) cb(4) by (simp_all add: main_phase_b_def Let_def)
  obtain cd where cd:
    "c_phase_name cd = ''Phase_D_Viability_'' @ a_id a"
    "c_context cd = phase_d_context (json_dumps env (load_json_file env (w_fs ?w5) ef))
                      (json_dumps env (load_json_file env (w_fs ?w5) ?cr))"
    "calls (snd ?d) = calls ?w5 @ [cd]"
    using phase_d_call by blast
  have "c_context cd
         = (let fd = (if ?reused then w_fs w else run_agent env (length (calls w)) cb (w_fs w))
            in phase_d_context (json_dumps env (load_json_file env fd ef))
                 (json_dumps env (load_json_file env fd ?cr)))"
    using cd(2) w3(2) by (simp add: Let_def)
  moreover have "calls (process_attack_rest env args sid attacks a dir ef w)
      = calls w @ (if ?reused then [] else [cb]) @ [cd]"
    using rest cd(3) w3(1) by simp
  moreover have "c_context cb = phase_b_context (json_dumps env (load_json_file env (w_fs w) ef)) (a_id a) (a_name a)
                      (opposing_argument a)
                      (json_dumps env (load_json_file env (w_fs w)
                         (path_join (path_join (arg_case_folder args) ''case-context'') ''documents_index.json'')))"
    using cb(2) by simp
  ultimately show ?thesis
    using cb(1) cd(1) by blast
qed

lemma stub_load_mkdir: "stub_load (mkdir p f) q = stub_load f q"
  by (simp add: stub_load_def mkdir_def)

lemma stub_env_simps:
  "load_json_file (stub_env agent) = stub_load"
  "json_dumps (stub_env agent) None = ''null''"
  "json_dumps (stub_env agent) (Some d) = ''{}''"
  by (simp_all add: stub_env_def)

lemma attack_calls_silent:
  "run_agent env = silent_agent \<Longrightarrow>
     attack_calls env args sid a w
       = attack_phases (\<not> evidence_reused args a (w_fs w)) (\<not> counter_req_reused args a (w_fs w)) a"
  by (simp add: attack_calls_def phase_b_fs_def Let_def silent_phase_a counter_req_reused_def
      counter_req_path_def path_exists_attack_file)

lemma resumed_run:
  "loaded_attacks (stub_env silent_agent) (demo_args\<lparr>arg_skip_evidence := x, arg_skip_counter_req := y\<rparr>)
     resumed_world = Some [attack_1, standing_defense]"
  "main_attacks (stub_env silent_agent) (demo_args\<lparr>arg_skip_evidence := x, arg_skip_counter_req := y\<rparr>)
     resumed_world = Inr (None, [attack_1, standing_defense], make_dir (strategy_dir demo_args) resumed_world)"
  by (simp_all add: loaded_attacks_def auto_detection_failed_def load_world_def main_attacks_def
      main_detect_def workspace_dir_def strategy_dir_def attacks_file_def
      settings_file_def path_join_def demo_args_def resumed_world_def demo_dirs_def settings_entry_def
      stub_env_def stub_load_def path_exists_def case_dir_def mkdir_def get_attacks_def truthy_def
      attacks_text_def Let_def)

subsection \<open>C1: the sequence of phases\<close>

text \<open>
  C1, as stated, fails when \<open>--skip-evidence\<close> is given and the evidence analysis of an
  attack is already there: for a valid \<open>ATTACKS.json\<close> of two attacks and no \<open>--attack\<close>
  filter, Phase A is invoked once, not twice.
\<close>

theorem skip_evidence_counterexample:
  "phases (snd (main (stub_env silent_agent) (demo_args\<lparr>arg_skip_evidence := True\<rparr>) resumed_world))
     = [''Phase_B_Counter_Req_001'', ''Phase_D_Viability_001'',
        ''Phase_A_Evidence_002'', ''Phase_B_Counter_Req_002'', ''Phase_D_Viability_002'',
        ''Phase_E_Gap_Analysis'']"
proof -
  let ?env = "stub_env silent_agent"
  let ?args = "demo_args\<lparr>arg_skip_evidence := True\<rparr>"
  let ?as = "[attack_1, standing_defense]"
  let ?sd = "strategy_dir demo_args"
  let ?d1 = "attack_dir ?sd attack_1"
  let ?d2 = "attack_dir ?sd standing_defense"
  let ?f = "w_fs resumed_world"
  have sd: "strategy_dir ?args = ?sd"
    by (simp add: strategy_dir_def workspace_dir_def)
  have flags: "arg_skip_evidence ?args" "\<not> arg_skip_counter_req ?args"
    by (simp_all add: demo_args_def)
  have len: "length ?sd = 6" "length ?d1 = 8" "length ?d2 = 8"
    by (simp_all add: length_attack_dir demo_paths case_dir_def)
  have there: "path_exists ?f (path_join ?d1 ''EVIDENCE_ANALYSIS.json'')"
    by (simp add: demo_attack_dirs path_join_def path_exists_def resumed_world_def case_dir_def
        settings_entry_def)
  have not_there: "\<not> path_exists ?f (path_join ?d2 ''EVIDENCE_ANALYSIS.json'')"
    by (simp add: demo_attack_dirs path_join_def path_exists_def resumed_world_def case_dir_def
        settings_entry_def demo_dirs_def)
  obtain w9 where w9: "w_fs w9 = mkdir ?sd ?f" "phases w9 = []"
    "phases (snd (main ?env ?args resumed_world))
       = phases (fold (process_attack ?env ?args None ?as) ?as w9) @ [''Phase_E_Gap_Analysis'']"
  proof -
    obtain w where "w_fs w = w_fs (make_dir ?sd resumed_world)" "phases w = phases (make_dir ?sd resumed_world)"
      "phases (relay ?env ?args None ?as (make_dir ?sd resumed_world))
         = phases (fold (process_attack ?env ?args None ?as) ?as w) @ [''Phase_E_Gap_Analysis'']"
      using relay_loop by blast
    moreover have "phases resumed_world = []"
      by (simp add: phases_def calls_def resumed_world_def)
    ultimately show thesis
      using that resumed_main_attacks by (simp add: main_def)
  qed
  let ?w1 = "process_attack ?env ?args None ?as attack_1 w9"
  have fs1: "w_fs ?w1 = mkdir ?d1 (mkdir ?sd ?f)"
    by (simp add: silent_process_attack sd w9(1))
  have "path_exists (mkdir ?d1 (w_fs w9)) (path_join ?d1 ''EVIDENCE_ANALYSIS.json'')"
    using there len by (simp add: w9(1) path_exists_mkdir path_join_def)
  then have one: "phases ?w1 = [''Phase_B_Counter_Req_001'', ''Phase_D_Viability_001'']"
    using flags by (simp add: phases_process_attack_silent sd Let_def w9(2) attack_phases_def attack_1_def)
  have "\<not> path_exists (mkdir ?d2 (w_fs ?w1)) (path_join ?d2 ''EVIDENCE_ANALYSIS.json'')"
    using not_there len by (simp add: fs1 path_exists_mkdir path_join_def)
  then have two: "phases (process_attack ?env ?args None ?as standing_defense ?w1)
      = phases ?w1 @ [''Phase_A_Evidence_002'', ''Phase_B_Counter_Req_002'', ''Phase_D_Viability_002'']"
    using flags by (simp add: phases_process_attack_silent sd Let_def attack_phases_def standing_defense_def)
  from w9(3) one two show ?thesis
    by simp
qed

text \<open>
  C1, amended: for every valid \<open>ATTACKS.json\<close> whose attacks list has N >= 1 entries (and
  no \<open>--attack\<close> filter), the agent calls of the run are, after that of Phase 0 when
  \<open>--auto-detect\<close> is given, for each attack in list order and in the world in which the
  attack is taken up: Phase A, unless \<open>--skip-evidence\<close> is given and the attack's
  \<open>EVIDENCE_ANALYSIS.json\<close> exists; then Phase B, unless \<open>--skip-counter-req\<close> is given
  and its \<open>counter_requirements.json\<close> exists; then Phase D; and after the N attacks
  Phase E, once. When neither skip flag is given the sequence is Phase A, Phase B,
  Phase D for each attack and then Phase E.
\<close>

theorem relay_phase_sequence:
  assumes "loaded_attacks env args w = Some attacks" and "attacks \<noteq> []" and "arg_attack args = None"
  shows "\<exists>sid w1.
       main_attacks env args w = Inr (sid, attacks, w1)
     \<and> phases w1 = phases w @ (if arg_auto_detect args then [''Phase_0_Attack_Detection''] else [])
     \<and> length (attack_starts env args sid attacks attacks (loop_start args sid attacks w1)) = length attacks
     \<and> phases (snd (main env args w))
         = phases w1
           @ concat (map (\<lambda>(a, wa). attack_calls env args sid a wa)
                       (zip attacks (attack_starts env args sid attacks attacks (loop_start args sid attacks w1))))
           @ [''Phase_E_Gap_Analysis'']
     \<and> (\<not> arg_skip_evidence args \<and> \<not> arg_skip_counter_req args \<longrightarrow>
          phases (snd (main env args w))
            = phases w1 @ concat (map (attack_phases True True) attacks) @ [''Phase_E_Gap_Analysis''])"
proof -
  let ?p0 = "if arg_auto_detect args then [''Phase_0_Attack_Detection''] else []"
  from assms(3) have all: "selected_attacks args attacks = attacks"
    by (simp add: selected_attacks_def truthy_def)
  with main_attacks_loaded [OF assms(1)] assms(2) obtain sid w1 where w1:
    "phases w1 = phases w @ ?p0" "main_attacks env args w = Inr (sid, attacks, w1)"
    by auto
  let ?ws = "attack_starts env args sid attacks attacks (loop_start args sid attacks w1)"
  have run: "snd (main env args w) = relay env args sid attacks w1"
    using w1(2) by (simp add: main_def)
  have seq: "phases (snd (main env args w))
      = phases w1 @ concat (map (\<lambda>(a, wa). attack_calls env args sid a wa) (zip attacks ?ws))
          @ [''Phase_E_Gap_Analysis'']"
    by (simp add: run phases_relay_exact)
  have len: "length ?ws = length attacks"
    by simp
  have "\<not> arg_skip_evidence args \<and> \<not> arg_skip_counter_req args \<longrightarrow>
          phases (snd (main env args w))
            = phases w1 @ concat (map (attack_phases True True) attacks) @ [''Phase_E_Gap_Analysis'']"
    using seq loop_calls_all [of attacks ?ws args env sid] by simp
  with w1 seq len show ?thesis
    by blast
qed

theorem relay_phase_sequence_witness:
  "phases (snd (main (stub_env silent_agent)
                  (demo_args\<lparr>arg_skip_evidence := True, arg_skip_counter_req := True\<rparr>) resumed_world))
     = [''Phase_B_Counter_Req_001'', ''Phase_D_Viability_001'',
        ''Phase_A_Evidence_002'', ''Phase_B_Counter_Req_002'', ''Phase_D_Viability_002'',
        ''Phase_E_Gap_Analysis'']"
proof -
  let ?env = "stub_env silent_agent"
  let ?args = "demo_args\<lparr>arg_skip_evidence := True, arg_skip_counter_req := True\<rparr>"
  let ?as = "[attack_1, standing_defense]"
  let ?sd = "strategy_dir demo_args"
  let ?d1 = "attack_dir ?sd attack_1"
  let ?f = "w_fs resumed_world"
  let ?w1 = "make_dir ?sd resumed_world"
  let ?w9 = "loop_start ?args None ?as ?w1"
  let ?wa = "process_attack ?env ?args None ?as attack_1 ?w9"
  have sd: "strategy_dir ?args = ?sd"
    by (simp add: strategy_dir_def workspace_dir_def)
  have given: "?as \<noteq> []" "arg_attack ?args = None" "\<not> arg_auto_detect ?args"
    by (simp_all add: demo_args_def)
  have flags: "arg_skip_evidence ?args" "arg_skip_counter_req ?args"
    by simp_all
  have len: "length ?sd = 6" "length ?d1 = 8"
    by (simp_all add: length_attack_dir demo_paths case_dir_def)
  have fs9: "w_fs ?w9 = mkdir ?sd ?f"
    by (simp add: loop_start_def Let_def)
  have fsa: "w_fs ?wa = mkdir ?d1 (mkdir ?sd ?f)"
    by (simp add: silent_process_attack sd fs9)
  have files: "path_exists ?f (evidence_path ?args attack_1)"
    "\<not> path_exists ?f (counter_req_path ?args attack_1)"
    "\<not> path_exists ?f (evidence_path ?args standing_defense)"
    "\<not> path_exists ?f (counter_req_path ?args standing_defense)"
    by (simp_all add: evidence_path_def counter_req_path_def sd demo_attack_dirs path_join_def path_exists_def
        resumed_world_def case_dir_def settings_entry_def demo_dirs_def)
  have long: "length (evidence_path ?args attack_1) = 9" "length (counter_req_path ?args attack_1) = 9"
    "length (evidence_path ?args standing_defense) = 9" "length (counter_req_path ?args standing_defense) = 9"
    by (simp_all add: evidence_path_def counter_req_path_def sd length_attack_dir path_join_def len)
  have one: "attack_calls ?env ?args None attack_1 ?w9 = [''Phase_B_Counter_Req_001'', ''Phase_D_Viability_001'']"
    using files(1) files(2) flags
    by (simp add: attack_calls_silent evidence_reused_def counter_req_reused_def fs9 path_exists_mkdir
        long len attack_phases_def, simp add: attack_1_def)
  have two: "attack_calls ?env ?args None standing_defense ?wa
      = [''Phase_A_Evidence_002'', ''Phase_B_Counter_Req_002'', ''Phase_D_Viability_002'']"
    using files(3) files(4) flags
    by (simp add: attack_calls_silent evidence_reused_def counter_req_reused_def fsa path_exists_mkdir
        long len attack_phases_def, simp add: standing_defense_def)
  from relay_phase_sequence [OF resumed_run(1) given(1) given(2)]
  obtain sid w1 where r:
    "main_attacks ?env ?args resumed_world = Inr (sid, ?as, w1)"
    "phases w1 = phases resumed_world @ (if arg_auto_detect ?args then [''Phase_0_Attack_Detection''] else [])"
    "phases (snd (main ?env ?args resumed_world))
       = phases w1
         @ concat (map (\<lambda>(a, wa). attack_calls ?env ?args sid a wa)
                     (zip ?as (attack_starts ?env ?args sid ?as ?as (loop_start ?args sid ?as w1))))
         @ [''Phase_E_Gap_Analysis'']"
    by blast
  from r(1) have same: "sid = None" "w1 = ?w1"
    by (simp_all add: resumed_run(2))
  have "phases resumed_world = []"
    by (simp add: phases_def calls_def resumed_world_def)
  with r(2) given(3) have "phases w1 = []"
    by simp
  with r(3) show ?thesis
    by (simp add: same one two)
qed

subsection \<open>C2: the postcondition of Phase 0\<close>

lemma phase_0_call:
  "\<exists>c w2. c_phase_name c = ''Phase_0_Attack_Detection''
     \<and> c_output_file c = Some (path_str (path_join sd ''ATTACKS.json''))
     \<and> calls w2 = calls w @ [c]
     \<and> w_fs w2 = run_agent env (length (calls w)) c (w_fs w)
     \<and> phase_0_detect_attacks env ag cf sd m sid w
       = (let output_file = path_join sd ''ATTACKS.json''
          in if \<not> path_exists (w_fs w2) output_file
             then (None, log (''Agent did not create ATTACKS.json at '' @ path_str output_file) (Some ''ERROR'') w2)
             else
               (case load_json_file env (w_fs w2) output_file of
                  None \<Rightarrow> (None, log ''ATTACKS.json is empty or has no attacks'' (Some ''ERROR'') w2)
                | Some data \<Rightarrow>
                    if dict_empty data \<or> get_attacks data = []
                    then (None, log ''ATTACKS.json is empty or has no attacks'' (Some ''ERROR'') w2)
                    else (Some output_file,
                          log ''  <U+2192> Created: ATTACKS.json'' (Some ''DONE'')
                            (log (''  <U+2192> Detected '' @ str_nat (length (get_attacks data)) @ '' attacks'')
                               (Some ''DONE'') w2))))"
proof -
  define task where "task = phase_0_task m
         (if truthy sid then phase_0_note_store (str_opt sid) m else phase_0_note_index m)
         (path_str (path_join sd ''ATTACKS.json'')) (path_name sd) (isoformat_now env (length (w_trace w)))"
  define ctx where "ctx = build_context_string env (w_fs w)
         [path_join (path_join cf ''case-context'') ''case_summary.md'',
          path_join (path_join cf ''case-context'') ''documents_index.json'',
          path_join (path_join cf ''case-context'') ''user_narrative.md'']"
  define w1 where "w1 = log (''Phase 0: Auto-detecting attacks from '' @ [CHR 0x27] @ m @ [CHR 0x27]) (Some ''PHASE'') w"
  define c where "c = \<lparr>c_agent = ag, c_role = ''Legal Analyst - Motion decomposition specialist'',
      c_task = task, c_context = ctx, c_cwd = cf, c_max_retries = 5, c_timeout = 600,
      c_phase_name = ''Phase_0_Attack_Detection'',
      c_output_file = Some (path_str (path_join sd ''ATTACKS.json''))\<rparr>"
  define w2 where "w2 =
    run_agent_defensive env ag ''Legal Analyst - Motion decomposition specialist'' task ctx
      cf ''Phase_0_Attack_Detection'' (path_str (path_join sd ''ATTACKS.json'')) w1"
  have "c_phase_name c = ''Phase_0_Attack_Detection''"
    "c_output_file c = Some (path_str (path_join sd ''ATTACKS.json''))"
    by (simp_all add: c_def)
  moreover have "calls w2 = calls w @ [c]"
    by (simp add: w2_def w1_def c_def)
  moreover have "w_fs w2 = run_agent env (length (calls w)) c (w_fs w)"
    by (simp add: w2_def w1_def c_def run_agent_defensive_def Let_def)
  moreover have "phase_0_detect_attacks env ag cf sd m sid w
       = (let output_file = path_join sd ''ATTACKS.json''
          in if \<not> path_exists (w_fs w2) output_file
             then (None, log (''Agent did not create ATTACKS.json at '' @ path_str output_file) (Some ''ERROR'') w2)
             else
               (case load_json_file env (w_fs w2) output_file of
                  None \<Rightarrow> (None, log ''ATTACKS.json is empty or has no attacks'' (Some ''ERROR'') w2)
                | Some data \<Rightarrow>
                    if dict_empty data \<or> get_attacks data = []
                    then (None, log ''ATTACKS.json is empty or has no attacks'' (Some ''ERROR'') w2)
                    else (Some output_file,
                          log ''  <U+2192> Created: ATTACKS.json'' (Some ''DONE'')
                            (log (''  <U+2192> Detected '' @ str_nat (length (get_attacks data)) @ '' attacks'')
                               (Some ''DONE'') w2))))"
    unfolding phase_0_detect_attacks_def w2_def w1_def task_def ctx_def Let_def ..
  ultimately show ?thesis
    by blast
qed

lemma main_phase_0_failure:
  assumes "arg_auto_detect args"
    and "path_exists (w_fs w0) (arg_case_folder args)"
    and "path_exists (w_fs w0) (workspace_dir args)"
    and "load_json_file env (w_fs (make_dir (strategy_dir args) w0)) (settings_file args) = Some st"
    and "fst (phase_0_detect_attacks env (arg_agent args) (arg_case_folder args) (strategy_dir args)
               (arg_motion args) (d_file_search_store_id st)
               (detect_banner args (make_dir (strategy_dir args) w0))) = None"
  shows "fst (main env args w0) = Sys_exit 1"
    and "phases (snd (main env args w0)) = phases w0 @ [''Phase_0_Attack_Detection'']"
proof -
  let ?p0 = "phase_0_detect_attacks env (arg_agent args) (arg_case_folder args) (strategy_dir args)
               (arg_motion args) (d_file_search_store_id st)
               (detect_banner args (make_dir (strategy_dir args) w0))"
  have det: "main_detect env args (d_file_search_store_id st) (make_dir (strategy_dir args) w0)
      = Inl (Sys_exit 1, log ''Failed to auto-detect attacks. Check the raw output.'' (Some ''ERROR'') (snd ?p0))"
    using assms(1,5) by (simp add: main_detect_def Let_def split_def)
  have m: "main env args w0
      = (Sys_exit 1, log ''Failed to auto-detect attacks. Check the raw output.'' (Some ''ERROR'') (snd ?p0))"
    using assms(2,3,4) det by (simp add: main_def main_attacks_def Let_def)
  show "fst (main env args w0) = Sys_exit 1"
    by (simp add: m)
  show "phases (snd (main env args w0)) = phases w0 @ [''Phase_0_Attack_Detection'']"
    by (simp add: m phases_phase_0 detect_banner_def Let_def)
qed

text \<open>
  C2: the postcondition of Phase 0. The function returns the path of \<open>ATTACKS.json\<close> when,
  in the file system the agent call leaves behind, the file exists, loads as JSON and lists
  at least one attack, and \<open>None\<close> otherwise. When \<open>--auto-detect\<close> is given and Phase 0
  returns \<open>None\<close>, \<open>main\<close> exits with code 1 and the Phase 0 call is the only agent call
  of the run: no per-attack phase has run.
\<close>

theorem phase_0_postcondition:
  "(\<exists>c. c_phase_name c = ''Phase_0_Attack_Detection''
      \<and> c_output_file c = Some (path_str (path_join sd ''ATTACKS.json''))
      \<and> calls (snd (phase_0_detect_attacks env ag cf sd m sid w)) = calls w @ [c]
      \<and> fst (phase_0_detect_attacks env ag cf sd m sid w)
          = (if detected env (run_agent env (length (calls w)) c (w_fs w)) (path_join sd ''ATTACKS.json'')
             then Some (path_join sd ''ATTACKS.json'') else None))
   \<and> (arg_auto_detect args
        \<and> path_exists (w_fs start) (arg_case_folder args)
        \<and> path_exists (w_fs start) (workspace_dir args)
        \<and> load_json_file env (w_fs (make_dir (strategy_dir args) start)) (settings_file args) = Some st
        \<and> fst (phase_0_detect_attacks env (arg_agent args) (arg_case_folder args) (strategy_dir args)
                  (arg_motion args) (d_file_search_store_id st)
                  (detect_banner args (make_dir (strategy_dir args) start))) = None
       \<longrightarrow> fst (main env args start) = Sys_exit 1
           \<and> exit_code (fst (main env args start)) = 1
           \<and> phases (snd (main env args start)) = phases start @ [''Phase_0_Attack_Detection''])"
proof -
  obtain c w2 where c:
    "c_phase_name c = ''Phase_0_Attack_Detection''"
    "c_output_file c = Some (path_str (path_join sd ''ATTACKS.json''))"
    "calls w2 = calls w @ [c]"
    "w_fs w2 = run_agent env (length (calls w)) c (w_fs w)"
    and u: "phase_0_detect_attacks env ag cf sd m sid w
       = (let output_file = path_join sd ''ATTACKS.json''
          in if \<not> path_exists (w_fs w2) output_file
             then (None, log (''Agent did not create ATTACKS.json at '' @ path_str output_file) (Some ''ERROR'') w2)
             else
               (case load_json_file env (w_fs w2) output_file of
                  None \<Rightarrow> (None, log ''ATTACKS.json is empty or has no attacks'' (Some ''ERROR'') w2)
                | Some data \<Rightarrow>
                    if dict_empty data \<or> get_attacks data = []
                    then (None, log ''ATTACKS.json is empty or has no attacks'' (Some ''ERROR'') w2)
                    else (Some output_file,
                          log ''  <U+2192> Created: ATTACKS.json'' (Some ''DONE'')
                            (log (''  <U+2192> Detected '' @ str_nat (length (get_attacks data)) @ '' attacks'')
                               (Some ''DONE'') w2))))"
    using phase_0_call by blast
  have "calls (snd (phase_0_detect_attacks env ag cf sd m sid w)) = calls w @ [c]"
    unfolding u using c(3) by (simp add: Let_def split: option.splits)
  moreover have "fst (phase_0_detect_attacks env ag cf sd m sid w)
          = (if detected env (run_agent env (length (calls w)) c (w_fs w)) (path_join sd ''ATTACKS.json'')
             then Some (path_join sd ''ATTACKS.json'') else None)"
    unfolding u c(4) [symmetric]
    by (auto simp: detected_def Let_def dict_empty_no_attacks split: option.splits)
  ultimately have first: "\<exists>c. c_phase_name c = ''Phase_0_Attack_Detection''
      \<and> c_output_file c = Some (path_str (path_join sd ''ATTACKS.json''))
      \<and> calls (snd (phase_0_detect_attacks env ag cf sd m sid w)) = calls w @ [c]
      \<and> fst (phase_0_detect_attacks env ag cf sd m sid w)
          = (if detected env (run_agent env (length (calls w)) c (w_fs w)) (path_join sd ''ATTACKS.json'')
             then Some (path_join sd ''ATTACKS.json'') else None)"
    using c(1,2) by blast
  show ?thesis
    using first main_phase_0_failure [of args start env st] by simp
qed

lemma detect_stub [simp]: "run_agent (stub_env detect_agent) = detect_agent"
  by (simp add: stub_env_def)

lemma load_stub [simp]: "load_json_file (stub_env agent) = stub_load"
  by (simp add: stub_env_def)

theorem phase_0_postcondition_witness:
  "fst (phase_0_detect_attacks (stub_env detect_agent) ''auggie'' case_dir (strategy_dir demo_args)
          ''Motion to Dismiss'' None fresh_world) = Some (attacks_file demo_args)
   \<and> fst (main (stub_env silent_agent) (demo_args\<lparr>arg_auto_detect := True\<rparr>) fresh_world) = Sys_exit 1
   \<and> phases (snd (main (stub_env silent_agent) (demo_args\<lparr>arg_auto_detect := True\<rparr>) fresh_world))
       = [''Phase_0_Attack_Detection'']"
proof -
  let ?out = "path_join (strategy_dir demo_args) ''ATTACKS.json''"
  let ?args = "demo_args\<lparr>arg_auto_detect := True\<rparr>"
  have out: "?out = case_dir @ [''workspaces'', ''ws'', ''strategies'', ''s1'', ''ATTACKS.json'']"
    by (simp add: demo_paths path_join_def)
  have written: "detected (stub_env detect_agent) (detect_agent n c f) ?out"
    if "c_phase_name c = ''Phase_0_Attack_Detection''" for n c f
    using that
    by (simp add: detected_def detect_agent_def path_join_def demo_paths path_exists_def stub_load_def
        attacks_text_def get_attacks_def)
  from phase_0_postcondition [where sd = "strategy_dir demo_args" and env = "stub_env detect_agent"
      and ag = "''auggie''" and cf = case_dir and m = "''Motion to Dismiss''" and sid = None
      and w = fresh_world, THEN conjunct1]
  obtain c where c: "c_phase_name c = ''Phase_0_Attack_Detection''"
    "fst (phase_0_detect_attacks (stub_env detect_agent) ''auggie'' case_dir (strategy_dir demo_args)
          ''Motion to Dismiss'' None fresh_world)
       = (if detected (stub_env detect_agent)
               (run_agent (stub_env detect_agent) (length (calls fresh_world)) c (w_fs fresh_world)) ?out
          then Some ?out else None)"
    by blast
  have good: "fst (phase_0_detect_attacks (stub_env detect_agent) ''auggie'' case_dir (strategy_dir demo_args)
          ''Motion to Dismiss'' None fresh_world) = Some (attacks_file demo_args)"
    using written [OF c(1)] by (simp add: c(2) attacks_file_def)
  have paths: "arg_case_folder ?args = case_dir" "workspace_dir ?args = workspace_dir demo_args"
    "strategy_dir ?args = strategy_dir demo_args" "settings_file ?args = settings_file demo_args"
    by (simp_all add: workspace_dir_def strategy_dir_def settings_file_def demo_args_def)
  have missing: "\<not> detected (stub_env silent_agent) (silent_agent n c (w_fs w)) ?out"
    if "w_fs w = mkdir (strategy_dir demo_args) (w_fs fresh_world)" for n c w
    using that
    by (simp add: detected_def silent_agent_def path_join_def path_exists_def mkdir_def demo_paths
        fresh_world_def demo_dirs_def settings_entry_def case_dir_def)
  have banner: "w_fs (detect_banner ?args (make_dir (strategy_dir demo_args) fresh_world))
      = mkdir (strategy_dir demo_args) (w_fs fresh_world)"
    by (simp add: detect_banner_def Let_def)
  from phase_0_postcondition [where sd = "strategy_dir demo_args" and env = "stub_env silent_agent"
      and ag = "arg_agent ?args" and cf = case_dir and m = "arg_motion ?args" and sid = None
      and w = "detect_banner ?args (make_dir (strategy_dir demo_args) fresh_world)", THEN conjunct1]
  obtain c' where "fst (phase_0_detect_attacks (stub_env silent_agent) (arg_agent ?args) case_dir
          (strategy_dir demo_args) (arg_motion ?args) None
          (detect_banner ?args (make_dir (strategy_dir demo_args) fresh_world)))
       = (if detected (stub_env silent_agent)
               (run_agent (stub_env silent_agent)
                  (length (calls (detect_banner ?args (make_dir (strategy_dir demo_args) fresh_world)))) c'
                  (w_fs (detect_banner ?args (make_dir (strategy_dir demo_args) fresh_world)))) ?out
          then Some ?out else None)"
    by blast
  then have failed: "fst (phase_0_detect_attacks (stub_env silent_agent) (arg_agent ?args) case_dir
          (strategy_dir demo_args) (arg_motion ?args) None
          (detect_banner ?args (make_dir (strategy_dir demo_args) fresh_world))) = None"
    using missing [OF banner] by simp
  have pre: "arg_auto_detect ?args" "path_exists (w_fs fresh_world) (arg_case_folder ?args)"
    "path_exists (w_fs fresh_world) (workspace_dir ?args)"
    "load_json_file (stub_env silent_agent) (w_fs (make_dir (strategy_dir ?args) fresh_world)) (settings_file ?args)
       = Some \<lparr>d_attacks = None, d_file_search_store_id = None, d_other_keys = []\<rparr>"
    by (simp_all add: paths demo_paths path_exists_def fresh_world_def demo_dirs_def mkdir_def stub_load_def
        settings_entry_def case_dir_def)
  have start: "phases fresh_world = []"
    by (simp add: phases_def calls_def fresh_world_def)
  from phase_0_postcondition [where args = ?args and start = fresh_world
      and env = "stub_env silent_agent"
      and st = "\<lparr>d_attacks = None, d_file_search_store_id = None, d_other_keys = []\<rparr>",
      THEN conjunct2]
    pre failed
  have "fst (main (stub_env silent_agent) ?args fresh_world) = Sys_exit 1
      \<and> phases (snd (main (stub_env silent_agent) ?args fresh_world)) = [''Phase_0_Attack_Detection'']"
    by (simp add: paths start)
  with good show ?thesis
    by simp
qed

subsection \<open>C10: what the phase functions return\<close>

lemma last_trace_log [simp]: "last (w_trace (log m l w)) = Log m l"
  by (simp add: log_def)

lemma phase_a_missing:
  "\<not> path_exists (w_fs (snd (phase_a_evidence_analysis env ag a cf od sid w))) (path_join od ''EVIDENCE_ANALYSIS.json'')
   \<Longrightarrow> last (w_trace (snd (phase_a_evidence_analysis env ag a cf od sid w)))
        = Log ''Agent did not create EVIDENCE_ANALYSIS.json'' (Some ''ERROR'')"
  by (simp add: phase_a_evidence_analysis_def Let_def split: if_splits)

lemma phase_b_missing:
  "\<not> path_exists (w_fs (snd (phase_b_counter_requirements env ag a ef cf od sid w)))
        (path_join od ''counter_requirements.json'')
   \<Longrightarrow> last (w_trace (snd (phase_b_counter_requirements env ag a ef cf od sid w)))
        = Log ''Agent did not create counter_requirements.json'' (Some ''ERROR'')"
  by (simp add: phase_b_counter_requirements_def Let_def split: if_splits)

lemma phase_d_missing:
  "\<not> path_exists (w_fs (snd (phase_d_viability_analysis env ag a ef cr od cf w))) (path_join od ''analysis.md'')
   \<Longrightarrow> last (w_trace (snd (phase_d_viability_analysis env ag a ef cr od cf w)))
        = Log ''Agent did not create analysis.md'' (Some ''ERROR'')"
  by (simp add: phase_d_viability_analysis_def Let_def split: if_splits)

lemma phase_e_missing:
  "\<not> path_exists (w_fs (snd (phase_e_gap_analysis env ag sd cf w))) (path_join sd ''GAP_ANALYSIS.md'')
   \<Longrightarrow> last (w_trace (snd (phase_e_gap_analysis env ag sd cf w)))
        = Log ''Agent did not create GAP_ANALYSIS.md'' (Some ''ERROR'')"
  by (simp add: phase_e_gap_analysis_def Let_def split: if_splits)

lemma phase_0_missing:
  "\<not> path_exists (w_fs (snd (phase_0_detect_attacks env ag cf sd m sid w))) (path_join sd ''ATTACKS.json'')
   \<Longrightarrow> fst (phase_0_detect_attacks env ag cf sd m sid w) = None"
  by (simp add: phase_0_result detected_def)

text \<open>
  C10: for every input, Phases A, B, D and E return the output path they derived (their
  result is a path, never \<open>None\<close>); when the file is missing after the agent call, the
  last thing they do is log an error. Phase 0 is the one that answers a missing file with
  \<open>None\<close>.
\<close>

theorem phases_return_output_file:
  "fst (phase_a_evidence_analysis env ag a cf od sid w) = path_join od ''EVIDENCE_ANALYSIS.json''
   \<and> fst (phase_b_counter_requirements env ag a ef cf od sid w) = path_join od ''counter_requirements.json''
   \<and> fst (phase_d_viability_analysis env ag a ef cr od cf w) = path_join od ''analysis.md''
   \<and> fst (phase_e_gap_analysis env ag sd cf w) = path_join sd ''GAP_ANALYSIS.md''
   \<and> (\<not> path_exists (w_fs (snd (phase_a_evidence_analysis env ag a cf od sid w)))
            (path_join od ''EVIDENCE_ANALYSIS.json'')
        \<longrightarrow> last (w_trace (snd (phase_a_evidence_analysis env ag a cf od sid w)))
              = Log ''Agent did not create EVIDENCE_ANALYSIS.json'' (Some ''ERROR''))
   \<and> (\<not> path_exists (w_fs (snd (phase_b_counter_requirements env ag a ef cf od sid w)))
            (path_join od ''counter_requirements.json'')
        \<longrightarrow> last (w_trace (snd (phase_b_counter_requirements env ag a ef cf od sid w)))
              = Log ''Agent did not create counter_requirements.json'' (Some ''ERROR''))
   \<and> (\<not> path_exists (w_fs (snd (phase_d_viability_analysis env ag a ef cr od cf w))) (path_join od ''analysis.md'')
        \<longrightarrow> last (w_trace (snd (phase_d_viability_analysis env ag a ef cr od cf w)))
              = Log ''Agent did not create analysis.md'' (Some ''ERROR''))
   \<and> (\<not> path_exists (w_fs (snd (phase_e_gap_analysis env ag sd cf w))) (path_join sd ''GAP_ANALYSIS.md'')
        \<longrightarrow> last (w_trace (snd (phase_e_gap_analysis env ag sd cf w)))
              = Log ''Agent did not create GAP_ANALYSIS.md'' (Some ''ERROR''))
   \<and> (\<not> path_exists (w_fs (snd (phase_0_detect_attacks env ag cf sd m sid w))) (path_join sd ''ATTACKS.json'')
        \<longrightarrow> fst (phase_0_detect_attacks env ag cf sd m sid w) = None)"
  using phase_a_missing [of env ag a cf od sid w] phase_b_missing [of env ag a ef cf od sid w]
    phase_d_missing [of env ag a ef cr od cf w] phase_e_missing [of env ag sd cf w]
    phase_0_missing [of env ag cf sd m sid w]
  by (simp add: fst_phase_a fst_phase_b fst_phase_d fst_phase_e)

lemma silent_phase_e:
  "run_agent env = silent_agent \<Longrightarrow> w_fs (snd (phase_e_gap_analysis env ag sd cf w)) = w_fs w"
  by (simp add: phase_e_gap_analysis_def Let_def w_fs_run_agent_defensive)

lemma silent_phase_0:
  "run_agent env = silent_agent \<Longrightarrow> w_fs (snd (phase_0_detect_attacks env ag cf sd m sid w)) = w_fs w"
  by (simp add: phase_0_detect_attacks_def Let_def w_fs_run_agent_defensive split: option.splits)

theorem phases_return_output_file_witness:
  "fst (phase_a_evidence_analysis (stub_env silent_agent) ''auggie'' attack_1 case_dir
          (attack_dir (strategy_dir demo_args) attack_1) None fresh_world)
     = path_join (attack_dir (strategy_dir demo_args) attack_1) ''EVIDENCE_ANALYSIS.json''
   \<and> last (w_trace (snd (phase_a_evidence_analysis (stub_env silent_agent) ''auggie'' attack_1 case_dir
          (attack_dir (strategy_dir demo_args) attack_1) None fresh_world)))
     = Log ''Agent did not create EVIDENCE_ANALYSIS.json'' (Some ''ERROR'')
   \<and> last (w_trace (snd (phase_b_counter_requirements (stub_env silent_agent) ''auggie'' attack_1
          (path_join (attack_dir (strategy_dir demo_args) attack_1) ''EVIDENCE_ANALYSIS.json'') case_dir
          (attack_dir (strategy_dir demo_args) attack_1) None fresh_world)))
     = Log ''Agent did not create counter_requirements.json'' (Some ''ERROR'')
   \<and> last (w_trace (snd (phase_d_viability_analysis (stub_env silent_agent) ''auggie'' attack_1
          (path_join (attack_dir (strategy_dir demo_args) attack_1) ''EVIDENCE_ANALYSIS.json'')
          (path_join (attack_dir (strategy_dir demo_args) attack_1) ''counter_requirements.json'')
          (attack_dir (strategy_dir demo_args) attack_1) case_dir fresh_world)))
     = Log ''Agent did not create analysis.md'' (Some ''ERROR'')
   \<and> last (w_trace (snd (phase_e_gap_analysis (stub_env silent_agent) ''auggie'' (strategy_dir demo_args)
          case_dir fresh_world)))
     = Log ''Agent did not create GAP_ANALYSIS.md'' (Some ''ERROR'')
   \<and> fst (phase_0_detect_attacks (stub_env silent_agent) ''auggie'' case_dir (strategy_dir demo_args)
          ''Motion to Dismiss'' None fresh_world) = None"
proof -
  let ?env = "stub_env silent_agent"
  let ?od = "attack_dir (strategy_dir demo_args) attack_1"
  let ?ef = "path_join ?od ''EVIDENCE_ANALYSIS.json''"
  let ?cr = "path_join ?od ''counter_requirements.json''"
  have absent: "5 < length p \<Longrightarrow> \<not> path_exists (w_fs fresh_world) p" for p
    by (auto simp: path_exists_def fresh_world_def demo_dirs_def settings_entry_def case_dir_def)
  have e: "5 < length ?ef"
    and c: "5 < length ?cr"
    and d: "5 < length (path_join ?od ''analysis.md'')"
    and g: "5 < length (path_join (strategy_dir demo_args) ''GAP_ANALYSIS.md'')"
    and z: "5 < length (path_join (strategy_dir demo_args) ''ATTACKS.json'')"
    by (simp_all add: path_join_def length_attack_dir demo_paths case_dir_def)
  note missing = absent [OF e] absent [OF c] absent [OF d] absent [OF g] absent [OF z]
  have same:
    "w_fs (snd (phase_a_evidence_analysis ?env ''auggie'' attack_1 case_dir ?od None fresh_world)) = w_fs fresh_world"
    "w_fs (snd (phase_b_counter_requirements ?env ''auggie'' attack_1 ?ef case_dir ?od None fresh_world))
       = w_fs fresh_world"
    "w_fs (snd (phase_d_viability_analysis ?env ''auggie'' attack_1 ?ef ?cr ?od case_dir fresh_world))
       = w_fs fresh_world"
    "w_fs (snd (phase_e_gap_analysis ?env ''auggie'' (strategy_dir demo_args) case_dir fresh_world))
       = w_fs fresh_world"
    "w_fs (snd (phase_0_detect_attacks ?env ''auggie'' case_dir (strategy_dir demo_args) ''Motion to Dismiss''
             None fresh_world)) = w_fs fresh_world"
    by (simp_all add: silent_phase_a silent_phase_b silent_phase_d silent_phase_e silent_phase_0)
  note claim = phases_return_output_file [where env = ?env and ag = "''auggie''" and a = attack_1
      and cf = case_dir and od = ?od and sid = None and w = fresh_world and ef = ?ef and cr = ?cr
      and sd = "strategy_dir demo_args" and m = "''Motion to Dismiss''", unfolded same]
  have m1: "\<not> path_exists (w_fs fresh_world) ?ef"
    by (rule absent [OF e])
  have m2: "\<not> path_exists (w_fs fresh_world) ?cr"
    by (rule absent [OF c])
  have m3: "\<not> path_exists (w_fs fresh_world) (path_join ?od ''analysis.md'')"
    by (rule absent [OF d])
  have m4: "\<not> path_exists (w_fs fresh_world) (path_join (strategy_dir demo_args) ''GAP_ANALYSIS.md'')"
    by (rule absent [OF g])
  have m5: "\<not> path_exists (w_fs fresh_world) (path_join (strategy_dir demo_args) ''ATTACKS.json'')"
    by (rule absent [OF z])
  from claim have "fst (phase_a_evidence_analysis ?env ''auggie'' attack_1 case_dir ?od None fresh_world) = ?ef"
    by (rule conjunct1)
  moreover from claim m1 have "last (w_trace (snd (phase_a_evidence_analysis ?env ''auggie'' attack_1 case_dir
          ?od None fresh_world))) = Log ''Agent did not create EVIDENCE_ANALYSIS.json'' (Some ''ERROR'')"
    by (elim conjE) (erule mp)
  moreover from claim m2 have "last (w_trace (snd (phase_b_counter_requirements ?env ''auggie'' attack_1 ?ef
          case_dir ?od None fresh_world))) = Log ''Agent did not create counter_requirements.json'' (Some ''ERROR'')"
    by (elim conjE) (erule mp)
  moreover from claim m3 have "last (w_trace (snd (phase_d_viability_analysis ?env ''auggie'' attack_1 ?ef ?cr
          ?od case_dir fresh_world))) = Log ''Agent did not create analysis.md'' (Some ''ERROR'')"
    by (elim conjE) (erule mp)
  moreover from claim m4 have "last (w_trace (snd (phase_e_gap_analysis ?env ''auggie'' (strategy_dir demo_args)
          case_dir fresh_world))) = Log ''Agent did not create GAP_ANALYSIS.md'' (Some ''ERROR'')"
    by (elim conjE) (erule mp)
  moreover from claim m5 have "fst (phase_0_detect_attacks ?env ''auggie'' case_dir (strategy_dir demo_args)
          ''Motion to Dismiss'' None fresh_world) = None"
    by (elim conjE) (erule mp)
  ultimately show ?thesis
    by (intro conjI)
qed

subsection \<open>C8: the header that Phase D mandates\<close>

lemma join_append:
  "xs \<noteq> [] \<Longrightarrow> ys \<noteq> [] \<Longrightarrow> join sep (xs @ ys) = join sep xs @ sep @ join sep ys"
proof (induction sep xs rule: join.induct)
  case (1 sep)
  then show ?case by simp
next
  case (2 sep x)
  then show ?case by (cases ys) simp_all
next
  case (3 sep x y zs)
  then show ?case by simp
qed

lemma text_lines_window:
  assumes "take n (drop i ls) = hs" and "0 < i" and "0 < n" and "i + n < length ls"
  shows "\<exists>before after. text_lines ls = before @ nl @ text_lines hs @ nl @ after"
proof -
  have split: "ls = take i ls @ hs @ drop (i + n) ls"
    using assms(1) by (metis append_take_drop_id drop_drop add.commute)
  have ne: "take i ls \<noteq> []" "hs \<noteq> []" "drop (i + n) ls \<noteq> []"
    using assms by auto
  have "join nl (take i ls @ (hs @ drop (i + n) ls))
      = join nl (take i ls) @ nl @ join nl (hs @ drop (i + n) ls)"
    using ne by (intro join_append) simp_all
  also have "join nl (hs @ drop (i + n) ls) = join nl hs @ nl @ join nl (drop (i + n) ls)"
    using ne by (intro join_append)
  finally have "text_lines (take i ls @ hs @ drop (i + n) ls)
      = text_lines (take i ls) @ nl @ text_lines hs @ nl @ text_lines (drop (i + n) ls)"
    by (simp add: text_lines_def)
  with split show ?thesis
    by metis
qed

lemma phase_d_task_header:
  "\<exists>before after. phase_d_task attack_id attack_name output_file generated
     = before @ nl @ analysis_header attack_name generated attack_id @ nl @ after"
  unfolding phase_d_task_def analysis_header_def
  by (rule text_lines_window [where i = 31 and n = 4]) simp_all

text \<open>
  C8: for every attack, the task that Phase D passes to the agent holds, on lines of their
  own, the header \<open># Analysis: {attack name}\<close>, an empty line, \<open>**Generated**: {time}\<close>
  and \<open>**Attack ID**: {attack id}\<close>.
\<close>

theorem phase_d_mandates_header:
  "\<exists>c before after.
      calls (snd (phase_d_viability_analysis env ag a ef cr od cf w)) = calls w @ [c]
      \<and> c_phase_name c = ''Phase_D_Viability_'' @ a_id a
      \<and> c_task c = before @ nl
           @ analysis_header (a_name a) (strftime_now env (length (w_trace w))) (a_id a) @ nl @ after"
proof -
  obtain before after where
    "phase_d_task (a_id a) (a_name a) (path_str (path_join od ''analysis.md''))
         (strftime_now env (length (w_trace w)))
       = before @ nl @ analysis_header (a_name a) (strftime_now env (length (w_trace w))) (a_id a) @ nl @ after"
    using phase_d_task_header by blast
  then show ?thesis
    by (simp add: phase_d_viability_analysis_def Let_def) blast
qed

subsection \<open>C7: skipping Phase A\<close>

lemma calls_attack_banner [simp]: "calls (attack_banner a w) = calls w"
  by (simp add: attack_banner_def Let_def)

text \<open>
  C7: when \<open>--skip-evidence\<close> is given and the attack's \<open>EVIDENCE_ANALYSIS.json\<close> exists
  when the attack is taken up, the Phase A step makes no agent call and leaves every file
  as it was. The agent calls for the attack are then that of Phase B (unless it is
  skipped too) and that of Phase D, and both work from that file: the context of the
  Phase B call is built from what \<open>load_json_file\<close> reads at its path in the file system
  the Phase A step left, and the context of the Phase D call from what it reads at the
  same path once Phase B is over.
\<close>

theorem skip_evidence_reuses_file:
  assumes "arg_skip_evidence args" and "path_exists (w_fs w) (evidence_path args a)"
  shows "\<exists>w' cb cd.
       main_phase_a env args a (attack_dir (strategy_dir args) a) sid
           (attack_banner a (make_dir (attack_dir (strategy_dir args) a) w))
         = (evidence_path args a, w')
     \<and> w_fs w' = mkdir (attack_dir (strategy_dir args) a) (w_fs w)
     \<and> files (w_fs w') = files (w_fs w)
     \<and> calls w' = calls w
     \<and> calls (process_attack env args sid attacks a w)
         = calls w @ (if counter_req_reused args a (w_fs w') then [] else [cb]) @ [cd]
     \<and> c_phase_name cb = ''Phase_B_Counter_Req_'' @ a_id a
     \<and> c_context cb
         = phase_b_context (json_dumps env (load_json_file env (w_fs w') (evidence_path args a)))
             (a_id a) (a_name a) (opposing_argument a)
             (json_dumps env (load_json_file env (w_fs w')
                (path_join (path_join (arg_case_folder args) ''case-context'') ''documents_index.json'')))
     \<and> c_phase_name cd = ''Phase_D_Viability_'' @ a_id a
     \<and> c_context cd
         = (let fd = (if counter_req_reused args a (w_fs w') then w_fs w'
                      else run_agent env (length (calls w)) cb (w_fs w'))
            in phase_d_context (json_dumps env (load_json_file env fd (evidence_path args a)))
                 (json_dumps env (load_json_file env fd (counter_req_path args a))))"
proof -
  let ?dir = "attack_dir (strategy_dir args) a"
  let ?ef = "evidence_path args a"
  let ?w2 = "attack_banner a (make_dir ?dir w)"
  let ?w' = "log ''Skipping Phase A (using existing EVIDENCE_ANALYSIS.json)'' (Some ''INFO'') ?w2"
  have there: "path_exists (w_fs ?w2) ?ef"
    using assms(2) by (simp add: evidence_path_def path_exists_attack_file)
  then have skip: "main_phase_a env args a ?dir sid ?w2 = (?ef, ?w')"
    using assms(1) by (simp add: main_phase_a_def evidence_path_def Let_def)
  then have body: "process_attack env args sid attacks a w
      = process_attack_rest env args sid attacks a ?dir ?ef ?w'"
    by (simp add: process_attack_def Let_def)
  have frame: "w_fs ?w' = mkdir ?dir (w_fs w)" "files (w_fs ?w') = files (w_fs w)" "calls ?w' = calls w"
    by (simp_all add: mkdir_def)
  from calls_process_attack_rest [where a = a and env = env and w = ?w' and ef = ?ef and args = args
      and dir = ?dir and sid = sid and attacks = attacks]
  obtain cb cd where c:
    "c_phase_name cb = ''Phase_B_Counter_Req_'' @ a_id a"
    "c_context cb = phase_b_context (json_dumps env (load_json_file env (w_fs ?w') ?ef)) (a_id a) (a_name a)
                      (opposing_argument a)
                      (json_dumps env (load_json_file env (w_fs ?w')
                         (path_join (path_join (arg_case_folder args) ''case-context'') ''documents_index.json'')))"
    "c_phase_name cd = ''Phase_D_Viability_'' @ a_id a"
    "c_context cd
       = (let fd = (if arg_skip_counter_req args \<and> path_exists (w_fs ?w') (path_join ?dir ''counter_requirements.json'')
                    then w_fs ?w' else run_agent env (length (calls ?w')) cb (w_fs ?w'))
          in phase_d_context (json_dumps env (load_json_file env fd ?ef))
               (json_dumps env (load_json_file env fd (path_join ?dir ''counter_requirements.json''))))"
    "calls (process_attack_rest env args sid attacks a ?dir ?ef ?w')
       = calls ?w'
         @ (if arg_skip_counter_req args \<and> path_exists (w_fs ?w') (path_join ?dir ''counter_requirements.json'')
            then [] else [cb])
         @ [cd]"
    by blast
  have calls: "calls (process_attack env args sid attacks a w)
      = calls w @ (if counter_req_reused args a (w_fs ?w') then [] else [cb]) @ [cd]"
    using c(5) frame(3) by (simp add: body counter_req_reused_def counter_req_path_def)
  have ctx: "c_context cd
         = (let fd = (if counter_req_reused args a (w_fs ?w') then w_fs ?w'
                      else run_agent env (length (calls w)) cb (w_fs ?w'))
            in phase_d_context (json_dumps env (load_json_file env fd ?ef))
                 (json_dumps env (load_json_file env fd (counter_req_path args a))))"
    using c(4) frame(3) by (simp add: counter_req_reused_def counter_req_path_def)
  from skip frame calls c(1) c(2) c(3) ctx show ?thesis
    by blast
qed


theorem skip_evidence_reuses_file_witness:
  "map c_phase_name (calls (process_attack (stub_env silent_agent) (demo_args\<lparr>arg_skip_evidence := True\<rparr>) None
                              [attack_1, standing_defense] attack_1 resumed_world))
     = [''Phase_B_Counter_Req_001'', ''Phase_D_Viability_001'']
   \<and> map c_context (calls (process_attack (stub_env silent_agent) (demo_args\<lparr>arg_skip_evidence := True\<rparr>) None
                              [attack_1, standing_defense] attack_1 resumed_world))
     = [phase_b_context ''{}'' ''001'' ''Failure to State a Claim'' ''The complaint pleads no facts.'' ''null'',
        phase_d_context ''{}'' ''null'']"
proof -
  let ?env = "stub_env silent_agent"
  let ?args = "demo_args\<lparr>arg_skip_evidence := True\<rparr>"
  let ?f = "w_fs resumed_world"
  let ?ef = "case_dir @ [''workspaces'', ''ws'', ''strategies'', ''s1'', ''attacks'',
                         ''001_failure_to_state_a_claim'', ''EVIDENCE_ANALYSIS.json'']"
  let ?cr = "case_dir @ [''workspaces'', ''ws'', ''strategies'', ''s1'', ''attacks'',
                         ''001_failure_to_state_a_claim'', ''counter_requirements.json'']"
  let ?di = "case_dir @ [''case-context'', ''documents_index.json'']"
  have sd: "strategy_dir ?args = strategy_dir demo_args"
    by (simp add: strategy_dir_def workspace_dir_def)
  have paths: "evidence_path ?args attack_1 = ?ef" "counter_req_path ?args attack_1 = ?cr"
    by (simp_all add: evidence_path_def counter_req_path_def sd demo_attack_dirs path_join_def)
  have index: "path_join (path_join (arg_case_folder ?args) ''case-context'') ''documents_index.json'' = ?di"
    by (simp add: path_join_def demo_args_def)
  have flags: "arg_skip_evidence ?args" "\<not> arg_skip_counter_req ?args"
    by (simp_all add: demo_args_def)
  have there: "path_exists ?f (evidence_path ?args attack_1)"
    by (simp add: paths path_exists_def resumed_world_def case_dir_def settings_entry_def)
  have start: "calls resumed_world = []"
    by (simp add: calls_def resumed_world_def)
  have loads: "stub_load ?f ?ef = Some \<lparr>d_attacks = None, d_file_search_store_id = None, d_other_keys = []\<rparr>"
    "stub_load ?f ?cr = None" "stub_load ?f ?di = None"
    by (simp_all add: stub_load_def resumed_world_def case_dir_def settings_entry_def)
  from skip_evidence_reuses_file [OF flags(1) there, of ?env None "[attack_1, standing_defense]"]
  obtain w' cb cd where
    "main_phase_a ?env ?args attack_1 (attack_dir (strategy_dir ?args) attack_1) None
         (attack_banner attack_1 (make_dir (attack_dir (strategy_dir ?args) attack_1) resumed_world))
       = (evidence_path ?args attack_1, w')"
    and r:
    "w_fs w' = mkdir (attack_dir (strategy_dir ?args) attack_1) ?f"
    "files (w_fs w') = files ?f"
    "calls w' = calls resumed_world"
    "calls (process_attack ?env ?args None [attack_1, standing_defense] attack_1 resumed_world)
       = calls resumed_world @ (if counter_req_reused ?args attack_1 (w_fs w') then [] else [cb]) @ [cd]"
    "c_phase_name cb = ''Phase_B_Counter_Req_'' @ a_id attack_1"
    "c_context cb
       = phase_b_context (json_dumps ?env (load_json_file ?env (w_fs w') (evidence_path ?args attack_1)))
           (a_id attack_1) (a_name attack_1) (opposing_argument attack_1)
           (json_dumps ?env (load_json_file ?env (w_fs w')
              (path_join (path_join (arg_case_folder ?args) ''case-context'') ''documents_index.json'')))"
    "c_phase_name cd = ''Phase_D_Viability_'' @ a_id attack_1"
    "c_context cd
       = (let fd = (if counter_req_reused ?args attack_1 (w_fs w') then w_fs w'
                    else run_agent ?env (length (calls resumed_world)) cb (w_fs w'))
          in phase_d_context (json_dumps ?env (load_json_file ?env fd (evidence_path ?args attack_1)))
               (json_dumps ?env (load_json_file ?env fd (counter_req_path ?args attack_1))))"
    by (elim exE conjE) (rule that, assumption+)
  have fresh: "\<not> counter_req_reused ?args attack_1 (w_fs w')"
    using flags(2) by (simp add: counter_req_reused_def)
  have two: "calls (process_attack ?env ?args None [attack_1, standing_defense] attack_1 resumed_world) = [cb, cd]"
    using r(4) fresh start by simp
  have names: "c_phase_name cb = ''Phase_B_Counter_Req_001''" "c_phase_name cd = ''Phase_D_Viability_001''"
    using r(5) r(7) by (simp_all add: attack_1_def)
  have le: "load_json_file ?env (w_fs w') (evidence_path ?args attack_1)
      = Some \<lparr>d_attacks = None, d_file_search_store_id = None, d_other_keys = []\<rparr>"
    by (simp only: stub_env_simps r(1) paths stub_load_mkdir loads)
  have li: "load_json_file ?env (w_fs w')
      (path_join (path_join (arg_case_folder ?args) ''case-context'') ''documents_index.json'') = None"
    by (simp only: stub_env_simps r(1) index stub_load_mkdir loads)
  have lc: "load_json_file ?env (w_fs w') (counter_req_path ?args attack_1) = None"
    by (simp only: stub_env_simps r(1) paths stub_load_mkdir loads)
  have b: "c_context cb
      = phase_b_context ''{}'' ''001'' ''Failure to State a Claim'' ''The complaint pleads no facts.'' ''null''"
    using r(6) unfolding le li by (simp add: stub_env_simps attack_1_def opposing_argument_def)
  have "run_agent ?env (length (calls resumed_world)) cb (w_fs w') = w_fs w'"
    by (simp add: silent_agent_def)
  with r(8) fresh have "c_context cd
      = phase_d_context (json_dumps ?env (load_json_file ?env (w_fs w') (evidence_path ?args attack_1)))
          (json_dumps ?env (load_json_file ?env (w_fs w') (counter_req_path ?args attack_1)))"
    by (simp add: Let_def)
  then have d: "c_context cd = phase_d_context ''{}'' ''null''"
    unfolding le lc by (simp add: stub_env_simps)
  from two names b d show ?thesis
    by simp
qed

subsection \<open>C3: exit codes\<close>

lemma main_attacks_Inl_iff:
  "(\<exists>r. main_attacks env args w = Inl r) \<longleftrightarrow> exits_with_1 env args w"
  by (simp add: main_attacks_def main_detect_cases exits_with_1_def Let_def filter_empty_ids
      split: option.splits)

text \<open>
  C3, amended: the process exits with code 1 exactly when the case folder is missing, the
  workspace directory is missing, auto-detection fails, the attacks file is missing or
  its attacks list is empty, \<open>--attack\<close> names an id that no attack has, or
  \<open>load_json_file\<close> returns null for \<open>settings.json\<close> or for the attacks file (the \<open>.get\<close>
  on it then raises, and an uncaught exception ends the process with code 1); in every
  other run it exits with code 0. No outcome of Phase A, B, D or E enters the condition.
\<close>

theorem main_exit_code:
  "exit_code (fst (main env args w)) = (if exits_with_1 env args w then 1 else 0)"
proof (cases "main_attacks env args w")
  case (Inl r)
  then have "exits_with_1 env args w"
    using main_attacks_Inl_iff by blast
  moreover from Inl have "exit_code (fst (main env args w)) = 1"
    using main_attacks_exit [of env args w] by (simp add: main_def)
  ultimately show ?thesis
    by simp
next
  case (Inr r)
  then have "\<not> exits_with_1 env args w"
    using main_attacks_Inl_iff [of env args w] by simp
  moreover from Inr have "exit_code (fst (main env args w)) = 0"
    by (simp add: main_def split_def)
  ultimately show ?thesis
    by simp
qed

text \<open>
  C3, as stated, fails: with a case folder, a workspace and an \<open>ATTACKS.json\<close> of two
  attacks in place and no auto-detection, \<open>--attack 999\<close> ends the run with exit code 1
  (line 815), a case the claim's list does not have.
\<close>

theorem unknown_attack_exit_counterexample:
  "exit_code (fst (main (stub_env silent_agent) (demo_args\<lparr>arg_attack := Some ''999''\<rparr>) demo_world)) = 1
   \<and> path_exists (w_fs demo_world) (arg_case_folder demo_args)
   \<and> path_exists (w_fs demo_world) (workspace_dir demo_args)
   \<and> path_exists (w_fs demo_world) (attacks_file demo_args)
   \<and> map a_id (get_attacks \<lparr>d_attacks = Some [attack_1, standing_defense], d_file_search_store_id = None,
                              d_other_keys = [''strategy_id'']\<rparr>) = [''001'', ''002'']
   \<and> load_json_file (stub_env silent_agent) (w_fs demo_world) (attacks_file demo_args)
       = Some \<lparr>d_attacks = Some [attack_1, standing_defense], d_file_search_store_id = None,
                d_other_keys = [''strategy_id'']\<rparr>
   \<and> arg_auto_detect (demo_args\<lparr>arg_attack := Some ''999''\<rparr>) = False"
proof -
  let ?args = "demo_args\<lparr>arg_attack := Some ''999''\<rparr>"
  have "main_attacks (stub_env silent_agent) ?args demo_world
      = Inl (Sys_exit 1, log ''Attack 999 not found'' (Some ''ERROR'') (make_dir (strategy_dir demo_args) demo_world))"
    by (simp add: main_attacks_def main_detect_def changed_args demo_exists demo_loaded Let_def
        get_attacks_def truthy_def str_opt_def attack_1_def standing_defense_def,
        simp add: demo_args_def)
  then have ex: "exit_code (fst (main (stub_env silent_agent) ?args demo_world)) = 1"
    by (simp add: main_def)
  have af: "path_exists (w_fs demo_world) (attacks_file demo_args)"
    by (simp add: path_exists_def demo_world_def demo_paths demo_dirs_def settings_entry_def case_dir_def)
  have ids: "map a_id (get_attacks \<lparr>d_attacks = Some [attack_1, standing_defense], d_file_search_store_id = None,
                              d_other_keys = [''strategy_id'']\<rparr>) = [''001'', ''002'']"
    by (simp add: get_attacks_def attack_1_def standing_defense_def)
  have loaded: "load_json_file (stub_env silent_agent) (w_fs demo_world) (attacks_file demo_args)
       = Some \<lparr>d_attacks = Some [attack_1, standing_defense], d_file_search_store_id = None,
                d_other_keys = [''strategy_id'']\<rparr>"
    by (simp add: stub_load_def demo_world_def demo_paths settings_entry_def case_dir_def attacks_text_def)
  have manual: "arg_auto_detect ?args = False"
    by (simp add: demo_args_def)
  from ex demo_exists(1) demo_exists(2) af ids loaded manual show ?thesis
    by (intro conjI)
qed

theorem main_exit_code_witness:
  "exit_code (fst (main (stub_env silent_agent) demo_args demo_world)) = 0
   \<and> exit_code (fst (main (stub_env silent_agent) (demo_args\<lparr>arg_attack := Some ''999''\<rparr>) demo_world)) = 1"
proof -
  have no_detect: "\<not> arg_auto_detect demo_args" "\<not> arg_auto_detect (demo_args\<lparr>arg_attack := Some ''999''\<rparr>)"
    by (simp_all add: demo_args_def)
  have "\<not> exits_with_1 (stub_env silent_agent) demo_args demo_world"
    using no_detect
    by (simp add: exits_with_1_def auto_detection_failed_def load_world_def demo_exists demo_loaded Let_def
        get_attacks_def truthy_def, simp add: demo_args_def)
  moreover have "exits_with_1 (stub_env silent_agent) (demo_args\<lparr>arg_attack := Some ''999''\<rparr>) demo_world"
    using no_detect
    by (simp add: exits_with_1_def auto_detection_failed_def load_world_def changed_args demo_exists
        demo_loaded Let_def get_attacks_def truthy_def str_opt_def attack_1_def standing_defense_def)
  ultimately show ?thesis
    using main_exit_code [of "stub_env silent_agent" demo_args demo_world]
      main_exit_code [of "stub_env silent_agent" "demo_args\<lparr>arg_attack := Some ''999''\<rparr>" demo_world]
    by simp
qed

subsection \<open>C9: the sleeps\<close>

lemma sleeps_main:
  assumes "main_attacks env args w0 = Inr (sid, attacks, w1)"
  shows "sleeps (snd (main env args w0))
     = sleeps w0 @ concat (map (\<lambda>a. [5, 5] @ (if a \<noteq> last attacks then [5] else [])) attacks) @ [5]"
  using assms main_attacks_Inr(2) [OF assms] by (simp add: main_def sleeps_relay)

lemma twins_main_attacks:
  "main_attacks (stub_env silent_agent) demo_args twins_world
     = Inr (None, [attack_1, attack_1], make_dir (strategy_dir demo_args) twins_world)"
  by (simp add: main_attacks_def main_detect_def demo_paths twins_world_def demo_dirs_def settings_entry_def
      stub_load_def path_exists_def case_dir_def mkdir_def get_attacks_def truthy_def
      attacks_text_def twins_text_def Let_def, simp add: demo_args_def)

text \<open>
  C9 holds whenever no attack before the last one equals the last one (\<open>sleeps_main\<close>
  gives every sleep of a run). The code decides "more attacks to process" by comparing
  the attack with the last one by value (line 889), so for an \<open>ATTACKS.json\<close> that lists
  the same attack twice it does not sleep between the two: the run below has five
  sleeps where the claim, and the comment on line 888, ask for six.
\<close>

theorem twin_attacks_sleeps:
  "sleeps (snd (main (stub_env silent_agent) demo_args twins_world)) = [5, 5, 5, 5, 5]
   \<and> phases (snd (main (stub_env silent_agent) demo_args twins_world))
       = [''Phase_A_Evidence_001'', ''Phase_B_Counter_Req_001'', ''Phase_D_Viability_001'',
          ''Phase_A_Evidence_001'', ''Phase_B_Counter_Req_001'', ''Phase_D_Viability_001'',
          ''Phase_E_Gap_Analysis'']
   \<and> sleeps (snd (main (stub_env silent_agent) demo_args demo_world)) = [5, 5, 5, 5, 5, 5]"
proof -
  have empty: "sleeps twins_world = []" "sleeps demo_world = []" "phases twins_world = []"
    by (simp_all add: sleeps_def phases_def calls_def twins_world_def demo_world_def)
  have differ: "attack_1 \<noteq> standing_defense"
    by (simp add: attack_1_def standing_defense_def)
  have twins: "sleeps (snd (main (stub_env silent_agent) demo_args twins_world)) = [5, 5, 5, 5, 5]"
    by (simp add: sleeps_main [OF twins_main_attacks] empty)
  have distinct: "sleeps (snd (main (stub_env silent_agent) demo_args demo_world)) = [5, 5, 5, 5, 5, 5]"
    by (simp add: sleeps_main [OF demo_main_attacks] empty differ)
  have flags: "\<not> arg_skip_evidence demo_args" "\<not> arg_skip_counter_req demo_args"
    by (simp_all add: demo_args_def)
  obtain rs where rs: "length rs = length [attack_1, attack_1]"
    "phases (relay (stub_env silent_agent) demo_args None [attack_1, attack_1]
               (make_dir (strategy_dir demo_args) twins_world))
       = phases (make_dir (strategy_dir demo_args) twins_world)
           @ concat (map (\<lambda>(r, a). attack_phases (fst r) (snd r) a) (zip rs [attack_1, attack_1]))
           @ [''Phase_E_Gap_Analysis'']"
    "\<forall>r \<in> set rs. fst r" "\<forall>r \<in> set rs. snd r"
    using phases_relay [of "[attack_1, attack_1]" "stub_env silent_agent" demo_args None
        "make_dir (strategy_dir demo_args) twins_world"] flags
    by blast
  have "phases (snd (main (stub_env silent_agent) demo_args twins_world))
      = concat (map (attack_phases True True) [attack_1, attack_1]) @ [''Phase_E_Gap_Analysis'']"
    using rs all_ran [OF rs(1) rs(3) rs(4)] twins_main_attacks by (simp add: main_def empty)
  then have calls: "phases (snd (main (stub_env silent_agent) demo_args twins_world))
       = [''Phase_A_Evidence_001'', ''Phase_B_Counter_Req_001'', ''Phase_D_Viability_001'',
          ''Phase_A_Evidence_001'', ''Phase_B_Counter_Req_001'', ''Phase_D_Viability_001'',
          ''Phase_E_Gap_Analysis'']"
    by (simp add: attack_phases_def attack_1_def)
  from twins calls distinct show ?thesis
    by (intro conjI)
qed

subsection \<open>C6: an unknown attack id\<close>

text \<open>
  C6, amended: if \<open>--attack <id>\<close> is given with a non-empty id and no attack of that id is
  in the loaded list, the run ends with exit code 1 without any per-attack or aggregate
  agent call: with no agent call at all when \<open>--auto-detect\<close> is not given, and with at
  most the one call of Phase 0 when it is.
\<close>

theorem unknown_attack_aborts:
  assumes "arg_attack args = Some attack_id" and "attack_id \<noteq> []"
    and "loaded_attacks env args w = Some attacks" and "attack_id \<notin> a_id ` set attacks"
  shows "exit_code (fst (main env args w)) = 1
       \<and> (\<not> arg_auto_detect args \<longrightarrow> calls (snd (main env args w)) = calls w)
       \<and> phases (snd (main env args w))
           = phases w @ (if arg_auto_detect args then [''Phase_0_Attack_Detection''] else [])"
proof -
  let ?p0 = "if arg_auto_detect args then [''Phase_0_Attack_Detection''] else []"
  from assms(1) assms(2) assms(4) have none: "selected_attacks args attacks = []"
    by (simp add: selected_attacks_def truthy_def str_opt_def filter_empty_ids)
  with main_attacks_loaded [OF assms(3)] obtain w1 m l where w1:
    "phases w1 = phases w @ ?p0" "\<not> arg_auto_detect args \<longrightarrow> calls w1 = calls w"
    "main_attacks env args w = Inl (Sys_exit 1, log m l w1)"
    by (cases "attacks = []") auto
  from w1(3) have "main env args w = (Sys_exit 1, log m l w1)"
    by (simp add: main_def)
  with w1(1) w1(2) show ?thesis
    by simp
qed

theorem unknown_attack_aborts_witness:
  "exit_code (fst (main (stub_env silent_agent) (demo_args\<lparr>arg_attack := Some ''999''\<rparr>) demo_world)) = 1
   \<and> calls (snd (main (stub_env silent_agent) (demo_args\<lparr>arg_attack := Some ''999''\<rparr>) demo_world)) = []"
proof -
  let ?args = "demo_args\<lparr>arg_attack := Some ''999''\<rparr>"
  have given: "arg_attack ?args = Some ''999''" "''999'' \<noteq> []" "\<not> arg_auto_detect ?args"
    by (simp_all add: demo_args_def)
  have unknown: "''999'' \<notin> a_id ` set [attack_1, standing_defense]"
    by (simp add: attack_1_def standing_defense_def)
  have start: "calls demo_world = []"
    by (simp add: calls_def demo_world_def)
  from unknown_attack_aborts [OF given(1) given(2) demo_loaded_attacks(2) unknown] given(3) start
  show ?thesis
    by simp
qed

lemma detect_phase_0:
  "run_agent env = detect_agent \<Longrightarrow>
     w_fs (snd (phase_0_detect_attacks env ag cf sd m sid w))
       = (w_fs w)\<lparr>files := (case_dir @ [''workspaces'', ''ws'', ''strategies'', ''s1'', ''ATTACKS.json''], attacks_text)
                              # files (w_fs w)\<rparr>"
  by (simp add: phase_0_detect_attacks_def Let_def run_agent_defensive_def detect_agent_def
      split: option.splits)

text \<open>
  C6, as stated, fails when \<open>--auto-detect\<close> is given as well: Phase 0 calls the agent
  before the filter is applied, so the run that ends with "Attack 999 not found" has made
  one agent call.
\<close>

theorem auto_detect_unknown_attack_counterexample:
  "exit_code (fst (main (stub_env detect_agent)
        (demo_args\<lparr>arg_auto_detect := True, arg_attack := Some ''999''\<rparr>) fresh_world)) = 1
   \<and> phases (snd (main (stub_env detect_agent)
        (demo_args\<lparr>arg_auto_detect := True, arg_attack := Some ''999''\<rparr>) fresh_world))
       = [''Phase_0_Attack_Detection'']"
proof -
  let ?env = "stub_env detect_agent"
  let ?args = "demo_args\<lparr>arg_auto_detect := True, arg_attack := Some ''999''\<rparr>"
  let ?w1 = "make_dir (strategy_dir demo_args) fresh_world"
  let ?p0 = "phase_0_detect_attacks ?env (arg_agent demo_args) (arg_case_folder demo_args)
               (strategy_dir demo_args) (arg_motion demo_args) None (detect_banner ?args ?w1)"
  let ?out = "case_dir @ [''workspaces'', ''ws'', ''strategies'', ''s1'', ''ATTACKS.json'']"
  have paths: "arg_case_folder ?args = arg_case_folder demo_args" "workspace_dir ?args = workspace_dir demo_args"
    "strategy_dir ?args = strategy_dir demo_args" "settings_file ?args = settings_file demo_args"
    "attacks_file ?args = ?out"
    by (simp_all add: workspace_dir_def strategy_dir_def settings_file_def attacks_file_def path_join_def
        demo_args_def)
  have flags: "arg_auto_detect ?args" "arg_attack ?args = Some ''999''"
    by (simp_all add: demo_args_def)
  have fs0: "w_fs (snd ?p0) = (w_fs ?w1)\<lparr>files := (?out, attacks_text) # files (w_fs ?w1)\<rparr>"
    by (simp add: detect_phase_0 detect_banner_def Let_def)
  have there: "path_exists (w_fs (snd ?p0)) ?out"
    by (simp add: fs0 path_exists_def)
  have loaded: "load_json_file ?env (w_fs (snd ?p0)) ?out
      = Some \<lparr>d_attacks = Some [attack_1, standing_defense], d_file_search_store_id = None,
               d_other_keys = [''strategy_id'']\<rparr>"
    by (simp add: fs0 stub_load_def attacks_text_def)
  have found: "fst ?p0 = Some ?out"
    using there loaded
    by (simp add: phase_0_result detected_def get_attacks_def demo_paths path_join_def)
  have pre: "path_exists (w_fs fresh_world) (arg_case_folder demo_args)"
    "path_exists (w_fs fresh_world) (workspace_dir demo_args)"
    "load_json_file ?env (w_fs ?w1) (settings_file demo_args)
       = Some \<lparr>d_attacks = None, d_file_search_store_id = None, d_other_keys = []\<rparr>"
    by (simp_all add: demo_paths path_exists_def fresh_world_def demo_dirs_def mkdir_def stub_load_def
        settings_entry_def case_dir_def)
  have "main_attacks ?env ?args fresh_world
      = Inl (Sys_exit 1, log ''Attack 999 not found'' (Some ''ERROR'') (snd ?p0))"
    using pre flags found there loaded
    by (simp add: main_attacks_def main_detect_cases auto_detection_failed_def load_world_def paths Let_def
        get_attacks_def truthy_def str_opt_def attack_1_def standing_defense_def)
  then have m: "main ?env ?args fresh_world
      = (Sys_exit 1, log ''Attack 999 not found'' (Some ''ERROR'') (snd ?p0))"
    by (simp add: main_def)
  have "phases fresh_world = []"
    by (simp add: phases_def calls_def fresh_world_def)
  then have "phases (snd ?p0) = [''Phase_0_Attack_Detection'']"
    by (simp add: phases_phase_0 detect_banner_def Let_def)
  then show ?thesis
    by (simp add: m)
qed

subsection \<open>C4: no phase failure halts the relay\<close>

lemma trace_log: "w_trace (log m l w) = w_trace w @ [Log m l]"
  by (simp add: log_def)

lemma trace_log_files_of: "x \<in> set (w_trace w) \<Longrightarrow> x \<in> set (w_trace (fold (log_files_of args) as w))"
  by (induction as arbitrary: w) (simp_all add: log_files_of_def Let_def trace_log)

lemma relay_done:
  "Log ''DEFENSIVE STRATEGY RELAY COMPLETE'' (Some ''DONE'') \<in> set (w_trace (relay env args sid attacks w))"
  by (simp add: relay_def Let_def split_def trace_log trace_log_files_of)

text \<open>
  C4: whatever the agent does (also when it never creates a file), the loop body makes
  for an attack the calls of Phase A, Phase B and Phase D in this order, each unless its
  resume flag skips it, none depending on the outcome of an earlier one. So once the
  attacks are loaded and at least one is selected, \<open>main\<close> runs to its end: the agent
  calls are those of every selected attack in list order, then that of Phase E, and the
  closing banner is logged. A run that does not reach its end has made no per-attack
  call: its only possible agent call is that of Phase 0.
\<close>

theorem relay_never_halts:
  "phases (process_attack env args sid' list a wa) = phases wa @ attack_calls env args sid' a wa
   \<and> (loaded_attacks env args start = Some attacks \<and> selected_attacks args attacks \<noteq> [] \<longrightarrow>
        fst (main env args start) = Returned
      \<and> (\<exists>sid w1.
            main_attacks env args start = Inr (sid, selected_attacks args attacks, w1)
          \<and> phases (snd (main env args start))
              = phases w1
                @ concat (map (\<lambda>(a, wa). attack_calls env args sid a wa)
                            (zip (selected_attacks args attacks)
                               (attack_starts env args sid (selected_attacks args attacks)
                                  (selected_attacks args attacks)
                                  (loop_start args sid (selected_attacks args attacks) w1))))
                @ [''Phase_E_Gap_Analysis''])
      \<and> (\<forall>a \<in> set (selected_attacks args attacks).
           ''Phase_D_Viability_'' @ a_id a \<in> set (phases (snd (main env args start))))
      \<and> last (phases (snd (main env args start))) = ''Phase_E_Gap_Analysis''
      \<and> Log ''DEFENSIVE STRATEGY RELAY COMPLETE'' (Some ''DONE'') \<in> set (w_trace (snd (main env args start))))
   \<and> (fst (main env args start) \<noteq> Returned \<longrightarrow>
        phases (snd (main env args start)) = phases start
        \<or> phases (snd (main env args start)) = phases start @ [''Phase_0_Attack_Detection''])"
proof (intro conjI impI)
  show "phases (process_attack env args sid' list a wa) = phases wa @ attack_calls env args sid' a wa"
    by (rule phases_process_attack_exact)
next
  assume "loaded_attacks env args start = Some attacks \<and> selected_attacks args attacks \<noteq> []"
  then have some: "selected_attacks args attacks \<noteq> []" and "attacks \<noteq> []"
    and loaded: "loaded_attacks env args start = Some attacks"
    by (auto simp: selected_attacks_def split: if_splits)
  with main_attacks_loaded [OF loaded] obtain sid w1 where run:
    "main_attacks env args start = Inr (sid, selected_attacks args attacks, w1)"
    by auto
  let ?sel = "selected_attacks args attacks"
  let ?ws = "attack_starts env args sid ?sel ?sel (loop_start args sid ?sel w1)"
  have m: "main env args start = (Returned, relay env args sid ?sel w1)"
    using run by (simp add: main_def)
  show "fst (main env args start) = Returned"
    by (simp add: m)
  have seq: "phases (snd (main env args start))
      = phases w1 @ concat (map (\<lambda>(a, wa). attack_calls env args sid a wa) (zip ?sel ?ws))
          @ [''Phase_E_Gap_Analysis'']"
    by (simp add: m phases_relay_exact)
  with run show "\<exists>sid w1.
            main_attacks env args start = Inr (sid, selected_attacks args attacks, w1)
          \<and> phases (snd (main env args start))
              = phases w1
                @ concat (map (\<lambda>(a, wa). attack_calls env args sid a wa)
                            (zip (selected_attacks args attacks)
                               (attack_starts env args sid (selected_attacks args attacks)
                                  (selected_attacks args attacks)
                                  (loop_start args sid (selected_attacks args attacks) w1))))
                @ [''Phase_E_Gap_Analysis'']"
    by blast
  show "\<forall>a \<in> set ?sel. ''Phase_D_Viability_'' @ a_id a \<in> set (phases (snd (main env args start)))"
  proof
    fix a assume "a \<in> set ?sel"
    moreover have "length ?sel = length ?ws"
      by simp
    ultimately obtain wa where "(a, wa) \<in> set (zip ?sel ?ws)"
      by (metis in_set_impl_in_set_zip1)
    moreover have "''Phase_D_Viability_'' @ a_id a \<in> set (attack_calls env args sid a wa)"
      by (simp add: attack_calls_def attack_phases_def)
    ultimately show "''Phase_D_Viability_'' @ a_id a \<in> set (phases (snd (main env args start)))"
      by (force simp: seq)
  qed
  show "last (phases (snd (main env args start))) = ''Phase_E_Gap_Analysis''"
    by (simp add: seq)
  show "Log ''DEFENSIVE STRATEGY RELAY COMPLETE'' (Some ''DONE'') \<in> set (w_trace (snd (main env args start)))"
    by (simp add: m relay_done)
next
  assume early: "fst (main env args start) \<noteq> Returned"
  then obtain st w' where ex: "main_attacks env args start = Inl (st, w')"
    by (cases "main_attacks env args start") (auto simp: main_def)
  then have "main env args start = (st, w')"
    by (simp add: main_def)
  moreover from main_attacks_Inl(2) [OF ex]
  have "phases w' = phases start \<or> phases w' = phases start @ [''Phase_0_Attack_Detection'']"
    by (auto split: if_splits)
  ultimately show "phases (snd (main env args start)) = phases start
        \<or> phases (snd (main env args start)) = phases start @ [''Phase_0_Attack_Detection'']"
    by simp
qed


theorem relay_never_halts_witness:
  "fst (main (stub_env silent_agent) demo_args demo_world) = Returned
   \<and> phases (snd (main (stub_env silent_agent) demo_args demo_world))
       = [''Phase_A_Evidence_001'', ''Phase_B_Counter_Req_001'', ''Phase_D_Viability_001'',
          ''Phase_A_Evidence_002'', ''Phase_B_Counter_Req_002'', ''Phase_D_Viability_002'',
          ''Phase_E_Gap_Analysis'']
   \<and> Log ''DEFENSIVE STRATEGY RELAY COMPLETE'' (Some ''DONE'')
       \<in> set (w_trace (snd (main (stub_env silent_agent) demo_args demo_world)))"
proof -
  let ?env = "stub_env silent_agent"
  let ?as = "[attack_1, standing_defense]"
  have sel: "selected_attacks demo_args ?as = ?as"
    by (simp add: selected_attacks_def truthy_def demo_args_def)
  then have pre: "loaded_attacks ?env demo_args demo_world = Some ?as \<and> selected_attacks demo_args ?as \<noteq> []"
    by (simp add: demo_loaded_attacks(1))
  have flags: "\<not> arg_skip_evidence demo_args" "\<not> arg_skip_counter_req demo_args"
    by (simp_all add: demo_args_def)
  note run = relay_never_halts [where env = ?env and args = demo_args and start = demo_world
      and attacks = ?as, THEN conjunct2, THEN conjunct1, rule_format, OF pre]
  from run obtain sid w1 where r:
    "main_attacks ?env demo_args demo_world = Inr (sid, selected_attacks demo_args ?as, w1)"
    "phases (snd (main ?env demo_args demo_world))
       = phases w1
         @ concat (map (\<lambda>(a, wa). attack_calls ?env demo_args sid a wa)
                     (zip (selected_attacks demo_args ?as)
                        (attack_starts ?env demo_args sid (selected_attacks demo_args ?as)
                           (selected_attacks demo_args ?as)
                           (loop_start demo_args sid (selected_attacks demo_args ?as) w1))))
         @ [''Phase_E_Gap_Analysis'']"
    by blast
  from r(1) have "w1 = make_dir (strategy_dir demo_args) demo_world"
    by (simp add: demo_main_attacks)
  moreover have "phases demo_world = []"
    by (simp add: phases_def calls_def demo_world_def)
  ultimately have start: "phases w1 = []"
    by simp
  have "concat (map (\<lambda>(a, wa). attack_calls ?env demo_args sid a wa)
                  (zip ?as (attack_starts ?env demo_args sid ?as ?as (loop_start demo_args sid ?as w1))))
      = concat (map (attack_phases True True) ?as)"
    using flags by (intro loop_calls_all) simp_all
  with r(2) start have "phases (snd (main ?env demo_args demo_world))
      = concat (map (attack_phases True True) ?as) @ [''Phase_E_Gap_Analysis'']"
    by (simp only: sel append_Nil)
  then have seq: "phases (snd (main ?env demo_args demo_world))
       = [''Phase_A_Evidence_001'', ''Phase_B_Counter_Req_001'', ''Phase_D_Viability_001'',
          ''Phase_A_Evidence_002'', ''Phase_B_Counter_Req_002'', ''Phase_D_Viability_002'',
          ''Phase_E_Gap_Analysis'']"
    by (simp add: attack_phases_def attack_1_def standing_defense_def)
  from run seq show ?thesis
    by blast
qed

end
